(* ===== verification/Prelude.thy ===== *)
theory Prelude
  imports Main
begin

text \<open>
  Shared vocabulary of the development. The TypeScript client throws plain
  \<open>Error\<close> objects (and the JavaScript runtime throws \<open>TypeError\<close> and
  \<open>RangeError\<close>); every throw is modelled as a value of \<open>error\<close>, and an
  asynchronous method that reads and writes an object's fields is modelled as a
  state-and-error computation \<open>('s, 'a) st\<close>: it takes the state, and returns
  the result (\<open>Inl\<close> the error, \<open>Inr\<close> the value) together with the new state,
  or \<open>None\<close> when it never returns (a loop of the source that does not end).
  A thrown error keeps the state reached when it was thrown, as an exception in
  JavaScript keeps every mutation made before it.
\<close>

named_theorems st_simps "unfolding rules of the state-and-error computations"

datatype error =
    ValidationError string   \<comment> \<open>a required identifying argument is missing\<close>
  | ConfigurationError string \<comment> \<open>credentials missing at connect time\<close>
  | OperationError string    \<comment> \<open>the remote tool flagged its result as an error\<close>
  | TransportError           \<comment> \<open>the MCP transport rejected the request\<close>
  | TypeError string         \<comment> \<open>JavaScript runtime: property read on null, non-string \<open>trim\<close>\<close>
  | RangeError string        \<comment> \<open>JavaScript runtime: invalid array length\<close>
  | UnsupportedError string  \<comment> \<open>a method that always throws\<close>
  | SyntaxError string       \<comment> \<open>JavaScript runtime: \<open>JSON.parse\<close> of malformed text\<close>
  | CommandError string      \<comment> \<open>an \<open>Error\<close> thrown by a command handler of the CLI\<close>

type_synonym ('s, 'a) st = "'s \<Rightarrow> ((error + 'a) \<times> 's) option"

definition returnE :: "'a \<Rightarrow> ('s, 'a) st" where
  "returnE a s = Some (Inr a, s)"

definition throwE :: "error \<Rightarrow> ('s, 'a) st" where
  "throwE e s = Some (Inl e, s)"

definition bindE :: "('s, 'a) st \<Rightarrow> ('a \<Rightarrow> ('s, 'b) st) \<Rightarrow> ('s, 'b) st" where
  "bindE m f s =
     (case m s of
        None \<Rightarrow> None
      | Some (Inl e, s') \<Rightarrow> Some (Inl e, s')
      | Some (Inr a, s') \<Rightarrow> f a s')"

definition modifyE :: "('s \<Rightarrow> 's) \<Rightarrow> ('s, unit) st" where
  "modifyE g s = Some (Inr (), g s)"

text \<open>Sequencing of synchronous code that may throw, without state.\<close>

definition bindS :: "error + 'a \<Rightarrow> ('a \<Rightarrow> error + 'b) \<Rightarrow> error + 'b" where
  "bindS x f = (case x of Inl e \<Rightarrow> Inl e | Inr a \<Rightarrow> f a)"

text \<open>\<open>xs.map(f)\<close> with a callback that may throw: the first exception, in order, propagates.\<close>

primrec mapS :: "('a \<Rightarrow> error + 'b) \<Rightarrow> 'a list \<Rightarrow> error + 'b list" where
  "mapS f [] = Inr []"
| "mapS f (x # xs) = bindS (f x) (\<lambda>y. bindS (mapS f xs) (\<lambda>ys. Inr (y # ys)))"

subsection \<open>Strings and lists\<close>

text \<open>Decimal rendering of a natural number, as JavaScript's \<open>String(n)\<close>.\<close>

fun string_of_nat :: "nat \<Rightarrow> string" where
  "string_of_nat n =
     (if n < 10 then [char_of (48 + n)] else string_of_nat (n div 10) @ [char_of (48 + n mod 10)])"

definition string_of_int :: "int \<Rightarrow> string" where
  "string_of_int i = (if i < 0 then CHR ''-'' # string_of_nat (nat (- i)) else string_of_nat (nat i))"

text \<open>\<open>xs.join(sep)\<close> on strings.\<close>

fun join :: "string \<Rightarrow> string list \<Rightarrow> string" where
  "join sep [] = []"
| "join sep [x] = x"
| "join sep (x # xs) = x @ sep @ join sep xs"

text \<open>Association lists whose keys are pairwise distinct, as the keys of a JavaScript object.\<close>

abbreviation distinct_keys :: "('k \<times> 'v) list \<Rightarrow> bool" where
  "distinct_keys fs \<equiv> distinct (map fst fs)"

declare string_of_nat.simps [simp del]

lemma returnE_apply [simp, st_simps]: "returnE a s = Some (Inr a, s)"
  by (simp add: returnE_def)

lemma throwE_apply [simp, st_simps]: "throwE e s = Some (Inl e, s)"
  by (simp add: throwE_def)

lemma modifyE_apply [simp, st_simps]: "modifyE g s = Some (Inr (), g s)"
  by (simp add: modifyE_def)

lemma bindE_None [simp, st_simps]: "m s = None \<Longrightarrow> bindE m f s = None"
  by (simp add: bindE_def)

lemma bindE_Inl [simp, st_simps]: "m s = Some (Inl e, s') \<Longrightarrow> bindE m f s = Some (Inl e, s')"
  by (simp add: bindE_def)

lemma bindE_Inr [simp, st_simps]: "m s = Some (Inr a, s') \<Longrightarrow> bindE m f s = f a s'"
  by (simp add: bindE_def)

lemma bindS_simps [simp, st_simps]:
  "bindS (Inl e) f = Inl e"
  "bindS (Inr a) f = f a"
  by (simp_all add: bindS_def)

lemma bindS_Inr_iff: "bindS x f = Inr b \<longleftrightarrow> (\<exists>a. x = Inr a \<and> f a = Inr b)"
  by (cases x) simp_all

lemma bindE_returnE [simp]: "bindE (returnE a) f = f a"
  by (simp add: bindE_def fun_eq_iff)

lemma bindE_throwE [simp]: "bindE (throwE e) f = throwE e"
  by (simp add: bindE_def fun_eq_iff)

lemma bindE_assoc: "bindE (bindE m f) g = bindE m (\<lambda>a. bindE (f a) g)"
  by (simp add: bindE_def fun_eq_iff split: option.splits prod.splits sum.splits)

text \<open>
  Inversion of a sequential composition: a run of \<open>bindE m f\<close> that returns is a
  run of \<open>m\<close> that failed, or a successful one followed by a run of \<open>f\<close>.
\<close>

lemma bindE_cases [consumes 1, case_names fail ok]:
  assumes "bindE m f s = Some (r, t)"
  obtains (fail) e where "m s = Some (Inl e, t)" and "r = Inl e"
    | (ok) a s' where "m s = Some (Inr a, s')" and "f a s' = Some (r, t)"
  using assms by (cases "m s") (auto simp: bindE_def split: sum.splits)

lemma bindE_Inr_iff:
  "bindE m f s = Some (Inr b, t) \<longleftrightarrow> (\<exists>a s'. m s = Some (Inr a, s') \<and> f a s' = Some (Inr b, t))"
  by (cases "m s") (auto simp: bindE_def split: sum.splits)

lemma string_of_nat_nonempty [simp]: "string_of_nat n \<noteq> []"
  by (subst string_of_nat.simps) simp

lemma map_of_filter_keep [simp]:
  "P (k, v) \<Longrightarrow> map_of fs k = Some v \<Longrightarrow> map_of (filter P fs) k = Some v"
  by (induction fs) auto

lemma map_of_filter_other:
  "(\<And>v. P (k, v)) \<Longrightarrow> map_of (filter P fs) k = map_of fs k"
  by (induction fs) auto

end
