(* ===== verification/Js_Value.thy ===== *)
theory Js_Value
  imports Prelude
begin

text \<open>
  The values the client handles without a schema: the arguments it sends to the
  MCP tools, the parsed tool results, the cached values and the serial indexes.
  They are JavaScript values restricted to what JSON and the code produce:
  \<open>undefined\<close>, \<open>null\<close>, booleans, numbers (integers here: every number of
  the code is a count, a limit or an offset), strings, arrays and plain objects
  (an association list in property order). The theory gives the JavaScript
  operations the code applies to them: truthiness (\<open>if (x)\<close>, \<open>x || y\<close>),
  property reads (\<open>x.p\<close>, which throws on \<open>null\<close> and \<open>undefined\<close>, and
  \<open>x?.p\<close>, which does not), \<open>Array.isArray\<close>, and the serial-number
  normalisation \<open>s.trim().toUpperCase()\<close> of \<^verbatim>\<open>src/scripts/mcp-client.ts\<close>.
\<close>

datatype jsval =
    JUndef
  | JNull
  | JBool bool
  | JNum int
  | JStr string
  | JArr "jsval list"
  | JObj "(string \<times> jsval) list"

text \<open>JavaScript truthiness: \<open>undefined\<close>, \<open>null\<close>, \<open>false\<close>, \<open>0\<close> and the empty string are falsy.\<close>

fun truthy :: "jsval \<Rightarrow> bool" where
  "truthy JUndef = False"
| "truthy JNull = False"
| "truthy (JBool b) = b"
| "truthy (JNum n) = (n \<noteq> 0)"
| "truthy (JStr s) = (s \<noteq> [])"
| "truthy (JArr _) = True"
| "truthy (JObj _) = True"

text \<open>\<open>a || b\<close>\<close>

definition js_or :: "jsval \<Rightarrow> jsval \<Rightarrow> jsval" where
  "js_or a b = (if truthy a then a else b)"

text \<open>\<open>typeof v\<close>: \<open>null\<close> and arrays are of type \<open>object\<close>.\<close>

fun js_typeof :: "jsval \<Rightarrow> string" where
  "js_typeof JUndef = ''undefined''"
| "js_typeof JNull = ''object''"
| "js_typeof (JBool _) = ''boolean''"
| "js_typeof (JNum _) = ''number''"
| "js_typeof (JStr _) = ''string''"
| "js_typeof (JArr _) = ''object''"
| "js_typeof (JObj _) = ''object''"

fun is_array :: "jsval \<Rightarrow> bool" where
  "is_array (JArr _) = True"
| "is_array _ = False"

text \<open>
  \<open>x.p\<close> for a named property \<open>p\<close> (never an array index or \<open>length\<close> in the
  code modelled): a read on \<open>null\<close> or \<open>undefined\<close> throws a \<open>TypeError\<close>, a
  read on another primitive or on an array gives \<open>undefined\<close>, a read on an
  object gives the property or \<open>undefined\<close>.
\<close>

fun get_prop :: "jsval \<Rightarrow> string \<Rightarrow> error + jsval" where
  "get_prop JUndef p = Inl (TypeError (''Cannot read properties of undefined (reading '' @ p @ '')''))"
| "get_prop JNull p = Inl (TypeError (''Cannot read properties of null (reading '' @ p @ '')''))"
| "get_prop (JObj fs) p = Inr (case map_of fs p of None \<Rightarrow> JUndef | Some v \<Rightarrow> v)"
| "get_prop _ p = Inr JUndef"

text \<open>\<open>x?.p\<close>: optional chaining never throws.\<close>

definition get_opt :: "jsval \<Rightarrow> string \<Rightarrow> jsval" where
  "get_opt v p = (case get_prop v p of Inl _ \<Rightarrow> JUndef | Inr w \<Rightarrow> w)"

text \<open>\<open>o[k] = v\<close> on a plain object: an existing property keeps its position.\<close>

definition obj_set :: "(string \<times> jsval) list \<Rightarrow> string \<Rightarrow> jsval \<Rightarrow> (string \<times> jsval) list" where
  "obj_set fs k v =
     (if k \<in> set (map fst fs) then map (\<lambda>(k', w). if k' = k then (k', v) else (k', w)) fs
      else fs @ [(k, v)])"

text \<open>
  \<open>String(v)\<close>, as a template literal \<open>`${v}`\<close> converts a value: an array
  joins its elements with commas (\<open>null\<close> and \<open>undefined\<close> elements give the
  empty string) and a plain object gives \<open>[object Object]\<close>.
\<close>

fun js_to_string :: "jsval \<Rightarrow> string" where
  "js_to_string JUndef = ''undefined''"
| "js_to_string JNull = ''null''"
| "js_to_string (JBool b) = (if b then ''true'' else ''false'')"
| "js_to_string (JNum n) = string_of_int n"
| "js_to_string (JStr s) = s"
| "js_to_string (JArr vs) =
     join '','' (map (\<lambda>v. if v = JUndef \<or> v = JNull then [] else js_to_string v) vs)"
| "js_to_string (JObj _) = ''[object Object]''"

subsection \<open>Serial-number normalisation\<close>

text \<open>
  \<open>String.prototype.trim\<close> removes leading and trailing white space and line
  terminators; \<open>toUpperCase\<close> maps lower-case letters to upper case. The model
  covers the ASCII range: tab, line feed, vertical tab, form feed, carriage
  return and space, and the letters a to z.
\<close>

definition is_ws :: "char \<Rightarrow> bool" where
  "is_ws c \<longleftrightarrow> of_char c \<in> {9, 10, 11, 12, 13, 32 :: nat}"

definition trim :: "string \<Rightarrow> string" where
  "trim s = rev (dropWhile is_ws (rev (dropWhile is_ws s)))"

definition upper_char :: "char \<Rightarrow> char" where
  "upper_char c = (if 97 \<le> (of_char c :: nat) \<and> (of_char c :: nat) \<le> 122
                   then char_of (of_char c - (32 :: nat)) else c)"

definition to_upper :: "string \<Rightarrow> string" where
  "to_upper s = map upper_char s"

text \<open>\<open>serial.trim().toUpperCase()\<close>, mcp-client.ts lines 1038, 1091, 1229, 1269.\<close>

definition normalize_serial :: "string \<Rightarrow> string" where
  "normalize_serial s = to_upper (trim s)"

subsection \<open>Lemmas\<close>

lemma is_ws_upper_char [simp]: "is_ws (upper_char c) = is_ws c"
  by (auto simp: is_ws_def upper_char_def)

lemma upper_char_idem [simp]: "upper_char (upper_char c) = upper_char c"
proof (cases "97 \<le> (of_char c :: nat) \<and> (of_char c :: nat) \<le> 122")
  case True
  then have "(of_char c - 32) mod 256 = (of_char c - 32 :: nat)" by (intro mod_less) arith
  with True show ?thesis by (simp add: upper_char_def) arith
next
  case False
  then have "upper_char c = c" by (auto simp: upper_char_def)
  then show ?thesis by simp
qed

lemma trim_map_upper: "trim (map upper_char s) = map upper_char (trim s)"
  by (simp add: trim_def dropWhile_map rev_map comp_def)

lemma trim_no_leading: "dropWhile is_ws (trim s) = trim s"
proof (cases "trim s")
  case Nil
  then show ?thesis by simp
next
  case (Cons c cs)
  let ?t1 = "dropWhile is_ws s"
  let ?u = "dropWhile is_ws (rev ?t1)"
  have u: "trim s = rev ?u" by (simp add: trim_def)
  with Cons have "?u \<noteq> []" by auto
  then obtain x where x: "x \<in> set (rev ?t1)" "\<not> is_ws x"
    by (metis dropWhile_eq_Nil_conv)
  then have "last ?u = last (rev ?t1)" by (rule dropWhile_last)
  moreover have "?t1 \<noteq> []" using x by (auto dest: set_dropWhileD)
  ultimately have "last ?u = hd ?t1" by (simp add: last_rev)
  then have "\<not> is_ws (hd (trim s))"
    using u \<open>?u \<noteq> []\<close> \<open>?t1 \<noteq> []\<close> hd_dropWhile by (simp add: hd_rev)
  then show ?thesis by (simp add: dropWhile_eq_self_iff)
qed

lemma trim_idem [simp]: "trim (trim s) = trim s"
proof -
  have "dropWhile is_ws (rev (trim s)) = rev (trim s)"
    by (simp add: trim_def)
  then show ?thesis
    by (metis trim_def trim_no_leading rev_rev_ident)
qed

lemma normalize_serial_idem: "normalize_serial (normalize_serial s) = normalize_serial s"
  by (simp add: normalize_serial_def to_upper_def trim_map_upper comp_def)

end
