(* ===== verification/Gateway.thy ===== *)
theory Gateway
  imports Js_Value
begin

text \<open>
  The remote operation gateway: \<open>connect\<close>, \<open>disconnect\<close> and \<open>callTool\<close> of
  \<open>InFlowMCPClient\<close> (\<^verbatim>\<open>src/scripts/mcp-client.ts\<close>, lines 99 to 184). The
  MCP server is a black box (specification, section 6): a function \<open>svc\<close> from
  the calls made so far, a tool name and the argument object to the tool's result,
  or \<open>None\<close> when the transport rejects the request. Making the answer depend on
  the history of calls lets a write change what later reads return. The client's
  connection state is a record \<open>conn\<close>: the \<open>connected\<close> flag and the log of
  the calls it has issued, oldest first. \<open>JSON.parse\<close> is a parameter of the
  server record (it is the runtime's, not the repository's): \<open>None\<close> where it
  throws; so is \<open>parseFloat\<close>, whose results are not all integers and which the
  model leaves abstract as \<open>parse_float\<close>. \<open>tool_list\<close> is the server's
  answer to the SDK's \<open>listTools\<close> request, \<open>None\<close> when the transport rejects it.
\<close>

record content_item =
  ctype :: string
  ctext :: "string option"

record tool_result =
  is_error :: bool
  content :: "content_item list"

record server =
  proc_env :: "string \<rightharpoonup> string"
  config_env :: "string \<rightharpoonup> string"
  transport_up :: bool
  svc :: "(string \<times> jsval) list \<Rightarrow> string \<Rightarrow> jsval \<Rightarrow> tool_result option"
  json_parse :: "string \<Rightarrow> jsval option"
  tool_list :: "jsval list option"
  parse_float :: "string \<Rightarrow> jsval"

text \<open>
  \<open>transports\<close> counts the \<open>StdioClientTransport\<close>s (with their \<open>Client\<close>s)
  \<open>connect\<close> has created: each one starts an MCP server process.
\<close>

record conn =
  connected :: bool
  calls :: "(string \<times> jsval) list"
  transports :: nat

text \<open>\<open>!env.X\<close>: a variable is missing when it is unset or empty.\<close>

definition env_set :: "(string \<rightharpoonup> string) \<Rightarrow> string \<Rightarrow> bool" where
  "env_set env x = (case env x of None \<Rightarrow> False | Some v \<Rightarrow> v \<noteq> [])"

definition api_key_msg :: string where
  "api_key_msg = ''INFLOW_API_KEY environment variable is not set. Please export it in your shell or add it to ~/.bashrc''"

definition company_id_msg :: string where
  "company_id_msg = ''INFLOW_COMPANY_ID environment variable is not set. Please export it in your shell or add it to ~/.bashrc''"

text \<open>
  \<open>connect()\<close>: a no-op once connected; otherwise the process environment
  overridden by the configured one (\<open>{...process.env, ...config.mcpServer.env}\<close>)
  must set both credentials; then a new transport and client are created and the
  client connects over the transport, which fails when the server does not come up.
\<close>

definition connect :: "server \<Rightarrow> (conn, unit) st" where
  "connect srv c =
     (if connected c then Some (Inr (), c)
      else let env = proc_env srv ++ config_env srv in
        if \<not> env_set env ''INFLOW_API_KEY'' then Some (Inl (ConfigurationError api_key_msg), c)
        else if \<not> env_set env ''INFLOW_COMPANY_ID'' then Some (Inl (ConfigurationError company_id_msg), c)
        else let c1 = c\<lparr>transports := Suc (transports c)\<rparr> in
          if \<not> transport_up srv then Some (Inl TransportError, c1)
          else Some (Inr (), c1\<lparr>connected := True\<rparr>))"

definition disconnect :: "(conn, unit) st" where
  "disconnect c = Some (Inr (), c\<lparr>connected := False\<rparr>)"

text \<open>The \<open>content\<close> array of a result, as the JavaScript value \<open>callTool\<close> returns.\<close>

definition content_json :: "tool_result \<Rightarrow> jsval" where
  "content_json r =
     JArr (map (\<lambda>x. JObj ((''type'', JStr (ctype x)) #
                          (case ctext x of None \<Rightarrow> [] | Some t \<Rightarrow> [(''text'', JStr t)])))
               (content r))"

definition first_text :: "tool_result \<Rightarrow> string option" where
  "first_text r = (case find (\<lambda>x. ctype x = ''text'') (content r) of None \<Rightarrow> None | Some x \<Rightarrow> ctext x)"

text \<open>
  The normalisation of a result (lines 169 to 183): an error result throws its
  first text (or \<open>Tool call failed\<close>); otherwise a non-empty first text is parsed
  as JSON, falling back to the raw text; without text the content array is returned.
\<close>

definition interpret_result :: "server \<Rightarrow> tool_result \<Rightarrow> error + jsval" where
  "interpret_result srv r =
     (if is_error r then
        Inl (OperationError (case first_text r of Some t \<Rightarrow> if t \<noteq> [] then t else ''Tool call failed''
                                              | None \<Rightarrow> ''Tool call failed''))
      else case first_text r of
        Some t \<Rightarrow> if t \<noteq> [] then (case json_parse srv t of Some v \<Rightarrow> Inr v | None \<Rightarrow> Inr (JStr t))
                  else Inr (content_json r)
      | None \<Rightarrow> Inr (content_json r))"

definition call_tool :: "server \<Rightarrow> string \<Rightarrow> jsval \<Rightarrow> (conn, jsval) st" where
  "call_tool srv name args =
     bindE (connect srv)
       (\<lambda>_ c. let c' = c\<lparr>calls := calls c @ [(name, args)]\<rparr> in
              case svc srv (calls c) name args of
                None \<Rightarrow> Some (Inl TransportError, c')
              | Some r \<Rightarrow> Some (interpret_result srv r, c'))"

text \<open>\<open>listTools()\<close> (lines 150 to 154): connect, then the SDK's tool list.\<close>

definition list_tools :: "server \<Rightarrow> (conn, jsval) st" where
  "list_tools srv =
     bindE (connect srv)
       (\<lambda>_ c. case tool_list srv of None \<Rightarrow> Some (Inl TransportError, c) | Some ts \<Rightarrow> Some (Inr (JArr ts), c))"

subsection \<open>Lemmas\<close>

lemma connect_connected [simp]: "connected c \<Longrightarrow> connect srv c = Some (Inr (), c)"
  by (simp add: connect_def)

lemma connect_returns: "\<exists>r c'. connect srv c = Some (r, c')"
  by (simp add: connect_def Let_def)

lemma connect_calls: "connect srv c = Some (r, c') \<Longrightarrow> calls c' = calls c"
  by (auto simp: connect_def Let_def split: if_splits)

text \<open>
  C13. Connecting is idempotent: after a successful \<open>connect\<close> the client is
  connected and a second \<open>connect\<close> is a no-op; in particular it creates no
  second transport (no second server process).
\<close>

theorem connect_idempotent:
  "connect srv c = Some (Inr u, c') \<Longrightarrow> connected c' \<and> connect srv c' = Some (Inr (), c')"
  by (auto simp: connect_def Let_def split: if_splits)

text \<open>
  C14. A client that is not connected fails to connect with a configuration error
  exactly when the merged environment lacks \<open>INFLOW_API_KEY\<close> or
  \<open>INFLOW_COMPANY_ID\<close> (unset or empty); the connection state is unchanged.
\<close>

theorem connect_requires_credentials:
  "\<not> connected c \<Longrightarrow>
   (\<exists>m. connect srv c = Some (Inl (ConfigurationError m), c)) \<longleftrightarrow>
   \<not> env_set (proc_env srv ++ config_env srv) ''INFLOW_API_KEY'' \<or>
   \<not> env_set (proc_env srv ++ config_env srv) ''INFLOW_COMPANY_ID''"
  by (simp add: connect_def Let_def)

lemma call_tool_connected:
  "connected c \<Longrightarrow> call_tool srv name args c =
     Some (case svc srv (calls c) name args of None \<Rightarrow> Inl TransportError | Some r \<Rightarrow> interpret_result srv r,
           c\<lparr>calls := calls c @ [(name, args)]\<rparr>)"
  by (simp add: call_tool_def split: option.splits)

lemma call_tool_returns: "\<exists>r c'. call_tool srv name args c = Some (r, c')"
proof -
  obtain r c1 where cn: "connect srv c = Some (r, c1)" using connect_returns by blast
  show ?thesis
  proof (cases r)
    case (Inl e)
    with cn show ?thesis by (simp add: call_tool_def)
  next
    case (Inr u)
    with cn show ?thesis by (simp add: call_tool_def Let_def split: option.splits)
  qed
qed

lemma interpret_result_success:
  "\<not> is_error r \<Longrightarrow> \<exists>v. interpret_result srv r = Inr v"
  by (simp add: interpret_result_def split: option.splits)

lemma interpret_result_error:
  "is_error r \<Longrightarrow> first_text r = Some t \<Longrightarrow> t \<noteq> [] \<Longrightarrow> interpret_result srv r = Inl (OperationError t)"
  by (simp add: interpret_result_def)

lemma interpret_result_fallback:
  "\<not> is_error r \<Longrightarrow> first_text r = Some t \<Longrightarrow> t \<noteq> [] \<Longrightarrow> json_parse srv t = None \<Longrightarrow>
   interpret_result srv r = Inr (JStr t)"
  by (simp add: interpret_result_def)

text \<open>
  C15. A tool result that is not flagged as an error never makes \<open>callTool\<close>
  throw: its text is parsed as JSON, or returned raw when parsing fails, or the
  content array is returned; the call is logged once.
\<close>

theorem call_tool_success_never_throws:
  "connected c \<Longrightarrow> svc srv (calls c) name args = Some r \<Longrightarrow> \<not> is_error r \<Longrightarrow>
   \<exists>v. call_tool srv name args c = Some (Inr v, c\<lparr>calls := calls c @ [(name, args)]\<rparr>)"
  using interpret_result_success [of r srv] by (auto simp: call_tool_connected)

text \<open>
  C16. A tool result flagged as an error makes \<open>callTool\<close> throw an operation
  error carrying the remote message verbatim.
\<close>

theorem call_tool_error_message:
  "connected c \<Longrightarrow> svc srv (calls c) name args = Some r \<Longrightarrow> is_error r \<Longrightarrow>
   first_text r = Some t \<Longrightarrow> t \<noteq> [] \<Longrightarrow>
   call_tool srv name args c = Some (Inl (OperationError t), c\<lparr>calls := calls c @ [(name, args)]\<rparr>)"
  by (simp add: call_tool_connected interpret_result_error)

end
