(* ===== verification/Cache_Store.thy ===== *)
theory Cache_Store
  imports Prelude "HOL-Library.Mapping" "HOL-Library.AList_Mapping"
begin

text \<open>
  The cache store \<open>PluginCache\<close> of the package \<open>@local/plugin-cache\<close>, which
  \<^verbatim>\<open>src/scripts/mcp-client.ts\<close> imports (line 14) and instantiates once per process
  (lines 29 to 32, namespace \<open>inflow-inventory-manager\<close>, default TTL five
  minutes). The package is not part of the repository, so this theory follows its
  contract in the specification (section 4.1): a key-value store with a per-entry
  expiry time, hit and miss counters, removal of one key, of every key matching a
  pattern, or of all keys, and a global switch. The store is generic in the cached
  value \<open>'v\<close> and in the state \<open>'w\<close> that a producer reads and writes.

  Time is an integer clock \<open>now\<close> in seconds, passed to every operation that
  reads it; a TTL is in seconds too. An entry written at \<open>now\<close> with TTL
  \<open>ttl\<close> expires at \<open>now + ttl\<close> and is visible while the clock is below that;
  expiry is lazy: an expired entry stays stored until a read of its key evicts it.
  The only patterns the client passes are anchored prefixes (\<open>/^stock/\<close>), so a
  pattern is a prefix here.
\<close>

record 'v entry =
  cached_value :: 'v
  expires_at :: int

record 'v cache =
  cache_namespace :: string
  default_ttl :: int
  entries :: "(string, 'v entry) mapping"
  hits :: nat
  misses :: nat
  enabled :: bool

record cache_stats =
  stat_hits :: nat
  stat_misses :: nat
  stat_size :: nat

datatype pattern = Prefix string

definition new_cache :: "string \<Rightarrow> int \<Rightarrow> 'v cache" where
  "new_cache ns ttl =
     \<lparr>cache_namespace = ns, default_ttl = ttl, entries = Mapping.empty,
      hits = 0, misses = 0, enabled = True\<rparr>"

fun matches :: "pattern \<Rightarrow> string \<Rightarrow> bool" where
  "matches (Prefix p) k = (take (length p) k = p)"

text \<open>The value a reader sees for a key at time \<open>now\<close>: a stored entry that has not expired.\<close>

definition fresh_value :: "'v cache \<Rightarrow> int \<Rightarrow> string \<Rightarrow> 'v option" where
  "fresh_value c now k =
     (case Mapping.lookup (entries c) k of
        None \<Rightarrow> None
      | Some e \<Rightarrow> if now < expires_at e then Some (cached_value e) else None)"

text \<open>A miss: count it, run the producer, store a successful result until \<open>now + ttl\<close>.\<close>

definition fetch_and_store ::
  "string \<Rightarrow> ('w, 'v) st \<Rightarrow> int \<Rightarrow> int \<Rightarrow> 'v cache \<Rightarrow> 'w \<Rightarrow> ((error + 'v) \<times> 'v cache \<times> 'w) option" where
  "fetch_and_store key producer ttl now c w =
     (let c1 = c\<lparr>misses := Suc (misses c)\<rparr> in
      case producer w of
        None \<Rightarrow> None
      | Some (Inl e, w') \<Rightarrow> Some (Inl e, c1, w')
      | Some (Inr v, w') \<Rightarrow>
          Some (Inr v, c1\<lparr>entries := Mapping.update key \<lparr>cached_value = v, expires_at = now + ttl\<rparr> (entries c1)\<rparr>, w'))"

text \<open>
  \<open>getOrFetch(key, producer, {ttl, bypassCache})\<close>: with the cache disabled or
  bypassed the producer runs and the store is neither read nor written; otherwise
  an unexpired entry is a hit and the producer does not run, and an expired entry
  is evicted before the miss. A producer that never returns makes the call never
  return; a producer that throws leaves the store without an entry for the key.
\<close>

definition get_or_fetch ::
  "string \<Rightarrow> ('w, 'v) st \<Rightarrow> int \<Rightarrow> bool \<Rightarrow> int \<Rightarrow> 'v cache \<Rightarrow> 'w \<Rightarrow> ((error + 'v) \<times> 'v cache \<times> 'w) option" where
  "get_or_fetch key producer ttl bypass now c w =
     (if \<not> enabled c \<or> bypass then map_option (\<lambda>(r, w'). (r, c, w')) (producer w)
      else case Mapping.lookup (entries c) key of
        None \<Rightarrow> fetch_and_store key producer ttl now c w
      | Some e \<Rightarrow>
          if now < expires_at e then Some (Inr (cached_value e), c\<lparr>hits := Suc (hits c)\<rparr>, w)
          else fetch_and_store key producer ttl now (c\<lparr>entries := Mapping.delete key (entries c)\<rparr>) w)"

text \<open>\<open>invalidate(key)\<close>: whether an entry was stored, and the store without it.\<close>

definition invalidate :: "string \<Rightarrow> 'v cache \<Rightarrow> bool \<times> 'v cache" where
  "invalidate key c =
     (Mapping.lookup (entries c) key \<noteq> None, c\<lparr>entries := Mapping.delete key (entries c)\<rparr>)"

text \<open>\<open>invalidatePattern(re)\<close>: the number of entries removed, and the store without them.\<close>

definition invalidate_pattern :: "pattern \<Rightarrow> 'v cache \<Rightarrow> nat \<times> 'v cache" where
  "invalidate_pattern p c =
     (Mapping.size (Mapping.filter (\<lambda>k _. matches p k) (entries c)),
      c\<lparr>entries := Mapping.filter (\<lambda>k _. \<not> matches p k) (entries c)\<rparr>)"

text \<open>Several \<open>invalidatePattern\<close> calls in a row, their counts discarded.\<close>

definition invalidate_patterns :: "pattern list \<Rightarrow> 'v cache \<Rightarrow> 'v cache" where
  "invalidate_patterns ps c = fold (\<lambda>p c. snd (invalidate_pattern p c)) ps c"

text \<open>\<open>clear()\<close>: the number of entries removed; the counters are kept.\<close>

definition clear :: "'v cache \<Rightarrow> nat \<times> 'v cache" where
  "clear c = (Mapping.size (entries c), c\<lparr>entries := Mapping.empty\<rparr>)"

definition enable :: "'v cache \<Rightarrow> 'v cache" where
  "enable c = c\<lparr>enabled := True\<rparr>"

definition disable :: "'v cache \<Rightarrow> 'v cache" where
  "disable c = c\<lparr>enabled := False\<rparr>"

definition get_stats :: "'v cache \<Rightarrow> cache_stats" where
  "get_stats c = \<lparr>stat_hits = hits c, stat_misses = misses c, stat_size = Mapping.size (entries c)\<rparr>"

text \<open>
  The abstract contract of a cache: it is coherent with a source of truth
  \<open>truth\<close> at time \<open>now\<close> when every value a reader can see is the true one.
\<close>

definition coherent :: "(string \<Rightarrow> 'v) \<Rightarrow> int \<Rightarrow> 'v cache \<Rightarrow> bool" where
  "coherent truth now c \<longleftrightarrow> (\<forall>k v. fresh_value c now k = Some v \<longrightarrow> v = truth k)"

subsection \<open>Lemmas\<close>

lemma delete_absent [simp]: "Mapping.lookup m k = None \<Longrightarrow> Mapping.delete k m = m"
  by (simp add: keys_is_none_rep)

lemma lookup_delete': "Mapping.lookup (Mapping.delete k m) k' = (if k = k' then None else Mapping.lookup m k')"
  by simp

lemma fetch_and_store_apply:
  "fetch_and_store key producer ttl now c w =
     (case producer w of
        None \<Rightarrow> None
      | Some (Inl e, w') \<Rightarrow> Some (Inl e, c\<lparr>misses := Suc (misses c)\<rparr>, w')
      | Some (Inr v, w') \<Rightarrow> Some (Inr v, c\<lparr>misses := Suc (misses c),
            entries := Mapping.update key \<lparr>cached_value = v, expires_at = now + ttl\<rparr> (entries c)\<rparr>, w'))"
  by (simp add: fetch_and_store_def split: option.splits prod.splits sum.splits)

lemma get_or_fetch_bypass:
  "\<not> enabled c \<or> bypass \<Longrightarrow>
   get_or_fetch key producer ttl bypass now c w = map_option (\<lambda>(r, w'). (r, c, w')) (producer w)"
  by (simp add: get_or_fetch_def)

lemma get_or_fetch_hit:
  "enabled c \<Longrightarrow> fresh_value c now key = Some v \<Longrightarrow>
   get_or_fetch key producer ttl False now c w = Some (Inr v, c\<lparr>hits := Suc (hits c)\<rparr>, w)"
  by (auto simp: get_or_fetch_def fresh_value_def split: option.splits if_splits)

lemma get_or_fetch_miss:
  "enabled c \<Longrightarrow> fresh_value c now key = None \<Longrightarrow>
   get_or_fetch key producer ttl False now c w =
     fetch_and_store key producer ttl now (c\<lparr>entries := Mapping.delete key (entries c)\<rparr>) w"
  by (auto simp: get_or_fetch_def fresh_value_def split: option.splits if_splits)

lemma fresh_after_store:
  assumes "enabled c" and "fresh_value c now key = None" and "producer w = Some (Inr v, w1)"
    and "get_or_fetch key producer ttl False now c w = Some (r, c1, w')"
  shows "r = Inr v" and "w' = w1" and "enabled c1" and "hits c1 = hits c" and "misses c1 = Suc (misses c)"
    and "Mapping.lookup (entries c1) key = Some \<lparr>cached_value = v, expires_at = now + ttl\<rparr>"
  using assms by (auto simp: get_or_fetch_miss fetch_and_store_apply)

theorem get_or_fetch_serves_first:
  assumes "enabled c" and "fresh_value c now key = None" and "producer1 w = Some (Inr v, w1)"
    and "get_or_fetch key producer1 ttl False now c w = Some (r1, c1, w1')"
    and "now \<le> now'" and "now' < now + ttl"
  shows "r1 = Inr v \<and> get_or_fetch key producer2 ttl2 False now' c1 w2 = Some (Inr v, c1\<lparr>hits := Suc (hits c1)\<rparr>, w2)"
proof -
  note st = fresh_after_store [OF assms(1-4)]
  from st(6) assms(5,6) have "fresh_value c1 now' key = Some v"
    by (simp add: fresh_value_def)
  with st(1,3) show ?thesis by (simp add: get_or_fetch_hit)
qed

theorem get_or_fetch_refetches_after_ttl:
  assumes "enabled c" and "fresh_value c now key = None" and "producer1 w = Some (Inr v, w1)"
    and "get_or_fetch key producer1 ttl False now c w = Some (r1, c1, w1')"
    and "now + ttl \<le> now'"
  shows "map_option fst (get_or_fetch key producer2 ttl2 False now' c1 w2) = map_option fst (producer2 w2)"
proof -
  note st = fresh_after_store [OF assms(1-4)]
  from st(6) assms(5) have "fresh_value c1 now' key = None"
    by (simp add: fresh_value_def)
  with st(3) show ?thesis
    by (simp add: get_or_fetch_miss fetch_and_store_apply split: option.splits prod.splits sum.splits)
qed

lemma invalidate_pattern_lookup:
  "Mapping.lookup (entries (snd (invalidate_pattern p c))) k =
     (if matches p k then None else Mapping.lookup (entries c) k)"
  by (simp add: invalidate_pattern_def lookup_filter split: option.splits)

lemma fresh_value_invalidate_pattern:
  "fresh_value (snd (invalidate_pattern p c)) now k = (if matches p k then None else fresh_value c now k)"
  by (simp add: fresh_value_def invalidate_pattern_lookup)

lemma coherent_later: "coherent truth now c \<Longrightarrow> now \<le> now' \<Longrightarrow> coherent truth now' c"
  by (auto simp: coherent_def fresh_value_def split: option.splits if_splits)

theorem get_or_fetch_refines:
  assumes "coherent truth now c"
    and "\<And>v w'. producer w = Some (Inr v, w') \<Longrightarrow> v = truth key"
    and "get_or_fetch key producer ttl bypass now c w = Some (r, c', w')"
  shows "coherent truth now c' \<and> (\<forall>v. r = Inr v \<longrightarrow> v = truth key)"
  using assms
  by (auto simp: get_or_fetch_def fetch_and_store_apply coherent_def fresh_value_def lookup_update' lookup_delete'
      split: if_splits option.splits prod.splits sum.splits)

theorem invalidate_pattern_restores_coherence:
  assumes "coherent truth now c" and "\<And>k. truth' k \<noteq> truth k \<Longrightarrow> matches p k"
  shows "coherent truth' now (snd (invalidate_pattern p c))"
  unfolding coherent_def fresh_value_invalidate_pattern
proof (intro allI impI)
  fix k v
  assume "(if matches p k then None else fresh_value c now k) = Some v"
  then have "\<not> matches p k" and "fresh_value c now k = Some v" by (auto split: if_splits)
  with assms show "v = truth' k" by (metis coherent_def)
qed

lemma fresh_value_invalidate_patterns:
  "fresh_value (invalidate_patterns ps c) now k =
     (if \<exists>p \<in> set ps. matches p k then None else fresh_value c now k)"
proof (induction ps arbitrary: c)
  case Nil
  then show ?case by (simp add: invalidate_patterns_def)
next
  case (Cons p ps)
  then show ?case
    by (simp add: invalidate_patterns_def fresh_value_invalidate_pattern)
qed

lemma invalidate_patterns_lookup:
  "Mapping.lookup (entries (invalidate_patterns ps c)) k =
     (if \<exists>p \<in> set ps. matches p k then None else Mapping.lookup (entries c) k)"
proof (induction ps arbitrary: c)
  case Nil
  then show ?case by (simp add: invalidate_patterns_def)
next
  case (Cons p ps)
  then show ?case
    by (simp add: invalidate_patterns_def invalidate_pattern_lookup)
qed

lemma invalidate_patterns_counters [simp]:
  "hits (invalidate_patterns ps c) = hits c"
  "misses (invalidate_patterns ps c) = misses c"
  "enabled (invalidate_patterns ps c) = enabled c"
  by (induction ps arbitrary: c) (simp_all add: invalidate_patterns_def invalidate_pattern_def)

theorem invalidate_patterns_restores_coherence:
  assumes "coherent truth now c" and "\<And>k. truth' k \<noteq> truth k \<Longrightarrow> \<exists>p \<in> set ps. matches p k"
  shows "coherent truth' now (invalidate_patterns ps c)"
  unfolding coherent_def fresh_value_invalidate_patterns
proof (intro allI impI)
  fix k v
  assume "(if \<exists>p \<in> set ps. matches p k then None else fresh_value c now k) = Some v"
  then have "\<not> (\<exists>p \<in> set ps. matches p k)" and "fresh_value c now k = Some v" by (auto split: if_splits)
  with assms show "v = truth' k" by (metis coherent_def)
qed

theorem clear_keeps_counters:
  "clear c = (n, c') \<Longrightarrow> hits c' = hits c \<and> misses c' = misses c \<and> Mapping.size (entries c') = 0"
  by (auto simp: clear_def)

lemma get_or_fetch_miss_stored:
  assumes "get_or_fetch key producer ttl bypass now c w = Some (Inr v, c1, w1)"
    and "misses c1 = Suc (misses c)"
  shows "enabled c1 \<and> \<not> bypass \<and> Mapping.lookup (entries c1) key = Some \<lparr>cached_value = v, expires_at = now + ttl\<rparr>"
  using assms
  by (auto simp: get_or_fetch_def fetch_and_store_apply split: if_splits option.splits prod.splits sum.splits)

end
