(* ===== verification/Cache_Key.thy ===== *)
theory Cache_Key
  imports Js_Value Cache_Store "HOL-Library.Multiset" "HOL-Library.List_Lexorder" "HOL-Library.Char_ord"
begin

text \<open>
  The key builder \<open>createCacheKey(operation, params)\<close> of \<open>@local/plugin-cache\<close>,
  which every cached accessor of \<^verbatim>\<open>src/scripts/mcp-client.ts\<close> calls. The package
  is not in the repository; the model follows the contract of the specification
  (section 4.2) and the shape the client relies on: the invalidation patterns
  \<open>/^product:/\<close> and \<open>/^purchase_order:/\<close> of \<open>upsertProduct\<close> and
  \<open>upsertPurchaseOrder\<close> expect a key to start with the operation name and a colon.
  The parameters are an object literal, here its property list; a property whose
  value is \<open>undefined\<close> is dropped, the rest are sorted by name (JavaScript's
  default sort, the lexicographic order of the code units) and rendered as
  \<open>name=value\<close> joined by \<open>&\<close>, each value converted by \<open>String(v)\<close>.
\<close>

definition key_params :: "(string \<times> jsval) list \<Rightarrow> (string \<times> jsval) list" where
  "key_params ps = sort_key fst (filter (\<lambda>(k, v). v \<noteq> JUndef) ps)"

definition create_cache_key :: "string \<Rightarrow> (string \<times> jsval) list \<Rightarrow> string" where
  "create_cache_key op ps =
     op @ '':'' @ join ''&'' (map (\<lambda>(k, v). k @ ''='' @ js_to_string v) (key_params ps))"

subsection \<open>Lemmas\<close>

lemma key_params_perm:
  assumes "distinct_keys ps" and "mset ps = mset qs"
  shows "key_params ps = key_params qs"
proof -
  let ?P = "\<lambda>(k, v). v \<noteq> JUndef"
  have m: "mset (filter ?P ps) = mset (filter ?P qs)" using assms(2) by simp
  have "distinct (map fst (filter ?P ps))" using assms(1) by (simp add: distinct_map_filter)
  then have inj: "inj_on fst (set (filter ?P ps))" by (simp add: distinct_map)
  have "sort_key fst (filter ?P ps) = sort_key fst (filter ?P qs)"
    by (rule sort_key_inj_key_eq) (use m inj in \<open>simp_all\<close>)
  then show ?thesis by (simp add: key_params_def)
qed

theorem create_cache_key_order_independent:
  "distinct_keys ps \<Longrightarrow> mset ps = mset qs \<Longrightarrow> create_cache_key op ps = create_cache_key op qs"
  by (simp add: create_cache_key_def key_params_perm)

theorem create_cache_key_undefined:
  "create_cache_key op (xs @ (k, JUndef) # ys) = create_cache_key op (xs @ ys)"
  by (simp add: create_cache_key_def key_params_def)

lemma take_prefix_agree:
  "take (length p) (xs @ ys) = p \<Longrightarrow> take (length xs) p = take (length p) xs"
proof (induction xs arbitrary: p)
  case Nil
  then show ?case by simp
next
  case (Cons x xs)
  then show ?case by (cases p) auto
qed

lemma cache_key_prefix_agree:
  "matches (Prefix p) (create_cache_key op ps) \<Longrightarrow> take (Suc (length op)) p = take (length p) (op @ '':'')"
  using take_prefix_agree [of p "op @ '':''"] by (simp add: create_cache_key_def)
end
