(* ===== verification/Client.thy ===== *)
theory Client
  imports Gateway Cache_Key
begin

text \<open>
  The client object \<open>InFlowMCPClient\<close> of \<^verbatim>\<open>src/scripts/mcp-client.ts\<close> and its
  cached read accessors (cached accessors, specification section 4.4). Its state
  is the module-level cache (lines 29 to 32), its own \<open>cacheDisabled\<close> flag and
  its connection. Every accessor builds a key from the operation name and its own
  parameters, and passes \<open>getOrFetch\<close> a producer that calls one MCP tool, a
  TTL of its tier, and \<open>bypassCache: this.cacheDisabled\<close>. The clock \<open>now\<close> of
  the call is an argument. Options objects are JavaScript values: an omitted
  options object is \<open>undefined\<close>, and \<open>options?.limit\<close> reads it with optional
  chaining.
\<close>

record client =
  cache :: "jsval cache"
  cache_disabled :: bool
  conn :: conn

text \<open>The TTL tiers of \<open>TTL\<close> (package \<open>@local/plugin-cache\<close>), in seconds.\<close>

definition ttl_five_minutes :: int where "ttl_five_minutes = 300"
definition ttl_fifteen_minutes :: int where "ttl_fifteen_minutes = 900"
definition ttl_hour :: int where "ttl_hour = 3600"

definition initial_client :: client where
  "initial_client =
     \<lparr>cache = new_cache ''inflow-inventory-manager'' ttl_five_minutes, cache_disabled = False,
      conn = \<lparr>connected = False, calls = [], transports = 0\<rparr>\<rparr>"

subsection \<open>Cache control (lines 54 to 89)\<close>

definition disable_cache :: "client \<Rightarrow> client" where
  "disable_cache c = c\<lparr>cache_disabled := True, cache := disable (cache c)\<rparr>"

definition enable_cache :: "client \<Rightarrow> client" where
  "enable_cache c = c\<lparr>cache_disabled := False, cache := enable (cache c)\<rparr>"

definition get_cache_stats :: "client \<Rightarrow> cache_stats" where
  "get_cache_stats c = get_stats (cache c)"

definition clear_cache :: "client \<Rightarrow> nat \<times> client" where
  "clear_cache c = (case clear (cache c) of (n, ca) \<Rightarrow> (n, c\<lparr>cache := ca\<rparr>))"

definition invalidate_cache_key :: "string \<Rightarrow> client \<Rightarrow> bool \<times> client" where
  "invalidate_cache_key k c = (case invalidate k (cache c) of (b, ca) \<Rightarrow> (b, c\<lparr>cache := ca\<rparr>))"

subsection \<open>Composition of key, cache and tool call\<close>

text \<open>A connection-level computation run on the client (a call that bypasses the cache).\<close>

definition on_conn :: "(conn, 'a) st \<Rightarrow> (client, 'a) st" where
  "on_conn m c = map_option (\<lambda>(r, cn). (r, c\<lparr>conn := cn\<rparr>)) (m (conn c))"

text \<open>\<open>cache.getOrFetch(key, producer, {ttl, bypassCache: this.cacheDisabled})\<close>\<close>

definition cached :: "string \<Rightarrow> (conn, jsval) st \<Rightarrow> int \<Rightarrow> int \<Rightarrow> (client, jsval) st" where
  "cached key producer ttl now c =
     map_option (\<lambda>(r, ca, cn). (r, c\<lparr>cache := ca, conn := cn\<rparr>))
       (get_or_fetch key producer ttl (cache_disabled c) now (cache c) (conn c))"

definition cached_tool :: "server \<Rightarrow> string \<Rightarrow> string \<Rightarrow> jsval \<Rightarrow> int \<Rightarrow> int \<Rightarrow> (client, jsval) st" where
  "cached_tool srv key tool args ttl now = cached key (call_tool srv tool args) ttl now"

text \<open>\<open>if (v) args.k = v\<close>\<close>

definition set_if :: "string \<Rightarrow> jsval \<Rightarrow> (string \<times> jsval) list" where
  "set_if k v = (if truthy v then [(k, v)] else [])"

text \<open>\<open>options?.include?.join(",")\<close>: \<open>join\<close> on a value that is not an array throws.\<close>

definition opt_join :: "jsval \<Rightarrow> error + jsval" where
  "opt_join v =
     (case v of
        JUndef \<Rightarrow> Inr JUndef
      | JNull \<Rightarrow> Inr JUndef
      | JArr xs \<Rightarrow> Inr (JStr (js_to_string (JArr xs)))
      | _ \<Rightarrow> Inl (TypeError ''options.include.join is not a function''))"

subsection \<open>Products, bills of materials, categories (lines 206 to 347)\<close>

definition list_products :: "server \<Rightarrow> int \<Rightarrow> jsval \<Rightarrow> (client, jsval) st" where
  "list_products srv now options =
     cached_tool srv
       (create_cache_key ''products''
          [(''limit'', get_opt options ''limit''), (''skip'', get_opt options ''skip''),
           (''filter'', get_opt options ''filter''), (''categoryId'', get_opt options ''categoryId''),
           (''categoryName'', get_opt options ''categoryName'')])
       ''list_products''
       (JObj (set_if ''count'' (get_opt options ''limit'') @ set_if ''skip'' (get_opt options ''skip'') @
              set_if ''smart'' (get_opt options ''filter'') @
              set_if ''categoryId'' (get_opt options ''categoryId'') @
              set_if ''categoryName'' (get_opt options ''categoryName'')))
       ttl_fifteen_minutes now"

definition get_product :: "server \<Rightarrow> int \<Rightarrow> string \<Rightarrow> jsval \<Rightarrow> (client, jsval) st" where
  "get_product srv now productId options =
     (case opt_join (get_opt options ''include'') of
        Inl e \<Rightarrow> throwE e
      | Inr inc \<Rightarrow>
          cached_tool srv (create_cache_key ''product'' [(''id'', JStr productId), (''include'', inc)])
            ''get_product''
            (JObj ((''productId'', JStr productId) # set_if ''include'' (get_opt options ''include'')))
            ttl_fifteen_minutes now)"

definition search_products :: "server \<Rightarrow> int \<Rightarrow> string \<Rightarrow> (client, jsval) st" where
  "search_products srv now query =
     cached_tool srv (create_cache_key ''products_search'' [(''query'', JStr query)])
       ''list_products'' (JObj [(''smart'', JStr query)]) ttl_fifteen_minutes now"

definition get_bill_of_materials :: "server \<Rightarrow> int \<Rightarrow> string \<Rightarrow> (client, jsval) st" where
  "get_bill_of_materials srv now productId =
     cached_tool srv (create_cache_key ''bom'' [(''productId'', JStr productId)])
       ''get_bill_of_materials'' (JObj [(''productId'', JStr productId)]) ttl_hour now"

definition list_categories :: "server \<Rightarrow> int \<Rightarrow> (client, jsval) st" where
  "list_categories srv now =
     cached_tool srv ''categories'' ''list_categories'' (JObj [(''count'', JNum 100)]) ttl_hour now"

definition get_product_with_bom :: "server \<Rightarrow> int \<Rightarrow> string \<Rightarrow> (client, jsval) st" where
  "get_product_with_bom srv now productId =
     cached_tool srv (create_cache_key ''product_bom'' [(''productId'', JStr productId)])
       ''get_product'' (JObj [(''productId'', JStr productId), (''include'', JArr [JStr ''itemBoms''])])
       ttl_fifteen_minutes now"

subsection \<open>Stock, adjustments, transfers, counts (lines 365 to 682)\<close>

definition stock_levels_msg :: string where
  "stock_levels_msg =
     ''productId is required for get_inventory_summary. Use list-products first to get product IDs.''"

text \<open>\<open>getStockLevels\<close> validates its argument before it touches the cache or the server.\<close>

definition get_stock_levels :: "server \<Rightarrow> int \<Rightarrow> jsval \<Rightarrow> (client, jsval) st" where
  "get_stock_levels srv now productId =
     (if \<not> truthy productId then throwE (ValidationError stock_levels_msg)
      else cached_tool srv (create_cache_key ''stock'' [(''productId'', productId)])
             ''get_inventory_summary'' (JObj [(''productId'', productId)]) ttl_five_minutes now)"

definition get_stock_by_location :: "jsval \<Rightarrow> (client, jsval) st" where
  "get_stock_by_location locationId =
     throwE (UnsupportedError ''Stock by location requires listing products first, then calling get-stock-levels for each. This command is not directly supported.'')"

definition list_stock_adjustments :: "server \<Rightarrow> int \<Rightarrow> jsval \<Rightarrow> (client, jsval) st" where
  "list_stock_adjustments srv now options =
     cached_tool srv (create_cache_key ''stock_adjustments'' [(''limit'', get_opt options ''limit'')])
       ''list_stock_adjustments'' (JObj (set_if ''limit'' (get_opt options ''limit'')))
       ttl_five_minutes now"

definition get_stock_adjustment :: "server \<Rightarrow> int \<Rightarrow> string \<Rightarrow> (client, jsval) st" where
  "get_stock_adjustment srv now adjustmentId =
     cached_tool srv (create_cache_key ''stock_adjustment'' [(''id'', JStr adjustmentId)])
       ''get_stock_adjustment'' (JObj [(''adjustmentId'', JStr adjustmentId)]) ttl_five_minutes now"

definition list_stock_transfers :: "server \<Rightarrow> int \<Rightarrow> jsval \<Rightarrow> (client, jsval) st" where
  "list_stock_transfers srv now options =
     cached_tool srv
       (create_cache_key ''stock_transfers''
          [(''limit'', get_opt options ''limit''), (''status'', get_opt options ''status''),
           (''fromLocationId'', get_opt options ''fromLocationId''),
           (''toLocationId'', get_opt options ''toLocationId'')])
       ''list_stock_transfers''
       (JObj (set_if ''count'' (get_opt options ''limit'') @ set_if ''status'' (get_opt options ''status'') @
              set_if ''fromLocationId'' (get_opt options ''fromLocationId'') @
              set_if ''toLocationId'' (get_opt options ''toLocationId'')))
       ttl_five_minutes now"

definition get_stock_transfer :: "server \<Rightarrow> int \<Rightarrow> string \<Rightarrow> (client, jsval) st" where
  "get_stock_transfer srv now transferId =
     cached_tool srv (create_cache_key ''stock_transfer'' [(''id'', JStr transferId)])
       ''get_stock_transfer'' (JObj [(''transferId'', JStr transferId)]) ttl_five_minutes now"

definition list_stock_counts :: "server \<Rightarrow> int \<Rightarrow> jsval \<Rightarrow> (client, jsval) st" where
  "list_stock_counts srv now options =
     cached_tool srv
       (create_cache_key ''stock_counts''
          [(''limit'', get_opt options ''limit''), (''status'', get_opt options ''status''),
           (''locationId'', get_opt options ''locationId'')])
       ''list_stock_counts''
       (JObj (set_if ''count'' (get_opt options ''limit'') @ set_if ''status'' (get_opt options ''status'') @
              set_if ''locationId'' (get_opt options ''locationId'')))
       ttl_five_minutes now"

definition get_stock_count :: "server \<Rightarrow> int \<Rightarrow> string \<Rightarrow> (client, jsval) st" where
  "get_stock_count srv now stockCountId =
     cached_tool srv (create_cache_key ''stock_count'' [(''id'', JStr stockCountId)])
       ''get_stock_count'' (JObj [(''stockCountId'', JStr stockCountId)]) ttl_five_minutes now"

definition list_adjustment_reasons :: "server \<Rightarrow> int \<Rightarrow> (client, jsval) st" where
  "list_adjustment_reasons srv now =
     cached_tool srv ''adjustment_reasons'' ''list_adjustment_reasons'' (JObj []) ttl_hour now"

subsection \<open>Sales orders, purchase orders, locations (lines 703 to 883)\<close>

definition list_sales_orders :: "server \<Rightarrow> int \<Rightarrow> jsval \<Rightarrow> (client, jsval) st" where
  "list_sales_orders srv now options =
     (case opt_join (get_opt options ''include'') of
        Inl e \<Rightarrow> throwE e
      | Inr inc \<Rightarrow>
          cached_tool srv
            (create_cache_key ''sales_orders''
               [(''limit'', get_opt options ''limit''), (''skip'', get_opt options ''skip''),
                (''status'', get_opt options ''status''), (''include'', inc)])
            ''list_sales_orders''
            (JObj (set_if ''count'' (get_opt options ''limit'') @ set_if ''skip'' (get_opt options ''skip'') @
                   set_if ''status'' (get_opt options ''status'') @
                   set_if ''include'' (get_opt options ''include'')))
            ttl_five_minutes now)"

definition get_sales_order :: "server \<Rightarrow> int \<Rightarrow> string \<Rightarrow> jsval \<Rightarrow> (client, jsval) st" where
  "get_sales_order srv now orderId options =
     (case opt_join (get_opt options ''include'') of
        Inl e \<Rightarrow> throwE e
      | Inr inc \<Rightarrow>
          cached_tool srv (create_cache_key ''sales_order'' [(''id'', JStr orderId), (''include'', inc)])
            ''get_sales_order''
            (JObj ((''salesOrderId'', JStr orderId) # set_if ''include'' (get_opt options ''include'')))
            ttl_five_minutes now)"

definition search_sales_orders :: "server \<Rightarrow> int \<Rightarrow> string \<Rightarrow> (client, jsval) st" where
  "search_sales_orders srv now query =
     cached_tool srv (create_cache_key ''sales_orders_search'' [(''query'', JStr query)])
       ''list_sales_orders'' (JObj [(''smart'', JStr query)]) ttl_five_minutes now"

definition list_purchase_orders :: "server \<Rightarrow> int \<Rightarrow> jsval \<Rightarrow> (client, jsval) st" where
  "list_purchase_orders srv now options =
     (case opt_join (get_opt options ''include'') of
        Inl e \<Rightarrow> throwE e
      | Inr inc \<Rightarrow>
          cached_tool srv
            (create_cache_key ''purchase_orders''
               [(''limit'', get_opt options ''limit''), (''skip'', get_opt options ''skip''),
                (''status'', get_opt options ''status''), (''include'', inc)])
            ''list_purchase_orders''
            (JObj (set_if ''count'' (get_opt options ''limit'') @ set_if ''skip'' (get_opt options ''skip'') @
                   set_if ''status'' (get_opt options ''status'') @
                   set_if ''include'' (get_opt options ''include'')))
            ttl_five_minutes now)"

definition get_purchase_order :: "server \<Rightarrow> int \<Rightarrow> string \<Rightarrow> jsval \<Rightarrow> (client, jsval) st" where
  "get_purchase_order srv now orderId options =
     (case opt_join (get_opt options ''include'') of
        Inl e \<Rightarrow> throwE e
      | Inr inc \<Rightarrow>
          cached_tool srv (create_cache_key ''purchase_order'' [(''id'', JStr orderId), (''include'', inc)])
            ''get_purchase_order''
            (JObj ((''purchaseOrderId'', JStr orderId) # set_if ''include'' (get_opt options ''include'')))
            ttl_five_minutes now)"

definition list_locations :: "server \<Rightarrow> int \<Rightarrow> (client, jsval) st" where
  "list_locations srv now = cached_tool srv ''locations'' ''list_locations'' (JObj []) ttl_hour now"

definition get_location :: "server \<Rightarrow> int \<Rightarrow> string \<Rightarrow> (client, jsval) st" where
  "get_location srv now locationId =
     cached_tool srv (create_cache_key ''location'' [(''id'', JStr locationId)])
       ''get_location'' (JObj [(''locationId'', JStr locationId)]) ttl_hour now"

subsection \<open>Product-based serial listings (lines 1166 to 1209)\<close>

definition get_product_serials :: "server \<Rightarrow> int \<Rightarrow> string \<Rightarrow> (client, jsval) st" where
  "get_product_serials srv now productId =
     cached_tool srv (create_cache_key ''product_serials'' [(''productId'', JStr productId)])
       ''get_product_serials'' (JObj [(''productId'', JStr productId)]) ttl_fifteen_minutes now"

definition list_all_serials :: "server \<Rightarrow> int \<Rightarrow> jsval \<Rightarrow> (client, jsval) st" where
  "list_all_serials srv now options =
     cached_tool srv
       (create_cache_key ''all_serials''
          [(''maxProducts'', get_opt options ''maxProducts''), (''inStockOnly'', get_opt options ''inStockOnly'')])
       ''list_all_serials''
       (JObj (set_if ''maxProducts'' (get_opt options ''maxProducts'') @
              set_if ''inStockOnly'' (get_opt options ''inStockOnly'')))
       ttl_fifteen_minutes now"

subsection \<open>Customers, vendors, company (lines 1324 to 1437 and 1644 to 1646)\<close>

definition list_customers :: "server \<Rightarrow> int \<Rightarrow> jsval \<Rightarrow> (client, jsval) st" where
  "list_customers srv now options =
     cached_tool srv (create_cache_key ''customers'' [(''limit'', get_opt options ''limit'')])
       ''list_customers'' (JObj (set_if ''limit'' (get_opt options ''limit''))) ttl_fifteen_minutes now"

definition list_vendors :: "server \<Rightarrow> int \<Rightarrow> jsval \<Rightarrow> (client, jsval) st" where
  "list_vendors srv now options =
     cached_tool srv (create_cache_key ''vendors'' [(''limit'', get_opt options ''limit'')])
       ''list_vendors'' (JObj (set_if ''limit'' (get_opt options ''limit''))) ttl_fifteen_minutes now"

text \<open>\<open>getVendor\<close> always goes to the server, for a fresh optimistic-locking timestamp.\<close>

definition get_vendor :: "server \<Rightarrow> string \<Rightarrow> (client, jsval) st" where
  "get_vendor srv vendorId = on_conn (call_tool srv ''get_vendor'' (JObj [(''vendorId'', JStr vendorId)]))"

definition get_company_info :: "(client, jsval) st" where
  "get_company_info =
     throwE (UnsupportedError ''Company info endpoint is not available via MCP. Company ID is set via INFLOW_COMPANY_ID environment variable.'')"

subsection \<open>Lemmas\<close>

lemma cached_bypass:
  "cache_disabled c \<Longrightarrow> cached key producer ttl now c = map_option (\<lambda>(r, cn). (r, c\<lparr>conn := cn\<rparr>)) (producer (conn c))"
  by (cases "producer (conn c)") (auto simp: cached_def get_or_fetch_bypass)

lemma cached_hit:
  "\<not> cache_disabled c \<Longrightarrow> enabled (cache c) \<Longrightarrow> fresh_value (cache c) now key = Some v \<Longrightarrow>
   cached key producer ttl now c = Some (Inr v, c\<lparr>cache := (cache c)\<lparr>hits := Suc (hits (cache c))\<rparr>\<rparr>)"
  by (simp add: cached_def get_or_fetch_hit)

text \<open>A successful miss stores the value; a later read within the TTL is a hit on it.\<close>

lemma cached_miss_then_hit:
  assumes "cached key producer ttl now c = Some (Inr v, c1)"
    and "misses (cache c1) = Suc (misses (cache c))"
    and "now \<le> now'" and "now' < now + ttl"
  shows "cached key producer' ttl' now' c1 = Some (Inr v, c1\<lparr>cache := (cache c1)\<lparr>hits := Suc (hits (cache c1))\<rparr>\<rparr>)"
proof -
  from assms(1) obtain ca cn where
    g: "get_or_fetch key producer ttl (cache_disabled c) now (cache c) (conn c) = Some (Inr v, ca, cn)"
    and c1: "c1 = c\<lparr>cache := ca, conn := cn\<rparr>"
    by (auto simp: cached_def)
  from assms(2) c1 have "misses ca = Suc (misses (cache c))" by simp
  from get_or_fetch_miss_stored [OF g this]
  have "enabled ca" and "\<not> cache_disabled c"
    and "Mapping.lookup (entries ca) key = Some \<lparr>cached_value = v, expires_at = now + ttl\<rparr>" by auto
  with c1 assms(3,4) show ?thesis
    by (simp add: cached_hit fresh_value_def)
qed

text \<open>A successful miss stores the value until \<open>now + ttl\<close>; a read from then on misses and runs its producer.\<close>

lemma cached_miss_then_refetch:
  assumes "cached key producer ttl now c = Some (Inr v, c1)"
    and "misses (cache c1) = Suc (misses (cache c))" and "now + ttl \<le> now'"
  shows "map_option (\<lambda>(r, c''). (r, conn c'')) (cached key producer' ttl' now' c1) = producer' (conn c1)"
proof -
  from assms(1) obtain ca cn where
    g: "get_or_fetch key producer ttl (cache_disabled c) now (cache c) (conn c) = Some (Inr v, ca, cn)"
    and c1: "c1 = c\<lparr>cache := ca, conn := cn\<rparr>"
    by (auto simp: cached_def)
  from assms(2) c1 have "misses ca = Suc (misses (cache c))" by simp
  from get_or_fetch_miss_stored [OF g this]
  have "enabled ca" and "\<not> cache_disabled c"
    and "Mapping.lookup (entries ca) key = Some \<lparr>cached_value = v, expires_at = now + ttl\<rparr>" by auto
  with c1 assms(3) show ?thesis
    by (cases "producer' cn")
       (auto simp: cached_def get_or_fetch_def fetch_and_store_def Let_def split: sum.splits)
qed

text \<open>A cached tool call always returns: the tool call does, and the store adds no loop.\<close>

lemma cached_tool_returns: "\<exists>r c'. cached_tool srv key tool args ttl now c = Some (r, c')"
proof -
  obtain r cn where ct: "call_tool srv tool args (conn c) = Some (r, cn)"
    using call_tool_returns by blast
  then show ?thesis
    by (cases r) (auto simp: cached_tool_def cached_def get_or_fetch_def fetch_and_store_def Let_def
                        split: option.splits)
qed

lemma cached_tool_bypass_cache:
  "cache_disabled c \<Longrightarrow> cached_tool srv key tool args ttl now c = Some (r, c') \<Longrightarrow> cache c' = cache c"
  by (auto simp: cached_tool_def cached_bypass)

text \<open>
  C10. A second \<open>getProduct\<close> within fifteen minutes of one that missed the
  cache and succeeded returns the first product, counts a hit, and does not call the
  server (any server, the connection untouched).
\<close>

theorem get_product_served_from_cache:
  assumes "get_product srv now productId options c = Some (Inr v, c1)"
    and "misses (cache c1) = Suc (misses (cache c))"
    and "now \<le> now'" and "now' < now + ttl_fifteen_minutes"
  shows "get_product srv' now' productId options c1 =
           Some (Inr v, c1\<lparr>cache := (cache c1)\<lparr>hits := Suc (hits (cache c1))\<rparr>\<rparr>)"
proof (cases "opt_join (get_opt options ''include'')")
  case (Inl e)
  with assms(1) show ?thesis by (simp add: get_product_def)
next
  case (Inr inc)
  with assms(1) show ?thesis
    by (simp add: get_product_def cached_tool_def cached_miss_then_hit [OF _ assms(2-4)])
qed

text \<open>
  C11. Stock levels are in the short TTL tier: after a \<open>getStockLevels\<close> that
  missed the cache and succeeded, a read of the same product five minutes later or
  after is not served from the store: it calls the \<open>get_inventory_summary\<close> tool
  on the connection and returns the server's answer (any server).
\<close>

theorem get_stock_levels_refetched_after_ttl:
  assumes "get_stock_levels srv now productId c = Some (Inr v, c1)"
    and "misses (cache c1) = Suc (misses (cache c))" and "now + 300 \<le> now'"
  shows "map_option (\<lambda>(r, c''). (r, conn c'')) (get_stock_levels srv' now' productId c1) =
           call_tool srv' ''get_inventory_summary'' (JObj [(''productId'', productId)]) (conn c1)"
proof (cases "truthy productId")
  case False
  with assms(1) show ?thesis by (simp add: get_stock_levels_def throwE_def)
next
  case True
  with assms(1) have "cached (create_cache_key ''stock'' [(''productId'', productId)])
      (call_tool srv ''get_inventory_summary'' (JObj [(''productId'', productId)])) ttl_five_minutes now c =
      Some (Inr v, c1)"
    by (simp add: get_stock_levels_def cached_tool_def)
  from cached_miss_then_refetch [OF this assms(2)] assms(3) True show ?thesis
    by (simp add: get_stock_levels_def cached_tool_def ttl_five_minutes_def)
qed

text \<open>
  C12. \<open>getStockLevels\<close> without a product id fails with the validation error
  before any cache or network interaction: the client state is unchanged.
\<close>

theorem get_stock_levels_validation:
  "\<not> truthy productId \<Longrightarrow> get_stock_levels srv now productId c = Some (Inl (ValidationError stock_levels_msg), c)"
  by (simp add: get_stock_levels_def)

end
