(* ===== verification/Mutations.thy ===== *)
theory Mutations
  imports Client
begin

text \<open>
  The write methods of \<open>InFlowMCPClient\<close> (mutation invalidators, specification
  section 4.5): each awaits one MCP write tool and, only when it returns, purges the
  cache entries of the resource families the write affects with
  \<open>cache.invalidatePattern\<close>. A write that throws propagates before any
  invalidation. \<open>write_op\<close> collects the eight write methods as one datatype of
  operations with a step function \<open>run_write\<close>, so that the properties below are
  stated once for all of them. The last group composes the writes with the cached
  reads of \<open>Client\<close>: a read after a write in its families calls the server.
\<close>

text \<open>\<open>const result = await this.callTool(tool, data); (invalidations); return result;\<close>\<close>

definition write_then_invalidate :: "server \<Rightarrow> string \<Rightarrow> jsval \<Rightarrow> pattern list \<Rightarrow> (client, jsval) st" where
  "write_then_invalidate srv tool data ps =
     bindE (on_conn (call_tool srv tool data))
       (\<lambda>result c. Some (Inr result, c\<lparr>cache := invalidate_patterns ps (cache c)\<rparr>))"

definition create_stock_adjustment :: "server \<Rightarrow> jsval \<Rightarrow> (client, jsval) st" where
  "create_stock_adjustment srv data =
     write_then_invalidate srv ''upsert_stock_adjustment'' data [Prefix ''stock'']"

definition create_stock_transfer :: "server \<Rightarrow> jsval \<Rightarrow> (client, jsval) st" where
  "create_stock_transfer srv data =
     write_then_invalidate srv ''upsert_stock_transfer'' data [Prefix ''stock'']"

definition create_stock_count :: "server \<Rightarrow> jsval \<Rightarrow> (client, jsval) st" where
  "create_stock_count srv data =
     write_then_invalidate srv ''upsert_stock_count'' data [Prefix ''stock'']"

definition upsert_product :: "server \<Rightarrow> jsval \<Rightarrow> (client, jsval) st" where
  "upsert_product srv data =
     write_then_invalidate srv ''upsert_product'' data
       [Prefix ''products'', Prefix ''product:'', Prefix ''products_search'', Prefix ''product_bom'',
        Prefix ''bom'']"

definition upsert_vendor :: "server \<Rightarrow> jsval \<Rightarrow> (client, jsval) st" where
  "upsert_vendor srv data = write_then_invalidate srv ''upsert_vendor'' data [Prefix ''vendors'']"

definition upsert_purchase_order :: "server \<Rightarrow> jsval \<Rightarrow> (client, jsval) st" where
  "upsert_purchase_order srv data =
     write_then_invalidate srv ''upsert_purchase_order'' data
       [Prefix ''purchase_orders'', Prefix ''purchase_order:'']"

definition receive_purchase_order :: "server \<Rightarrow> jsval \<Rightarrow> (client, jsval) st" where
  "receive_purchase_order srv data =
     write_then_invalidate srv ''receive_purchase_order'' data
       [Prefix ''purchase_orders'', Prefix ''purchase_order:'', Prefix ''stock'']"

text \<open>\<open>unreceivePurchaseOrder\<close> skips the invalidation of a dry run (\<open>if (!data.dryRun)\<close>).\<close>

definition unreceive_purchase_order :: "server \<Rightarrow> jsval \<Rightarrow> (client, jsval) st" where
  "unreceive_purchase_order srv data =
     bindE (on_conn (call_tool srv ''unreceive_purchase_order'' data))
       (\<lambda>result c. case get_prop data ''dryRun'' of
           Inl e \<Rightarrow> Some (Inl e, c)
         | Inr d \<Rightarrow>
             if truthy d then Some (Inr result, c)
             else Some (Inr result, c\<lparr>cache := invalidate_patterns
                      [Prefix ''purchase_orders'', Prefix ''purchase_order:'', Prefix ''stock''] (cache c)\<rparr>))"

datatype write_op =
    CreateStockAdjustment jsval
  | CreateStockTransfer jsval
  | CreateStockCount jsval
  | UpsertProduct jsval
  | UpsertVendor jsval
  | UpsertPurchaseOrder jsval
  | ReceivePurchaseOrder jsval
  | UnreceivePurchaseOrder jsval

fun run_write :: "server \<Rightarrow> write_op \<Rightarrow> (client, jsval) st" where
  "run_write srv (CreateStockAdjustment d) = create_stock_adjustment srv d"
| "run_write srv (CreateStockTransfer d) = create_stock_transfer srv d"
| "run_write srv (CreateStockCount d) = create_stock_count srv d"
| "run_write srv (UpsertProduct d) = upsert_product srv d"
| "run_write srv (UpsertVendor d) = upsert_vendor srv d"
| "run_write srv (UpsertPurchaseOrder d) = upsert_purchase_order srv d"
| "run_write srv (ReceivePurchaseOrder d) = receive_purchase_order srv d"
| "run_write srv (UnreceivePurchaseOrder d) = unreceive_purchase_order srv d"

text \<open>The families each write purges, read off the methods above (a dry run purges none).\<close>

fun write_families :: "write_op \<Rightarrow> pattern list" where
  "write_families (CreateStockAdjustment _) = [Prefix ''stock'']"
| "write_families (CreateStockTransfer _) = [Prefix ''stock'']"
| "write_families (CreateStockCount _) = [Prefix ''stock'']"
| "write_families (UpsertProduct _) =
     [Prefix ''products'', Prefix ''product:'', Prefix ''products_search'', Prefix ''product_bom'',
      Prefix ''bom'']"
| "write_families (UpsertVendor _) = [Prefix ''vendors'']"
| "write_families (UpsertPurchaseOrder _) = [Prefix ''purchase_orders'', Prefix ''purchase_order:'']"
| "write_families (ReceivePurchaseOrder _) =
     [Prefix ''purchase_orders'', Prefix ''purchase_order:'', Prefix ''stock'']"
| "write_families (UnreceivePurchaseOrder d) =
     (if truthy (get_opt d ''dryRun'') then []
      else [Prefix ''purchase_orders'', Prefix ''purchase_order:'', Prefix ''stock''])"

fun write_tool :: "write_op \<Rightarrow> string \<times> jsval" where
  "write_tool (CreateStockAdjustment d) = (''upsert_stock_adjustment'', d)"
| "write_tool (CreateStockTransfer d) = (''upsert_stock_transfer'', d)"
| "write_tool (CreateStockCount d) = (''upsert_stock_count'', d)"
| "write_tool (UpsertProduct d) = (''upsert_product'', d)"
| "write_tool (UpsertVendor d) = (''upsert_vendor'', d)"
| "write_tool (UpsertPurchaseOrder d) = (''upsert_purchase_order'', d)"
| "write_tool (ReceivePurchaseOrder d) = (''receive_purchase_order'', d)"
| "write_tool (UnreceivePurchaseOrder d) = (''unreceive_purchase_order'', d)"

subsection \<open>Lemmas\<close>

lemma on_conn_cache: "on_conn m c = Some (r, c') \<Longrightarrow> cache c' = cache c"
  by (auto simp: on_conn_def)

lemma write_then_invalidate_cases:
  assumes "write_then_invalidate srv t d ps c = Some (r, c')"
  shows "(\<exists>e. r = Inl e \<and> cache c' = cache c) \<or> (\<exists>v. r = Inr v \<and> cache c' = invalidate_patterns ps (cache c))"
  using assms [unfolded write_then_invalidate_def]
proof (cases rule: bindE_cases)
  case (fail e)
  then show ?thesis by (auto dest: on_conn_cache)
next
  case (ok a s')
  then show ?thesis by (auto dest: on_conn_cache)
qed

lemma unreceive_cases:
  assumes "unreceive_purchase_order srv d c = Some (r, c')"
  shows "(\<exists>e. r = Inl e \<and> cache c' = cache c) \<or>
         (\<exists>v. r = Inr v \<and> cache c' = invalidate_patterns (write_families (UnreceivePurchaseOrder d)) (cache c))"
  using assms [unfolded unreceive_purchase_order_def]
proof (cases rule: bindE_cases)
  case (fail e)
  then show ?thesis by (auto dest: on_conn_cache)
next
  case (ok a s')
  then show ?thesis
    by (auto simp: get_opt_def invalidate_patterns_def dest: on_conn_cache split: sum.splits if_splits)
qed

lemma run_write_cases:
  assumes "run_write srv op c = Some (r, c')"
  shows "(\<exists>e. r = Inl e \<and> cache c' = cache c) \<or>
         (\<exists>v. r = Inr v \<and> cache c' = invalidate_patterns (write_families op) (cache c))"
  using assms
  by (cases op)
     (auto dest!: write_then_invalidate_cases unreceive_cases
       simp: create_stock_adjustment_def create_stock_transfer_def create_stock_count_def
             upsert_product_def upsert_vendor_def upsert_purchase_order_def receive_purchase_order_def)


lemma run_write_lookup:
  "run_write srv op c = Some (Inr v, c') \<Longrightarrow>
   Mapping.lookup (entries (cache c')) k =
     (if \<exists>p \<in> set (write_families op). matches p k then None else Mapping.lookup (entries (cache c)) k)"
  using run_write_cases [of srv op c "Inr v" c'] by (auto simp: invalidate_patterns_lookup)

text \<open>
  C6. A write that fails invalidates nothing: when the write tool throws (or any
  later step of the method throws), the cache, its entries and its counters are
  those before the call.
\<close>

theorem failed_write_keeps_cache:
  "run_write srv op c = Some (Inl e, c') \<Longrightarrow> cache c' = cache c"
  using run_write_cases by fastforce

text \<open>
  C7. A write that succeeds removes every entry whose key falls in one of the
  resource families it names, and no other entry.
\<close>

theorem write_purges_families:
  "run_write srv op c = Some (Inr v, c') \<Longrightarrow>
   Mapping.lookup (entries (cache c')) k =
     (if \<exists>p \<in> set (write_families op). matches p k then None else Mapping.lookup (entries (cache c)) k)"
  by (rule run_write_lookup)

text \<open>
  C8. Invalidation keeps the cache coherent with the server: if every value a reader
  could see was true before a write, and the write changes the truth only of keys in
  the families it purges, every value a reader can see after it is true.
\<close>

theorem write_restores_coherence:
  assumes "coherent truth now (cache c)"
    and "\<And>k. truth' k \<noteq> truth k \<Longrightarrow> \<exists>p \<in> set (write_families op). matches p k"
    and "run_write srv op c = Some (Inr v, c')"
  shows "coherent truth' now (cache c')"
proof -
  from run_write_cases [OF assms(3)] have "cache c' = invalidate_patterns (write_families op) (cache c)"
    by auto
  with invalidate_patterns_restores_coherence [OF assms(1,2)] show ?thesis by simp
qed

text \<open>
  C9. The stock writes leave the product-based serial caches in place: the entries
  \<open>serial_index_products\<close>, \<open>product_serials:...\<close> and \<open>all_serials:...\<close>,
  which hold stock status and locations, survive a stock adjustment, transfer, count
  or purchase-order receipt.
\<close>

theorem stock_writes_keep_serial_caches:
  assumes "op \<in> {CreateStockAdjustment d, CreateStockTransfer d, CreateStockCount d, ReceivePurchaseOrder d}"
    and "run_write srv op c = Some (Inr v, c')"
    and "k \<in> {''serial_index_products''} \<union> range (create_cache_key ''product_serials'') \<union>
             range (create_cache_key ''all_serials'')"
  shows "Mapping.lookup (entries (cache c')) k = Mapping.lookup (entries (cache c)) k"
proof -
  have nm: "\<not> matches (Prefix q) k" if q: "q \<in> {''stock'', ''purchase_orders'', ''purchase_order:''}" for q
  proof -
    from assms(3) consider "k = ''serial_index_products''"
      | x where "k = create_cache_key ''product_serials'' x"
      | x where "k = create_cache_key ''all_serials'' x"
      by blast
    then show ?thesis
    proof cases
      case 1
      with q show ?thesis by auto
    next
      case (2 x)
      with q show ?thesis using cache_key_prefix_agree [of q "''product_serials''" x] by auto
    next
      case (3 x)
      with q show ?thesis using cache_key_prefix_agree [of q "''all_serials''" x] by auto
    qed
  qed
  have "set (write_families op) \<subseteq> Prefix ` {''stock'', ''purchase_orders'', ''purchase_order:''}"
    using assms(1) by (elim insertE) auto
  with nm have "\<not> (\<exists>p \<in> set (write_families op). matches p k)" by blast
  then show ?thesis using run_write_lookup [OF assms(2), of k] by simp
qed

lemma cached_absent:
  assumes "Mapping.lookup (entries (cache c)) key = None"
  shows "map_option (\<lambda>(r, c'). (r, conn c')) (cached key producer ttl now c) = producer (conn c)"
  using assms
  by (cases "producer (conn c)")
     (auto simp: cached_def get_or_fetch_def fetch_and_store_def Let_def split: sum.splits)

lemma product_key_family: "matches (Prefix ''product:'') (create_cache_key ''product'' ps)"
  by (simp add: create_cache_key_def)

text \<open>
  C36. Read after write: after a write that succeeds, a cached read whose key falls
  in one of the families the write purged behaves as the uncached call: it returns
  what the producer returns on the connection and has the producer's effect on the
  connection (the server is called), whether the cache is enabled or not.
\<close>

theorem read_after_write_fetches:
  assumes "run_write srv op c = Some (Inr v, c')"
    and "p \<in> set (write_families op)" and "matches p key"
  shows "map_option (\<lambda>(r, c''). (r, conn c'')) (cached key producer ttl now c') = producer (conn c')"
proof (rule cached_absent)
  show "Mapping.lookup (entries (cache c')) key = None"
    using run_write_lookup [OF assms(1), of key] assms(2,3) by auto
qed

text \<open>
  C37. \<open>getProduct\<close> after a successful \<open>upsertProduct\<close> calls the
  \<open>get_product\<close> tool: its key \<open>product:...\<close> falls in the family
  \<open>/^product:/\<close> the write purges, so the product read back is the server's.
\<close>

theorem get_product_after_upsert:
  assumes "run_write srv (UpsertProduct d) c = Some (Inr v, c')"
  shows "map_option (\<lambda>(r, c''). (r, conn c'')) (get_product srv now pid JUndef c') =
           call_tool srv ''get_product'' (JObj [(''productId'', JStr pid)]) (conn c')"
proof -
  let ?key = "create_cache_key ''product'' [(''id'', JStr pid), (''include'', JUndef)]"
  have "Mapping.lookup (entries (cache c')) ?key = None"
    using run_write_lookup [OF assms, of ?key] product_key_family [of "[(''id'', JStr pid), (''include'', JUndef)]"]
    by auto
  then show ?thesis
    by (simp add: get_product_def cached_tool_def opt_join_def get_opt_def set_if_def cached_absent)
qed

end
