(* ===== verification/Serial_Index.thy ===== *)
theory Serial_Index
  imports Client
begin

text \<open>
  The order-based serial index of \<^verbatim>\<open>src/scripts/mcp-client.ts\<close> (lines 982 to
  1147; specification section 4.6). The MCP server has no search by serial
  number, so \<open>buildSerialIndex\<close> pages through the sales orders of a status,
  100 at a time, and extracts the serial numbers recorded in each order's pack
  lines, pick lines and order lines, in that priority order. The index is a plain
  object from the normalised serial to a record of the order and the line; the
  first writer wins, within an order and across orders. \<open>searchSerial\<close> and
  \<open>listSerials\<close> read the index through the cache under the fixed key
  \<open>serial_index\<close> with a TTL of one hour.

  The page loop \<open>while (true)\<close> ends only when a page is short or the optional
  cap is reached; a server that keeps returning full pages makes it run forever,
  so the loop is a \<^theory_text>\<open>partial_function\<close> in the option monad and its
  termination is a theorem with its conditions.
\<close>

type_synonym index = "(string \<times> jsval) list"

definition page_size :: nat where "page_size = 100"

text \<open>The argument object of one page request (lines 1008 to 1013).\<close>

definition order_page_args :: "jsval \<Rightarrow> int \<Rightarrow> jsval" where
  "order_page_args status skip =
     JObj [(''status'', status), (''include'', JArr [JStr ''lines'', JStr ''pickLines'', JStr ''packLines'']),
           (''count'', JNum (int page_size)), (''skip'', JNum skip)]"

text \<open>
  \<open>const orders = result.data || result || []; Array.isArray(orders) ? orders : [orders]\<close>:
  reading \<open>data\<close> of a \<open>null\<close> result throws.
\<close>

definition page_orders :: "jsval \<Rightarrow> error + jsval list" where
  "page_orders result =
     bindS (get_prop result ''data'')
       (\<lambda>d. let orders = js_or (js_or d result) (JArr []) in
            Inr (case orders of JArr xs \<Rightarrow> xs | _ \<Rightarrow> [orders]))"

text \<open>
  The page loop (lines 1007 to 1025), from the current offset and the orders
  collected so far. \<open>allOrders.length = maxOrders\<close> truncates; a negative cap is
  an invalid array length.
\<close>

partial_function (option) fetch_orders ::
  "server \<Rightarrow> jsval \<Rightarrow> int option \<Rightarrow> int \<Rightarrow> jsval list \<Rightarrow> conn \<Rightarrow> ((error + jsval list) \<times> conn) option"
where
  "fetch_orders srv status maxOrders skip allOrders c =
     (case call_tool srv ''list_sales_orders'' (order_page_args status skip) c of
        None \<Rightarrow> None
      | Some (Inl e, c') \<Rightarrow> Some (Inl e, c')
      | Some (Inr result, c') \<Rightarrow>
          (case page_orders result of
             Inl e \<Rightarrow> Some (Inl e, c')
           | Inr orderList \<Rightarrow>
               (let all = allOrders @ orderList in
                if length orderList < page_size then Some (Inr all, c')
                else case maxOrders of
                  Some m \<Rightarrow>
                    if m \<noteq> 0 \<and> m \<le> int (length all) then
                      (if m < 0 then Some (Inl (RangeError ''Invalid array length''), c')
                       else Some (Inr (take (nat m) all), c'))
                    else fetch_orders srv status maxOrders (skip + int page_size) all c'
                | None \<Rightarrow> fetch_orders srv status maxOrders (skip + int page_size) all c')))"

text \<open>
  \<open>for (const line of lines || [])\<close>: a missing array iterates nothing, a string
  iterates its characters, any other value is not iterable.
\<close>

definition iter_lines :: "jsval \<Rightarrow> error + jsval list" where
  "iter_lines v =
     (case js_or v (JArr []) of
        JArr xs \<Rightarrow> Inr xs
      | JStr s \<Rightarrow> Inr (map (\<lambda>ch. JStr [ch]) s)
      | _ \<Rightarrow> Inl (TypeError ''lines is not iterable''))"

text \<open>The record stored for a serial (lines 1041 to 1048).\<close>

definition serial_entry :: "jsval \<Rightarrow> jsval \<Rightarrow> string \<Rightarrow> jsval" where
  "serial_entry order line k =
     JObj [(''serial'', JStr k), (''salesOrderId'', get_opt order ''salesOrderId''),
           (''orderNumber'', get_opt order ''orderNumber''), (''orderDate'', get_opt order ''orderDate''),
           (''productId'', get_opt line ''productId''),
           (''shopifyOrderUrl'', js_or (get_opt (get_opt order ''customFields'') ''custom4'') JNull)]"

text \<open>\<open>serialIndex[k]\<close> on the plain object: \<open>undefined\<close> when absent.\<close>

definition index_get :: "index \<Rightarrow> string \<Rightarrow> jsval" where
  "index_get idx k = (case map_of idx k of None \<Rightarrow> JUndef | Some v \<Rightarrow> v)"

text \<open>
  The inner loop over the serial numbers of one line (lines 1036 to 1050): falsy
  entries are skipped, a non-string one makes \<open>trim\<close> throw, and the entry is
  written only when \<open>!serialIndex[normalizedSerial]\<close>.
\<close>

fun add_serials :: "jsval \<Rightarrow> jsval \<Rightarrow> jsval list \<Rightarrow> index \<Rightarrow> error + index" where
  "add_serials order line [] idx = Inr idx"
| "add_serials order line (s # ss) idx =
     (if \<not> truthy s then add_serials order line ss idx
      else case s of
        JStr str \<Rightarrow>
          (let k = normalize_serial str in
           add_serials order line ss
             (if \<not> truthy (index_get idx k) then obj_set idx k (serial_entry order line k) else idx))
      | _ \<Rightarrow> Inl (TypeError ''serial.trim is not a function''))"

text \<open>
  The loop over the lines of one source (lines 1032 to 1051):
  \<open>line.quantity?.serialNumbers\<close> throws on a \<open>null\<close> line, and a value that is
  not an array is skipped.
\<close>

fun add_lines :: "jsval \<Rightarrow> jsval list \<Rightarrow> index \<Rightarrow> error + index" where
  "add_lines order [] idx = Inr idx"
| "add_lines order (line # ls) idx =
     bindS (get_prop line ''quantity'')
       (\<lambda>q. case get_opt q ''serialNumbers'' of
               JArr ss \<Rightarrow> bindS (add_serials order line ss idx) (add_lines order ls)
             | _ \<Rightarrow> add_lines order ls idx)"

definition extract_from_lines :: "jsval \<Rightarrow> jsval \<Rightarrow> index \<Rightarrow> error + index" where
  "extract_from_lines lines order idx = bindS (iter_lines lines) (\<lambda>ls. add_lines order ls idx)"

text \<open>The loop over the collected orders: pack lines, then pick lines, then order lines (lines 1054 to 1059).\<close>

fun index_orders :: "jsval list \<Rightarrow> index \<Rightarrow> error + index" where
  "index_orders [] idx = Inr idx"
| "index_orders (order # os) idx =
     bindS (get_prop order ''packLines'') (\<lambda>pk.
     bindS (extract_from_lines pk order idx) (\<lambda>idx1.
     bindS (get_prop order ''pickLines'') (\<lambda>pl.
     bindS (extract_from_lines pl order idx1) (\<lambda>idx2.
     bindS (get_prop order ''lines'') (\<lambda>ln.
     bindS (extract_from_lines ln order idx2) (\<lambda>idx3.
     index_orders os idx3))))))"

text \<open>
  \<open>buildSerialIndex(options)\<close> (lines 995 to 1062): the status defaults to
  \<open>Fulfilled\<close>; the cap is \<open>options?.limit\<close>, a number (a value of another
  type is not modelled and counts as absent).
\<close>

definition build_serial_index :: "server \<Rightarrow> jsval \<Rightarrow> (conn, jsval) st" where
  "build_serial_index srv options =
     (let status = js_or (get_opt options ''status'') (JStr ''Fulfilled'');
          maxOrders = (case get_opt options ''limit'' of JNum m \<Rightarrow> Some m | _ \<Rightarrow> None)
      in bindE (fetch_orders srv status maxOrders 0 [])
           (\<lambda>allOrders c. Some (map_sum id JObj (index_orders allOrders []), c)))"

text \<open>
  The well-formedness of an index under construction: its keys are distinct and
  every value is truthy (an object), so the test \<open>!serialIndex[k]\<close> is the
  absence of \<open>k\<close>.
\<close>

definition wf_index :: "index \<Rightarrow> bool" where
  "wf_index idx \<longleftrightarrow> distinct (map fst idx) \<and> list_all (\<lambda>(k, v). truthy v) idx"

subsection \<open>Lemmas\<close>

lemma index_get_truthy:
  assumes wf: "wf_index idx"
  shows "truthy (index_get idx k) \<longleftrightarrow> k \<in> set (map fst idx)"
proof (cases "map_of idx k")
  case None
  then have "k \<notin> set (map fst idx)" by (simp add: map_of_eq_None_iff)
  with None show ?thesis by (simp add: index_get_def)
next
  case (Some v)
  then have "(k, v) \<in> set idx" by (rule map_of_SomeD)
  with wf have "truthy v" by (auto simp: wf_index_def list_all_iff)
  moreover from \<open>(k, v) \<in> set idx\<close> have "k \<in> set (map fst idx)"
    by (metis fst_conv image_eqI set_map)
  ultimately show ?thesis using Some by (simp add: index_get_def)
qed

lemma obj_set_absent: "k \<notin> set (map fst idx) \<Longrightarrow> obj_set idx k v = idx @ [(k, v)]"
  by (simp add: obj_set_def)

lemma serial_entry_truthy [simp]: "truthy (serial_entry order line k)"
  by (simp add: serial_entry_def)

lemma add_serials_prefix:
  "wf_index idx \<Longrightarrow> add_serials order line ss idx = Inr idx' \<Longrightarrow> wf_index idx' \<and> (\<exists>ext. idx' = idx @ ext)"
proof (induction ss arbitrary: idx)
  case Nil
  then show ?case by simp
next
  case (Cons s ss)
  show ?case
  proof (cases "truthy s")
    case False
    with Cons show ?thesis by simp
  next
    case True
    then obtain str where s: "s = JStr str"
      using Cons.prems(2) by (cases s) auto
    let ?k = "normalize_serial str"
    let ?idx1 = "if \<not> truthy (index_get idx ?k) then obj_set idx ?k (serial_entry order line ?k) else idx"
    have wf1: "wf_index ?idx1" and pre1: "\<exists>ext. ?idx1 = idx @ ext"
      using Cons.prems(1)
      by (auto simp: index_get_truthy obj_set_absent wf_index_def)
    have "add_serials order line ss ?idx1 = Inr idx'"
      using Cons.prems(2) True s by (simp add: Let_def)
    with Cons.IH [OF wf1] pre1 show ?thesis by auto
  qed
qed

lemma add_lines_prefix:
  "wf_index idx \<Longrightarrow> add_lines order ls idx = Inr idx' \<Longrightarrow> wf_index idx' \<and> (\<exists>ext. idx' = idx @ ext)"
proof (induction ls arbitrary: idx)
  case Nil
  then show ?case by simp
next
  case (Cons line ls)
  from Cons.prems(2) obtain q where q: "get_prop line ''quantity'' = Inr q"
    by (cases "get_prop line ''quantity''") auto
  show ?case
  proof (cases "get_opt q ''serialNumbers''")
    case (JArr ss)
    with Cons.prems(2) q obtain idx1 where a: "add_serials order line ss idx = Inr idx1"
        and r: "add_lines order ls idx1 = Inr idx'"
      by (auto simp: bindS_Inr_iff)
    from add_serials_prefix [OF Cons.prems(1) a] Cons.IH [of idx1] r show ?thesis by auto
  qed (use Cons q in \<open>simp_all\<close>)
qed

lemma extract_from_lines_prefix:
  "wf_index idx \<Longrightarrow> extract_from_lines lines order idx = Inr idx' \<Longrightarrow> wf_index idx' \<and> (\<exists>ext. idx' = idx @ ext)"
  by (auto simp: extract_from_lines_def bindS_Inr_iff dest: add_lines_prefix)

lemma index_orders_prefix:
  "wf_index idx \<Longrightarrow> index_orders os idx = Inr idx' \<Longrightarrow> wf_index idx' \<and> (\<exists>ext. idx' = idx @ ext)"
proof (induction os arbitrary: idx)
  case Nil
  then show ?case by simp
next
  case (Cons order os)
  from Cons.prems(2) obtain pk idx1 pl idx2 ln idx3 where
    e1: "extract_from_lines pk order idx = Inr idx1" and
    e2: "extract_from_lines pl order idx1 = Inr idx2" and
    e3: "extract_from_lines ln order idx2 = Inr idx3" and
    r: "index_orders os idx3 = Inr idx'"
    by (auto simp: bindS_Inr_iff)
  note p1 = extract_from_lines_prefix [OF Cons.prems(1) e1]
  note p2 = extract_from_lines_prefix [OF p1 [THEN conjunct1] e2]
  note p3 = extract_from_lines_prefix [OF p2 [THEN conjunct1] e3]
  from p1 p2 p3 Cons.IH [OF p3 [THEN conjunct1] r] show ?case by fastforce
qed

lemma index_orders_append:
  "index_orders (os1 @ os2) idx = bindS (index_orders os1 idx) (index_orders os2)"
  by (induction os1 arbitrary: idx) (simp_all add: bindS_def split: sum.splits)

lemma wf_index_Nil [simp]: "wf_index []"
  by (simp add: wf_index_def)

text \<open>
  C1. First writer wins across orders: when the orders are scanned in pagination
  order, an entry the earlier orders wrote for a serial is the entry of the final
  index, whatever the later orders (and their dates) hold.
\<close>

theorem first_order_wins:
  assumes "index_orders (os1 @ os2) [] = Inr idx"
    and "index_orders os1 [] = Inr idx1" and "map_of idx1 k = Some v"
  shows "map_of idx k = Some v"
proof -
  from assms(1,2) have "index_orders os2 idx1 = Inr idx" by (simp add: index_orders_append)
  moreover have "wf_index idx1" using index_orders_prefix [OF wf_index_Nil assms(2)] by simp
  ultimately obtain ext where "idx = idx1 @ ext" using index_orders_prefix by blast
  with assms(3) show ?thesis by (simp add: map_add_Some_iff)
qed

text \<open>
  C2. Within an order the pack lines are the most authoritative source: an entry
  written while scanning an order's pack lines survives the scan of its pick lines,
  its order lines and all later orders.
\<close>

theorem pack_lines_win:
  assumes "get_prop order ''packLines'' = Inr pk" and "extract_from_lines pk order idx = Inr idx1"
    and "map_of idx1 k = Some v" and "wf_index idx"
    and "index_orders (order # os) idx = Inr idx'"
  shows "map_of idx' k = Some v"
proof -
  from assms(1,2,5) obtain pl idx2 ln idx3 where
    e2: "extract_from_lines pl order idx1 = Inr idx2" and
    e3: "extract_from_lines ln order idx2 = Inr idx3" and
    r: "index_orders os idx3 = Inr idx'"
    by (auto simp: bindS_Inr_iff)
  note p1 = extract_from_lines_prefix [OF assms(4) assms(2)]
  note p2 = extract_from_lines_prefix [OF p1 [THEN conjunct1] e2]
  note p3 = extract_from_lines_prefix [OF p2 [THEN conjunct1] e3]
  note p4 = index_orders_prefix [OF p3 [THEN conjunct1] r]
  from p2 p3 p4 obtain ext where "idx' = idx1 @ ext" by auto
  with assms(3) show ?thesis by (simp add: map_add_Some_iff)
qed

text \<open>
  C3. With a positive cap \<open>limit\<close>, the page loop of \<open>buildSerialIndex\<close>
  returns (with the orders or an error) whatever the server answers: every full page
  adds 100 orders, so the cap is reached after at most \<open>limit / 100 + 1\<close> pages.
\<close>

theorem fetch_orders_capped_returns:
  assumes "0 < m"
  shows "\<exists>r. fetch_orders srv status (Some m) skip allOrders c = Some r"
proof (induction "nat (m - int (length allOrders))" arbitrary: skip allOrders c rule: less_induct)
  case less
  obtain r c' where ct: "call_tool srv ''list_sales_orders'' (order_page_args status skip) c = Some (r, c')"
    using call_tool_returns by blast
  show ?case
  proof (cases r)
    case (Inl e)
    with ct show ?thesis by (subst fetch_orders.simps) simp
  next
    case (Inr result)
    show ?thesis
    proof (cases "page_orders result")
      case (Inl e)
      with ct Inr show ?thesis by (subst fetch_orders.simps) simp
    next
      case (Inr orderList)
      let ?all = "allOrders @ orderList"
      show ?thesis
      proof (cases "length orderList < page_size \<or> m \<le> int (length ?all)")
        case True
        with ct \<open>r = Inr result\<close> Inr assms show ?thesis
          by (subst fetch_orders.simps) (auto simp: Let_def)
      next
        case False
        then have "orderList \<noteq> []" by (auto simp: page_size_def)
        with False have "nat (m - int (length ?all)) < nat (m - int (length allOrders))"
          by (simp add: page_size_def)
        then obtain r' where "fetch_orders srv status (Some m) (skip + int page_size) ?all c' = Some r'"
          using less by blast
        with False ct \<open>r = Inr result\<close> Inr show ?thesis
          by (subst fetch_orders.simps) (auto simp: Let_def)
      qed
    qed
  qed
qed
text \<open>
  C4. The cap is not applied to a short page: when a page returns fewer than 100
  orders the loop stops and returns every order collected, however many more than
  \<open>limit\<close> that is (the check of the cap comes after the check of the short page).
\<close>

theorem short_page_ignores_cap:
  assumes "call_tool srv ''list_sales_orders'' (order_page_args status skip) c = Some (Inr result, c')"
    and "page_orders result = Inr orderList" and "length orderList < page_size"
  shows "fetch_orders srv status maxOrders skip allOrders c = Some (Inr (allOrders @ orderList), c')"
  using assms by (subst fetch_orders.simps) (simp add: Let_def)

text \<open>
  C5. The index is an append-only store: from a well-formed index (distinct keys,
  truthy records), a build gives a well-formed index that extends it, so every
  record present before the build keeps its key, its value and its position, and
  new serials are added after it in the order they are met.
\<close>

theorem index_orders_wf:
  "wf_index idx \<Longrightarrow> index_orders os idx = Inr idx' \<Longrightarrow> wf_index idx' \<and> (\<exists>ext. idx' = idx @ ext)"
  by (rule index_orders_prefix)

end
