(* ===== verification/Serial_Search.thy ===== *)
theory Serial_Search
  imports Serial_Index
begin

text \<open>
  The readers of the serial indexes and the per-order serial extractors of
  \<^verbatim>\<open>src/scripts/mcp-client.ts\<close> (lines 902 to 980 and 1081 to 1309):
  \<open>searchSerial\<close> and \<open>listSerials\<close> over the order-based index, cached under
  the fixed key \<open>serial_index\<close> for an hour; the product-based index
  \<open>buildSerialIndexFromProducts\<close> and its search \<open>searchSerialByProduct\<close>,
  cached under \<open>serial_index_products\<close> for fifteen minutes;
  \<open>getSalesOrderSerials\<close> and \<open>getPurchaseOrderSerials\<close>; the legacy aliases.
  \<open>Object.values\<close>, \<open>Object.keys\<close> and object spread list the integer-like
  keys of an object first, in ascending numeric order, and the other keys in
  insertion order; the model has that order, since serial numbers may be numerals.
\<close>

subsection \<open>Own-property order of plain objects\<close>

definition is_digit :: "char \<Rightarrow> bool" where
  "is_digit ch \<longleftrightarrow> 48 \<le> (of_char ch :: nat) \<and> (of_char ch :: nat) \<le> 57"

definition digits_val :: "string \<Rightarrow> int" where
  "digits_val s = foldl (\<lambda>n ch. 10 * n + (of_char ch - 48)) 0 s"

text \<open>An array index: a canonical decimal numeral (no leading zero) below \<open>2^32 - 1 = 4294967295\<close>.\<close>

definition is_index_key :: "string \<Rightarrow> bool" where
  "is_index_key k \<longleftrightarrow>
     k \<noteq> [] \<and> list_all is_digit k \<and> (hd k = CHR ''0'') = (k = ''0'') \<and> digits_val k < 4294967295"

definition own_order :: "(string \<times> 'a) list \<Rightarrow> (string \<times> 'a) list" where
  "own_order fs =
     sort_key (\<lambda>(k, _). digits_val k) (filter (\<lambda>(k, _). is_index_key k) fs) @
     filter (\<lambda>(k, _). \<not> is_index_key k) fs"

text \<open>The own enumerable properties of a value, in the order \<open>Object.entries\<close> gives them.\<close>

fun own_entries :: "jsval \<Rightarrow> error + (string \<times> jsval) list" where
  "own_entries JUndef = Inl (TypeError ''Cannot convert undefined or null to object'')"
| "own_entries JNull = Inl (TypeError ''Cannot convert undefined or null to object'')"
| "own_entries (JObj fs) = Inr (own_order fs)"
| "own_entries (JArr xs) = Inr (map (\<lambda>(i, x). (string_of_nat i, x)) (enumerate 0 xs))"
| "own_entries (JStr s) = Inr (map (\<lambda>(i, ch). (string_of_nat i, JStr [ch])) (enumerate 0 s))"
| "own_entries _ = Inr []"

text \<open>Object spread \<open>{...r}\<close>: the entries of \<open>r\<close>, nothing for \<open>null\<close> and \<open>undefined\<close>.\<close>

definition spread_into :: "(string \<times> jsval) list \<Rightarrow> jsval \<Rightarrow> (string \<times> jsval) list" where
  "spread_into acc r =
     (case own_entries r of Inl _ \<Rightarrow> acc | Inr es \<Rightarrow> foldl (\<lambda>a (k, v). obj_set a k v) acc es)"

text \<open>\<open>a === b\<close>: primitives by value; two objects or arrays read from JSON are distinct references.\<close>

fun js_seq :: "jsval \<Rightarrow> jsval \<Rightarrow> bool" where
  "js_seq JUndef JUndef = True"
| "js_seq JNull JNull = True"
| "js_seq (JBool a) (JBool b) = (a = b)"
| "js_seq (JNum a) (JNum b) = (a = b)"
| "js_seq (JStr a) (JStr b) = (a = b)"
| "js_seq _ _ = False"

text \<open>\<open>xs.slice(0, n)\<close>: a negative end counts from the end of the array.\<close>

definition js_slice0 :: "'a list \<Rightarrow> int \<Rightarrow> 'a list" where
  "js_slice0 xs n = take (nat (if n < 0 then int (length xs) + n else n)) xs"

subsection \<open>Search and listing over the order-based index (lines 1081 to 1147)\<close>

definition order_not_found_msg :: string where
  "order_not_found_msg =
     ''Serial number not found in fulfilled sales orders. Check Airtable for authoritative serial number data.''"

definition product_not_found_msg :: string where
  "product_not_found_msg =
     ''Serial number not found in product inventory. May not exist or may be in a non-serialized product.''"

text \<open>The part of \<open>searchSerial\<close> after the index is read (lines 1091 to 1105).\<close>

definition search_result :: "jsval \<Rightarrow> string \<Rightarrow> string \<Rightarrow> error + jsval" where
  "search_result serialIndex serial msg =
     (let k = normalize_serial serial in
      bindS (get_prop serialIndex k) (\<lambda>result.
        if truthy result then Inr (JObj (spread_into [(''found'', JBool True)] result))
        else Inr (JObj [(''found'', JBool False), (''serial'', JStr k), (''message'', JStr msg)])))"

definition search_serial :: "server \<Rightarrow> int \<Rightarrow> string \<Rightarrow> (client, jsval) st" where
  "search_serial srv now serial =
     bindE (cached ''serial_index'' (build_serial_index srv JUndef) ttl_hour now)
       (\<lambda>serialIndex c. Some (search_result serialIndex serial order_not_found_msg, c))"

text \<open>\<open>serials.filter(v => v.productId === productId)\<close>: reading a \<open>null\<close> value throws.\<close>

fun filter_product :: "jsval \<Rightarrow> jsval list \<Rightarrow> error + jsval list" where
  "filter_product pid [] = Inr []"
| "filter_product pid (v # vs) =
     bindS (get_prop v ''productId'') (\<lambda>p.
     bindS (filter_product pid vs) (\<lambda>rest. Inr (if js_seq p pid then v # rest else rest)))"

text \<open>
  The part of \<open>listSerials\<close> after the index is read (lines 1130 to 1146). By its
  TypeScript type \<open>limit\<close> is a number or absent.
\<close>

definition list_result :: "jsval \<Rightarrow> jsval \<Rightarrow> error + jsval" where
  "list_result serialIndex options =
     bindS (own_entries serialIndex) (\<lambda>es.
     bindS (if truthy (get_opt options ''productId'')
            then filter_product (get_opt options ''productId'') (map snd es) else Inr (map snd es)) (\<lambda>serials.
     let serials' = (case get_opt options ''limit'' of
                       JNum l \<Rightarrow> if l \<noteq> 0 \<and> l < int (length serials) then js_slice0 serials l else serials
                     | _ \<Rightarrow> serials)
     in Inr (JObj [(''count'', JNum (int (length serials'))), (''totalInIndex'', JNum (int (length es))),
                   (''serials'', JArr serials')])))"

definition list_serials :: "server \<Rightarrow> int \<Rightarrow> jsval \<Rightarrow> (client, jsval) st" where
  "list_serials srv now options =
     bindE (cached ''serial_index'' (build_serial_index srv JUndef) ttl_hour now)
       (\<lambda>serialIndex c. Some (list_result serialIndex options, c))"

subsection \<open>The product-based index (lines 1220 to 1284)\<close>

text \<open>\<open>x.trim()\<close> on a value that should be a string.\<close>

fun js_trim_str :: "jsval \<Rightarrow> error + string" where
  "js_trim_str (JStr s) = Inr s"
| "js_trim_str JUndef = Inl (TypeError ''Cannot read properties of undefined (reading trim)'')"
| "js_trim_str JNull = Inl (TypeError ''Cannot read properties of null (reading trim)'')"
| "js_trim_str _ = Inl (TypeError ''trim is not a function'')"

definition product_entry :: "jsval \<Rightarrow> string \<Rightarrow> jsval" where
  "product_entry s k =
     JObj [(''serial'', JStr k), (''productId'', get_opt s ''productId''),
           (''productName'', get_opt s ''productName''), (''locationId'', get_opt s ''locationId''),
           (''quantityOnHand'', get_opt s ''quantityOnHand''), (''sublocation'', get_opt s ''sublocation''),
           (''inStock'', get_opt s ''inStock'')]"

text \<open>The loop of lines 1228 to 1239: every record is written, the last one wins.\<close>

fun product_index :: "jsval list \<Rightarrow> index \<Rightarrow> error + index" where
  "product_index [] idx = Inr idx"
| "product_index (s # ss) idx =
     bindS (get_prop s ''serial'') (\<lambda>v.
     bindS (js_trim_str v) (\<lambda>str.
       let k = normalize_serial str in product_index ss (obj_set idx k (product_entry s k))))"

definition build_serial_index_from_products :: "server \<Rightarrow> jsval \<Rightarrow> (conn, jsval) st" where
  "build_serial_index_from_products srv options =
     bindE (call_tool srv ''list_all_serials''
              (JObj [(''maxProducts'', js_or (get_opt options ''maxProducts'') (JNum 100))]))
       (\<lambda>result c. Some (
          bindS (get_prop result ''serials'') (\<lambda>ss.
          bindS (iter_lines ss) (\<lambda>l.
          map_sum id JObj (product_index l []))), c))"

definition search_serial_by_product :: "server \<Rightarrow> int \<Rightarrow> string \<Rightarrow> (client, jsval) st" where
  "search_serial_by_product srv now serial =
     bindE (cached ''serial_index_products'' (build_serial_index_from_products srv JUndef) ttl_fifteen_minutes now)
       (\<lambda>serialIndex c. Some (search_result serialIndex serial product_not_found_msg, c))"

subsection \<open>Serials of one sales order (lines 902 to 949)\<close>

text \<open>
  \<open>serialMap\<close>: a \<open>Map\<close> from the raw serial value to its product and the list
  of its sources, in insertion order. \<open>Map\<close> compares keys by SameValueZero,
  which is \<open>js_seq\<close> on the values read from JSON.
\<close>

type_synonym serial_map = "(jsval \<times> jsval \<times> string list) list"

fun sm_add :: "jsval \<Rightarrow> jsval \<Rightarrow> string \<Rightarrow> serial_map \<Rightarrow> serial_map" where
  "sm_add s pid src [] = [(s, pid, [src])]"
| "sm_add s pid src ((s', p', srcs) # m) =
     (if js_seq s' s then (s', p', srcs @ [src]) # m else (s', p', srcs) # sm_add s pid src m)"

fun sm_serials :: "jsval \<Rightarrow> string \<Rightarrow> jsval list \<Rightarrow> serial_map \<Rightarrow> serial_map" where
  "sm_serials line src [] m = m"
| "sm_serials line src (s # ss) m =
     sm_serials line src ss (if truthy s then sm_add s (get_opt line ''productId'') src m else m)"

fun sm_lines :: "string \<Rightarrow> jsval list \<Rightarrow> serial_map \<Rightarrow> error + serial_map" where
  "sm_lines src [] m = Inr m"
| "sm_lines src (line # ls) m =
     bindS (get_prop line ''quantity'') (\<lambda>q.
       case get_opt q ''serialNumbers'' of
         JArr ss \<Rightarrow> sm_lines src ls (sm_serials line src ss m)
       | _ \<Rightarrow> sm_lines src ls m)"

definition extract_serials :: "jsval \<Rightarrow> string \<Rightarrow> serial_map \<Rightarrow> error + serial_map" where
  "extract_serials lines src m = bindS (iter_lines lines) (\<lambda>ls. sm_lines src ls m)"

definition order_serials :: "jsval \<Rightarrow> error + serial_map" where
  "order_serials order =
     bindS (get_prop order ''packLines'') (\<lambda>pk. bindS (extract_serials pk ''pack'' []) (\<lambda>m1.
     bindS (get_prop order ''pickLines'') (\<lambda>pl. bindS (extract_serials pl ''pick'' m1) (\<lambda>m2.
     bindS (get_prop order ''lines'') (\<lambda>ln. extract_serials ln ''order'' m2)))))"

definition get_sales_order_serials :: "server \<Rightarrow> int \<Rightarrow> string \<Rightarrow> (client, jsval) st" where
  "get_sales_order_serials srv now orderId =
     bindE (get_sales_order srv now orderId
              (JObj [(''include'', JArr [JStr ''lines'', JStr ''pickLines'', JStr ''packLines''])]))
       (\<lambda>order c. Some (
          bindS (order_serials order) (\<lambda>m.
            Inr (JObj [(''salesOrderId'', get_opt order ''salesOrderId''), (''orderNumber'', get_opt order ''orderNumber''),
                       (''orderDate'', get_opt order ''orderDate''), (''status'', get_opt order ''inventoryStatus''),
                       (''serialCount'', JNum (int (length m))),
                       (''serials'', JArr (map (\<lambda>(s, p, srcs). JObj [(''serial'', s), (''productId'', p),
                                                                      (''sources'', JArr (map JStr srcs))]) m))])), c))"

subsection \<open>Serials of one purchase order (lines 957 to 980)\<close>

definition po_entry :: "jsval \<Rightarrow> jsval \<Rightarrow> jsval" where
  "po_entry line s =
     JObj [(''serial'', s), (''productId'', get_opt line ''productId''),
           (''lineId'', get_opt line ''purchaseOrderLineId'')]"

text \<open>Every entry of \<open>serialNumbers || []\<close> is pushed: no test, no normalisation.\<close>

fun po_lines :: "jsval list \<Rightarrow> jsval list \<Rightarrow> error + jsval list" where
  "po_lines [] acc = Inr acc"
| "po_lines (line # ls) acc =
     bindS (get_prop line ''quantity'') (\<lambda>q.
     bindS (iter_lines (get_opt q ''serialNumbers'')) (\<lambda>ss.
       po_lines ls (acc @ map (po_entry line) ss)))"

definition get_purchase_order_serials :: "server \<Rightarrow> int \<Rightarrow> string \<Rightarrow> (client, jsval) st" where
  "get_purchase_order_serials srv now orderId =
     bindE (get_purchase_order srv now orderId (JObj [(''include'', JArr [JStr ''lines''])]))
       (\<lambda>order c. Some (
          bindS (get_prop order ''lines'') (\<lambda>ln. bindS (iter_lines ln) (\<lambda>ls. bindS (po_lines ls []) (\<lambda>serials.
            Inr (JObj [(''purchaseOrderId'', get_opt order ''purchaseOrderId''),
                       (''orderNumber'', get_opt order ''orderNumber''), (''orderDate'', get_opt order ''orderDate''),
                       (''status'', get_opt order ''inventoryStatus''), (''serialCount'', JNum (int (length serials))),
                       (''serials'', JArr serials)])))), c))"

subsection \<open>Legacy aliases (lines 1293 to 1309)\<close>

definition list_serial_numbers :: "server \<Rightarrow> int \<Rightarrow> jsval \<Rightarrow> (client, jsval) st" where
  "list_serial_numbers srv now options = list_serials srv now options"

definition get_serial_number :: "server \<Rightarrow> int \<Rightarrow> string \<Rightarrow> (client, jsval) st" where
  "get_serial_number srv now serialNumber = search_serial srv now serialNumber"

definition search_serial_numbers :: "server \<Rightarrow> int \<Rightarrow> string \<Rightarrow> (client, jsval) st" where
  "search_serial_numbers srv now query = search_serial srv now query"

subsection \<open>Lemmas\<close>

lemma own_order_mset: "mset (own_order fs) = mset fs"
  by (simp add: own_order_def)

lemma own_order_plain:
  assumes "\<not> list_ex (\<lambda>(k, _). is_index_key k) fs"
  shows "own_order fs = fs"
proof -
  have "filter (\<lambda>(k, _). is_index_key k) fs = []"
    using assms by (auto simp: filter_empty_conv list_ex_iff)
  moreover have "filter (\<lambda>(k, _). \<not> is_index_key k) fs = fs"
    using assms by (auto simp: filter_id_conv list_ex_iff split: prod.splits)
  ultimately show ?thesis by (simp add: own_order_def)
qed

lemma map_of_replace:
  "map_of (map (\<lambda>(k', w). if k' = k then (k', v) else (k', w)) fs) k =
   (if k \<in> fst ` set fs then Some v else None)"
  by (induction fs) auto

lemma obj_set_lookup: "map_of (obj_set fs k v) k = Some v"
  by (auto simp: obj_set_def map_of_replace map_add_Some_iff map_of_eq_None_iff)

lemma foldl_obj_set_fresh:
  "distinct (map fst es) \<Longrightarrow> set (map fst es) \<inter> set (map fst acc) = {} \<Longrightarrow>
   foldl (\<lambda>a (k, v). obj_set a k v) acc es = acc @ es"
proof (induction es arbitrary: acc)
  case Nil
  then show ?case by simp
next
  case (Cons e es)
  obtain k v where e: "e = (k, v)" by fastforce
  with Cons.prems have "k \<notin> set (map fst acc)" by auto
  then have "obj_set acc k v = acc @ [(k, v)]" by (rule obj_set_absent)
  with Cons e show ?case by auto
qed

lemma product_index_append:
  "product_index (xs @ ys) idx = bindS (product_index xs idx) (product_index ys)"
  by (induction xs arbitrary: idx) (simp_all add: bindS_def Let_def split: sum.splits)

lemma sm_add_keys: "fst ` set (sm_add s p src m) = insert s (fst ` set m)"
proof (induction m)
  case Nil
  then show ?case by simp
next
  case (Cons e m)
  obtain s' p' srcs where e: "e = (s', p', srcs)" by (cases e) auto
  have "js_seq s' s \<Longrightarrow> s' = s" by (cases s'; cases s) auto
  with Cons e show ?case by auto
qed

lemma sm_serials_keys:
  "fst ` set (sm_serials line src ss m) = fst ` set m \<union> {s \<in> set ss. truthy s}"
  by (induction ss arbitrary: m) (auto simp: sm_add_keys)

lemma of_char_digit_nat: "d < 10 \<Longrightarrow> (of_char (char_of (48 + d) :: char) :: nat) = 48 + d"
  by (simp add: of_char_of)

lemma of_char_digit_int: "d < 10 \<Longrightarrow> (of_char (char_of (48 + d) :: char) :: int) = 48 + int d"
  by (metis of_char_digit_nat of_nat_of_char of_nat_add of_nat_numeral)

lemma is_digit_char: "(d::nat) < 10 \<Longrightarrow> is_digit (char_of (48 + d))"
  by (simp add: is_digit_def of_char_digit_nat)

lemma char_digit_zero: "(d::nat) < 10 \<Longrightarrow> (char_of (48 + d) = CHR ''0'') = (d = 0)"
proof -
  assume d: "d < 10"
  have "(char_of (48 + d) = CHR ''0'') = (of_char (char_of (48 + d) :: char) = (of_char (CHR ''0'') :: nat))"
    by (metis char_of_char)
  also have "\<dots> = (d = 0)" using d by (simp add: of_char_digit_nat)
  finally show ?thesis .
qed

lemma digits_val_snoc: "digits_val (xs @ [ch]) = 10 * digits_val xs + (of_char ch - 48)"
  by (simp add: digits_val_def)

lemma digits_val_string_of_nat: "digits_val (string_of_nat n) = int n"
proof (induction n rule: string_of_nat.induct)
  case (1 n)
  show ?case
  proof (cases "n < 10")
    case True
    then show ?thesis
      by (subst string_of_nat.simps) (simp add: digits_val_def of_char_digit_int)
  next
    case False
    then have "digits_val (string_of_nat n) = 10 * int (n div 10) + int (n mod 10)"
      using 1 by (subst string_of_nat.simps) (simp add: digits_val_snoc of_char_digit_int)
    moreover have "10 * int (n div 10) + int (n mod 10) = int n"
      by (metis div_mult_mod_eq mult.commute of_nat_add of_nat_mult of_nat_numeral)
    ultimately show ?thesis by simp
  qed
qed

lemma string_of_nat_digits: "list_all is_digit (string_of_nat n)"
proof (induction n rule: string_of_nat.induct)
  case (1 n)
  then show ?case
    by (subst string_of_nat.simps) (auto simp: is_digit_char)
qed

lemma hd_string_of_nat: "(hd (string_of_nat n) = CHR ''0'') = (n = 0)"
proof (induction n rule: string_of_nat.induct)
  case (1 n)
  show ?case
  proof (cases "n < 10")
    case True
    then show ?thesis
      by (subst string_of_nat.simps) (simp add: char_digit_zero)
  next
    case False
    then have "hd (string_of_nat n) = hd (string_of_nat (n div 10))"
      by (subst string_of_nat.simps) simp
    with 1 False show ?thesis by simp
  qed
qed

lemma string_of_nat_zero: "(string_of_nat n = ''0'') = (n = 0)"
  by (subst string_of_nat.simps) (auto simp: char_digit_zero)

lemma search_result_found_obj:
  assumes "map_of idx (normalize_serial s) = Some (JObj efs)" and "distinct (map fst efs)"
    and "''found'' \<notin> set (map fst efs)" and "\<not> list_ex (\<lambda>(k, _). is_index_key k) efs"
  shows "search_result (JObj idx) s msg = Inr (JObj ((''found'', JBool True) # efs))"
proof -
  have "spread_into [(''found'', JBool True)] (JObj efs) = [(''found'', JBool True)] @ efs"
    using assms(2,3) by (simp add: spread_into_def own_order_plain [OF assms(4)] foldl_obj_set_fresh)
  with assms(1) show ?thesis by (simp add: search_result_def Let_def)
qed

text \<open>
  C17. A search is insensitive to surrounding white space and to letter case: two
  queries with the same normalisation give the same result and the same state, so
  \<open>searchSerial(" abc123 ")\<close> and \<open>searchSerial("ABC123")\<close> agree.
\<close>

theorem search_serial_normalised:
  "normalize_serial s1 = normalize_serial s2 \<Longrightarrow> search_serial srv now s1 c = search_serial srv now s2 c"
  by (simp add: search_serial_def search_result_def)

text \<open>
  C18. A serial present in the index is found: the result is the stored record
  preceded by \<open>found: true\<close>, its fields in their order.
\<close>

theorem search_result_found:
  assumes "map_of idx (normalize_serial s) = Some (JObj efs)" and "distinct (map fst efs)"
    and "''found'' \<notin> set (map fst efs)" and "\<not> list_ex (\<lambda>(k, _). is_index_key k) efs"
  shows "search_result (JObj idx) s msg = Inr (JObj ((''found'', JBool True) # efs))"
  using assms by (rule search_result_found_obj)

text \<open>
  C19. A serial absent from the index is not an error: the search returns the
  structured not-found value with the normalised serial and the hint.
\<close>

theorem search_result_not_found:
  "normalize_serial s \<notin> set (map fst idx) \<Longrightarrow>
   search_result (JObj idx) s msg =
     Inr (JObj [(''found'', JBool False), (''serial'', JStr (normalize_serial s)), (''message'', JStr msg)])"
proof -
  assume "normalize_serial s \<notin> set (map fst idx)"
  then have "map_of idx (normalize_serial s) = None" by (simp add: map_of_eq_None_iff)
  then show ?thesis by (simp add: search_result_def Let_def)
qed

text \<open>
  C20. With a positive \<open>limit\<close>, \<open>listSerials\<close> returns at most \<open>limit\<close>
  serials, and its \<open>count\<close> is the number it returns.
\<close>

theorem list_result_bound:
  assumes "get_opt options ''limit'' = JNum l" and "0 < l" and "list_result v options = Inr r"
  shows "\<exists>n t ss. r = JObj [(''count'', JNum n), (''totalInIndex'', t), (''serials'', JArr ss)] \<and>
                  n = int (length ss) \<and> n \<le> l"
  using assms by (auto simp: list_result_def bindS_Inr_iff Let_def js_slice0_def)

text \<open>
  C21. Without options, \<open>listSerials\<close> lists every record of the index exactly
  once (a permutation of its values: the integer-like serials come first) and
  counts all of them.
\<close>

theorem list_result_all_values:
  "\<exists>vs. list_result (JObj idx) JUndef =
          Inr (JObj [(''count'', JNum (int (length idx))), (''totalInIndex'', JNum (int (length idx))),
                     (''serials'', JArr vs)]) \<and> mset vs = mset (map snd idx)"
proof -
  have "mset (map snd (own_order idx)) = mset (map snd idx)"
    by (metis mset_map own_order_mset)
  moreover have "length (own_order idx) = length idx"
    by (metis own_order_mset size_mset)
  ultimately show ?thesis by (simp add: list_result_def get_opt_def)
qed

text \<open>
  C22. The product-based index is last-writer-wins: the record of the last
  occurrence of a serial is the one stored, unlike the order-based index.
\<close>

theorem product_index_last_wins:
  assumes "product_index (ss @ [s]) idx = Inr idx'" and "get_prop s ''serial'' = Inr (JStr str)"
  shows "map_of idx' (normalize_serial str) = Some (product_entry s (normalize_serial str))"
proof -
  from assms(1) obtain idx1 where "product_index [s] idx1 = Inr idx'"
    by (auto simp: product_index_append bindS_Inr_iff)
  with assms(2) have "idx' = obj_set idx1 (normalize_serial str) (product_entry s (normalize_serial str))"
    by (simp add: Let_def)
  then show ?thesis by (simp add: obj_set_lookup)
qed

text \<open>
  C23. \<open>getSalesOrderSerials\<close> keys its map by the raw serial values: the
  serials it reports for a list of lines are exactly the truthy values of their
  \<open>quantity.serialNumbers\<close> arrays, not normalised, so two spellings of one
  serial are reported as two serials.
\<close>

theorem sales_order_serial_keys:
  "sm_lines src ls m = Inr m' \<Longrightarrow>
   fst ` set m' = fst ` set m \<union>
     {s. truthy s \<and> (\<exists>line \<in> set ls. \<exists>q ss. get_prop line ''quantity'' = Inr q \<and>
                                          get_opt q ''serialNumbers'' = JArr ss \<and> s \<in> set ss)}"
proof (induction ls arbitrary: m)
  case Nil
  then show ?case by simp
next
  case (Cons line ls)
  from Cons.prems obtain q where q: "get_prop line ''quantity'' = Inr q"
    by (cases "get_prop line ''quantity''") auto
  show ?case
  proof (cases "get_opt q ''serialNumbers''")
    case (JArr ss)
    with Cons.prems q have "sm_lines src ls (sm_serials line src ss m) = Inr m'" by simp
    from Cons.IH [OF this] JArr q show ?thesis by (auto simp: sm_serials_keys)
  qed (use Cons q in \<open>auto\<close>)
qed

lemma string_of_nat_index_key:
  "i < 4294967295 \<Longrightarrow> is_index_key (string_of_nat i) \<and> digits_val (string_of_nat i) = int i"
  by (simp add: is_index_key_def string_of_nat_digits hd_string_of_nat string_of_nat_zero
                digits_val_string_of_nat)


end
