(* ===== verification/Cli.thy ===== *)
theory Cli
  imports Mutations Serial_Search
begin

text \<open>
  The command handlers of \<^verbatim>\<open>src/scripts/cli.ts\<close>. Each entry of the
  \<open>commands\<close> object pairs a Zod schema with an asynchronous handler that
  destructures the validated arguments and calls the client. The schemas and
  \<open>runCli\<close> belong to the package \<open>@local/cli-utils\<close>, which is not in the
  repository: the model starts after validation, so a handler takes its
  arguments already typed, a required string as a \<open>string\<close>, a required
  integer as an \<open>int\<close>, an optional argument as a \<open>jsval\<close> that is
  \<open>undefined\<close> when it was not given. A handler is a computation on the client
  state, as the client methods are; \<open>JSON.parse\<close> of a command argument is the
  runtime's, the \<open>json_parse\<close> of the server record.
\<close>

subsection \<open>Helpers\<close>

text \<open>\<open>s.split(",")\<close>: the pieces between the separators, empty ones included.\<close>

fun split_on :: "char \<Rightarrow> string \<Rightarrow> string list" where
  "split_on c [] = [[]]"
| "split_on c (x # xs) =
     (if x = c then [] # split_on c xs
      else (case split_on c xs of [] \<Rightarrow> [[x]] | w # ws \<Rightarrow> (x # w) # ws))"

text \<open>\<open>include?.split(",")\<close> of an optional string argument.\<close>

definition split_opt :: "jsval \<Rightarrow> jsval" where
  "split_opt v = (case v of JStr s \<Rightarrow> JArr (map JStr (split_on CHR '','' s)) | _ \<Rightarrow> JUndef)"

text \<open>\<open>x ? JSON.parse(x) : undefined\<close> for an optional string argument.\<close>

definition parse_opt :: "server \<Rightarrow> jsval \<Rightarrow> error + jsval" where
  "parse_opt srv v =
     (if \<not> truthy v then Inr JUndef
      else case json_parse srv (js_to_string v) of
             None \<Rightarrow> Inl (SyntaxError ''Unexpected token in JSON'')
           | Some x \<Rightarrow> Inr x)"

text \<open>\<open>({ name: t.name, description: t.description })\<close> for each tool.\<close>

fun tool_summaries :: "jsval list \<Rightarrow> error + jsval list" where
  "tool_summaries [] = Inr []"
| "tool_summaries (t # ts) =
     bindS (get_prop t ''name'') (\<lambda>n. bindS (get_prop t ''description'') (\<lambda>d.
     bindS (tool_summaries ts) (\<lambda>rest. Inr (JObj [(''name'', n), (''description'', d)] # rest))))"

subsection \<open>Products (lines 13 to 75)\<close>

definition cmd_list_tools :: "server \<Rightarrow> (client, jsval) st" where
  "cmd_list_tools srv =
     bindE (on_conn (list_tools srv))
       (\<lambda>tools c. Some (case tools of
                          JArr ts \<Rightarrow> map_sum id JArr (tool_summaries ts)
                        | _ \<Rightarrow> Inl (TypeError ''tools.map is not a function''), c))"

definition cmd_list_products ::
  "server \<Rightarrow> int \<Rightarrow> jsval \<Rightarrow> jsval \<Rightarrow> jsval \<Rightarrow> jsval \<Rightarrow> jsval \<Rightarrow> (client, jsval) st" where
  "cmd_list_products srv now limit skip filter_arg categoryId category =
     list_products srv now
       (JObj [(''limit'', limit), (''skip'', skip), (''filter'', filter_arg), (''categoryId'', categoryId),
              (''categoryName'', category)])"

definition cmd_get_product :: "server \<Rightarrow> int \<Rightarrow> string \<Rightarrow> (client, jsval) st" where
  "cmd_get_product srv now id_arg = get_product srv now id_arg JUndef"

definition cmd_search_products :: "server \<Rightarrow> int \<Rightarrow> string \<Rightarrow> (client, jsval) st" where
  "cmd_search_products srv now query = search_products srv now query"

definition cmd_get_bom :: "server \<Rightarrow> int \<Rightarrow> string \<Rightarrow> (client, jsval) st" where
  "cmd_get_bom srv now id_arg = get_bill_of_materials srv now id_arg"

definition cmd_list_categories :: "server \<Rightarrow> int \<Rightarrow> (client, jsval) st" where
  "cmd_list_categories srv now = list_categories srv now"

subsection \<open>Stock, transfers and counts (lines 78 to 224)\<close>

definition cmd_get_stock_levels :: "server \<Rightarrow> int \<Rightarrow> jsval \<Rightarrow> (client, jsval) st" where
  "cmd_get_stock_levels srv now productId = get_stock_levels srv now productId"

definition cmd_get_stock_by_location :: "jsval \<Rightarrow> (client, jsval) st" where
  "cmd_get_stock_by_location locationId = get_stock_by_location locationId"

definition cmd_list_stock_adjustments :: "server \<Rightarrow> int \<Rightarrow> jsval \<Rightarrow> (client, jsval) st" where
  "cmd_list_stock_adjustments srv now limit = list_stock_adjustments srv now (JObj [(''limit'', limit)])"

definition cmd_get_stock_adjustment :: "server \<Rightarrow> int \<Rightarrow> string \<Rightarrow> (client, jsval) st" where
  "cmd_get_stock_adjustment srv now id_arg = get_stock_adjustment srv now id_arg"

definition cmd_create_stock_adjustment ::
  "server \<Rightarrow> string \<Rightarrow> string \<Rightarrow> int \<Rightarrow> jsval \<Rightarrow> jsval \<Rightarrow> (client, jsval) st" where
  "cmd_create_stock_adjustment srv productId locationId quantity reasonId remarks =
     create_stock_adjustment srv
       (JObj [(''locationId'', JStr locationId), (''reasonId'', reasonId), (''remarks'', remarks),
              (''items'', JArr [JObj [(''productId'', JStr productId), (''quantity'', JNum quantity)]])])"

definition cmd_list_adjustment_reasons :: "server \<Rightarrow> int \<Rightarrow> (client, jsval) st" where
  "cmd_list_adjustment_reasons srv now = list_adjustment_reasons srv now"

definition cmd_list_stock_transfers ::
  "server \<Rightarrow> int \<Rightarrow> jsval \<Rightarrow> jsval \<Rightarrow> jsval \<Rightarrow> jsval \<Rightarrow> (client, jsval) st" where
  "cmd_list_stock_transfers srv now limit status fromLocationId toLocationId =
     list_stock_transfers srv now
       (JObj [(''limit'', limit), (''status'', status), (''fromLocationId'', fromLocationId),
              (''toLocationId'', toLocationId)])"

definition cmd_get_stock_transfer :: "server \<Rightarrow> int \<Rightarrow> string \<Rightarrow> (client, jsval) st" where
  "cmd_get_stock_transfer srv now id_arg = get_stock_transfer srv now id_arg"

definition cmd_create_stock_transfer ::
  "server \<Rightarrow> string \<Rightarrow> string \<Rightarrow> string \<Rightarrow> int \<Rightarrow> jsval \<Rightarrow> (client, jsval) st" where
  "cmd_create_stock_transfer srv productId fromLocationId toLocationId quantity remarks =
     create_stock_transfer srv
       (JObj [(''fromLocationId'', JStr fromLocationId), (''toLocationId'', JStr toLocationId),
              (''remarks'', remarks),
              (''items'', JArr [JObj [(''productId'', JStr productId), (''quantity'', JNum quantity)]])])"

definition cmd_list_stock_counts :: "server \<Rightarrow> int \<Rightarrow> jsval \<Rightarrow> jsval \<Rightarrow> jsval \<Rightarrow> (client, jsval) st" where
  "cmd_list_stock_counts srv now limit status locationId =
     list_stock_counts srv now (JObj [(''limit'', limit), (''status'', status), (''locationId'', locationId)])"

definition cmd_get_stock_count :: "server \<Rightarrow> int \<Rightarrow> string \<Rightarrow> (client, jsval) st" where
  "cmd_get_stock_count srv now id_arg = get_stock_count srv now id_arg"

definition cmd_create_stock_count :: "server \<Rightarrow> string \<Rightarrow> jsval \<Rightarrow> (client, jsval) st" where
  "cmd_create_stock_count srv locationId remarks =
     create_stock_count srv (JObj [(''locationId'', JStr locationId), (''remarks'', remarks)])"

subsection \<open>Sales and purchase orders (lines 227 to 297)\<close>

definition cmd_list_sales_orders :: "server \<Rightarrow> int \<Rightarrow> jsval \<Rightarrow> jsval \<Rightarrow> jsval \<Rightarrow> jsval \<Rightarrow> (client, jsval) st" where
  "cmd_list_sales_orders srv now limit skip status include =
     list_sales_orders srv now
       (JObj [(''limit'', limit), (''skip'', skip), (''status'', status), (''include'', split_opt include)])"

definition cmd_get_sales_order :: "server \<Rightarrow> int \<Rightarrow> string \<Rightarrow> jsval \<Rightarrow> (client, jsval) st" where
  "cmd_get_sales_order srv now id_arg include = get_sales_order srv now id_arg (JObj [(''include'', split_opt include)])"

definition cmd_search_sales_orders :: "server \<Rightarrow> int \<Rightarrow> string \<Rightarrow> (client, jsval) st" where
  "cmd_search_sales_orders srv now query = search_sales_orders srv now query"

definition cmd_list_purchase_orders ::
  "server \<Rightarrow> int \<Rightarrow> jsval \<Rightarrow> jsval \<Rightarrow> jsval \<Rightarrow> jsval \<Rightarrow> (client, jsval) st" where
  "cmd_list_purchase_orders srv now limit skip status include =
     list_purchase_orders srv now
       (JObj [(''limit'', limit), (''skip'', skip), (''status'', status), (''include'', split_opt include)])"

definition cmd_get_purchase_order :: "server \<Rightarrow> int \<Rightarrow> string \<Rightarrow> jsval \<Rightarrow> (client, jsval) st" where
  "cmd_get_purchase_order srv now id_arg include =
     get_purchase_order srv now id_arg (JObj [(''include'', split_opt include)])"

subsection \<open>Product and vendor writes (lines 300 to 397)\<close>

definition cmd_create_product ::
  "server \<Rightarrow> string \<Rightarrow> jsval \<Rightarrow> jsval \<Rightarrow> jsval \<Rightarrow> jsval \<Rightarrow> jsval \<Rightarrow> jsval \<Rightarrow> (client, jsval) st" where
  "cmd_create_product srv name sku description categoryId cost price barcode =
     upsert_product srv
       (JObj [(''name'', JStr name), (''sku'', sku), (''description'', description), (''categoryId'', categoryId),
              (''cost'', cost), (''defaultPrice'', price), (''barcode'', barcode)])"

text \<open>
  \<open>update-product\<close> (lines 323 to 350): the current product is read with the
  cache disabled, for a fresh optimistic-locking timestamp, and the cache is
  enabled again after the read. There is no \<open>try/finally\<close>: a read that throws
  leaves the cache disabled. \<open>name || current.name\<close> reads \<open>current.name\<close> only
  when no name is given; \<open>current.timestamp\<close> is always read.
\<close>

definition update_product_payload ::
  "string \<Rightarrow> jsval \<Rightarrow> jsval \<Rightarrow> jsval \<Rightarrow> jsval \<Rightarrow> jsval \<Rightarrow> jsval \<Rightarrow> error + jsval" where
  "update_product_payload id_arg name sku description cost price current =
     bindS (if truthy name then Inr name else get_prop current ''name'') (\<lambda>n.
     bindS (get_prop current ''timestamp'') (\<lambda>ts.
       Inr (JObj [(''id'', JStr id_arg), (''name'', n), (''sku'', sku), (''description'', description),
                  (''cost'', cost), (''defaultPrice'', price), (''timestamp'', ts)])))"

definition cmd_update_product ::
  "server \<Rightarrow> int \<Rightarrow> string \<Rightarrow> jsval \<Rightarrow> jsval \<Rightarrow> jsval \<Rightarrow> jsval \<Rightarrow> jsval \<Rightarrow> (client, jsval) st" where
  "cmd_update_product srv now id_arg name sku description cost price =
     bindE (modifyE disable_cache) (\<lambda>_.
     bindE (get_product srv now id_arg JUndef) (\<lambda>current.
     bindE (modifyE enable_cache) (\<lambda>_ c.
       case update_product_payload id_arg name sku description cost price current of
         Inl e \<Rightarrow> Some (Inl e, c)
       | Inr payload \<Rightarrow> upsert_product srv payload c)))"

text \<open>\<open>address\<close> is sent only when a street, a city or a country is given.\<close>

definition cmd_create_vendor ::
  "server \<Rightarrow> string \<Rightarrow> jsval \<Rightarrow> jsval \<Rightarrow> jsval \<Rightarrow> jsval \<Rightarrow> jsval \<Rightarrow> jsval \<Rightarrow> jsval \<Rightarrow> jsval \<Rightarrow>
   (client, jsval) st" where
  "cmd_create_vendor srv name email phone website street1 city postalCode country currency =
     upsert_vendor srv
       (JObj [(''name'', JStr name), (''email'', email), (''phone'', phone), (''website'', website),
              (''address'', if truthy street1 \<or> truthy city \<or> truthy country
                            then JObj [(''street1'', street1), (''city'', city), (''postalCode'', postalCode),
                                       (''country'', country)]
                            else JUndef),
              (''currencyCode'', currency)])"

definition vendor_not_found_msg :: "string \<Rightarrow> string" where
  "vendor_not_found_msg id_arg = ''Vendor '' @ id_arg @ '' not found''"

definition cmd_update_vendor ::
  "server \<Rightarrow> string \<Rightarrow> jsval \<Rightarrow> jsval \<Rightarrow> jsval \<Rightarrow> jsval \<Rightarrow> (client, jsval) st" where
  "cmd_update_vendor srv id_arg name email phone website =
     bindE (get_vendor srv id_arg) (\<lambda>vendor c.
       if \<not> truthy vendor then Some (Inl (CommandError (vendor_not_found_msg id_arg)), c)
       else case bindS (if truthy name then Inr name else get_prop vendor ''name'') (\<lambda>n.
                 bindS (get_prop vendor ''timestamp'') (\<lambda>ts.
                   Inr (JObj [(''id'', JStr id_arg), (''name'', n), (''email'', email), (''phone'', phone),
                              (''website'', website), (''timestamp'', ts)]))) of
              Inl e \<Rightarrow> Some (Inl e, c)
            | Inr payload \<Rightarrow> upsert_vendor srv payload c)"

subsection \<open>Purchase-order writes (lines 400 to 557)\<close>

definition invalid_items_msg :: string where
  \<open>invalid_items_msg = ''Invalid items JSON. Format: [{"productId":"...", "quantity":5}]''\<close>

definition cmd_create_purchase_order ::
  "server \<Rightarrow> string \<Rightarrow> jsval \<Rightarrow> jsval \<Rightarrow> jsval \<Rightarrow> jsval \<Rightarrow> string \<Rightarrow> jsval \<Rightarrow> jsval \<Rightarrow>
   (client, jsval) st" where
  "cmd_create_purchase_order srv vendorId orderNumber orderDate expectedDate locationId items currency remarks =
     (case json_parse srv items of
        None \<Rightarrow> throwE (CommandError invalid_items_msg)
      | Some parsedItems \<Rightarrow>
          upsert_purchase_order srv
            (JObj [(''vendorId'', JStr vendorId), (''orderNumber'', orderNumber), (''orderDate'', orderDate),
                   (''expectedDate'', expectedDate), (''locationId'', locationId), (''items'', parsedItems),
                   (''currencyCode'', currency), (''remarks'', remarks)]))"

text \<open>
  \<open>add-po-item\<close> (lines 430 to 454): like \<open>update-product\<close>, a read with the
  cache disabled; the new line is appended to the spread of the existing lines.
\<close>

definition add_po_item_payload :: "string \<Rightarrow> string \<Rightarrow> int \<Rightarrow> jsval \<Rightarrow> jsval \<Rightarrow> error + jsval" where
  "add_po_item_payload purchaseOrderId productId quantity unitCost currentPO =
     bindS (get_prop currentPO ''lines'') (\<lambda>ln.
     bindS (iter_lines ln) (\<lambda>existingItems.
       Inr (JObj [(''id'', JStr purchaseOrderId), (''vendorId'', get_opt currentPO ''vendorId''),
                  (''items'', JArr (existingItems @
                     [JObj [(''productId'', JStr productId), (''quantity'', JNum quantity), (''unitCost'', unitCost)]])),
                  (''timestamp'', get_opt currentPO ''timestamp'')])))"

definition cmd_add_po_item :: "server \<Rightarrow> int \<Rightarrow> string \<Rightarrow> string \<Rightarrow> int \<Rightarrow> jsval \<Rightarrow> (client, jsval) st" where
  "cmd_add_po_item srv now purchaseOrderId productId quantity unitCost =
     bindE (modifyE disable_cache) (\<lambda>_.
     bindE (get_purchase_order srv now purchaseOrderId (JObj [(''include'', JArr [JStr ''lines''])])) (\<lambda>currentPO.
     bindE (modifyE enable_cache) (\<lambda>_ c.
       case add_po_item_payload purchaseOrderId productId quantity unitCost currentPO of
         Inl e \<Rightarrow> Some (Inl e, c)
       | Inr payload \<Rightarrow> upsert_purchase_order srv payload c)))"

text \<open>
  \<open>update-purchase-order\<close> (lines 456 to 497): the existing lines of a fresh read
  are rewritten to the upsert format. \<open>typeof line.quantity === 'object'\<close> holds
  for \<open>null\<close> too, whose \<open>standardQuantity\<close> read throws; a quantity or price is
  \<open>parseFloat\<close> of the value's string, with \<open>'1'\<close> and \<open>'0'\<close> for falsy values.
  Reading \<open>uomQuantity\<close> happens only when \<open>standardQuantity\<close> is falsy, on a value
  already read without throwing, so it cannot throw.
\<close>

definition update_po_item :: "server \<Rightarrow> jsval \<Rightarrow> error + jsval" where
  "update_po_item srv line =
     bindS (get_prop line ''purchaseOrderLineId'') (\<lambda>lid.
     bindS (get_prop line ''productId'') (\<lambda>pid.
     bindS (get_prop line ''description'') (\<lambda>desc.
     bindS (get_prop line ''quantity'') (\<lambda>q.
     bindS (if js_typeof q = ''object'' then
              bindS (get_prop q ''standardQuantity'') (\<lambda>sq.
                Inr (parse_float srv (js_to_string (js_or sq (js_or (get_opt q ''uomQuantity'') (JStr ''1''))))))
            else Inr (parse_float srv (js_to_string (js_or q (JStr ''1''))))) (\<lambda>quantity.
     bindS (get_prop line ''unitPrice'') (\<lambda>up.
       Inr (JObj [(''id'', lid), (''productId'', pid), (''description'', desc), (''quantity'', quantity),
                  (''unitCost'', parse_float srv (js_to_string (js_or up (JStr ''0''))))])))))))"

definition update_po_payload ::
  "server \<Rightarrow> string \<Rightarrow> jsval \<Rightarrow> jsval \<Rightarrow> jsval \<Rightarrow> jsval \<Rightarrow> jsval \<Rightarrow> error + jsval" where
  "update_po_payload srv id_arg remarks orderDate expectedDate currency currentPO =
     bindS (get_prop currentPO ''lines'') (\<lambda>ln.
       case js_or ln (JArr []) of
         JArr ls \<Rightarrow>
           bindS (mapS (update_po_item srv) ls) (\<lambda>existingItems.
             Inr (JObj [(''id'', JStr id_arg), (''vendorId'', get_opt currentPO ''vendorId''),
                        (''items'', JArr existingItems),
                        (''remarks'', if remarks \<noteq> JUndef then remarks else get_opt currentPO ''orderRemarks''),
                        (''orderDate'', js_or orderDate (get_opt currentPO ''orderDate'')),
                        (''expectedDate'', js_or expectedDate (get_opt currentPO ''expectedDate'')),
                        (''currencyCode'', currency), (''timestamp'', get_opt currentPO ''timestamp'')]))
       | _ \<Rightarrow> Inl (TypeError ''(currentPO.lines || []).map is not a function''))"

definition cmd_update_purchase_order ::
  "server \<Rightarrow> int \<Rightarrow> string \<Rightarrow> jsval \<Rightarrow> jsval \<Rightarrow> jsval \<Rightarrow> jsval \<Rightarrow> jsval \<Rightarrow> (client, jsval) st" where
  "cmd_update_purchase_order srv now id_arg remarks orderDate expectedDate carrier currency =
     bindE (modifyE disable_cache) (\<lambda>_.
     bindE (get_purchase_order srv now id_arg (JObj [(''include'', JArr [JStr ''lines''])])) (\<lambda>currentPO.
     bindE (modifyE enable_cache) (\<lambda>_ c.
       case update_po_payload srv id_arg remarks orderDate expectedDate currency currentPO of
         Inl e \<Rightarrow> Some (Inl e, c)
       | Inr payload \<Rightarrow> upsert_purchase_order srv payload c)))"

definition receive_neither_msg :: string where
  "receive_neither_msg = ''Provide --receiveAll=true or --items=[...]''"

definition receive_both_msg :: string where
  "receive_both_msg = ''Cannot use both --receiveAll and --items''"

definition cmd_receive_po_items :: "server \<Rightarrow> string \<Rightarrow> jsval \<Rightarrow> jsval \<Rightarrow> jsval \<Rightarrow> (client, jsval) st" where
  "cmd_receive_po_items srv purchaseOrderId receiveAll items allowOverReceive =
     (if \<not> truthy receiveAll \<and> \<not> truthy items then throwE (CommandError receive_neither_msg)
      else if truthy receiveAll \<and> truthy items then throwE (CommandError receive_both_msg)
      else case parse_opt srv items of
        Inl e \<Rightarrow> throwE e
      | Inr parsedItems \<Rightarrow>
          receive_purchase_order srv
            (JObj [(''purchaseOrderId'', JStr purchaseOrderId), (''receiveAll'', receiveAll),
                   (''items'', parsedItems), (''allowOverReceive'', allowOverReceive)]))"

definition unreceive_none_msg :: string where
  "unreceive_none_msg = ''Provide --receiveLineIds, --items, or --unreceiveAll''"

definition unreceive_many_msg :: string where
  "unreceive_many_msg = ''Use only one of --receiveLineIds, --items, or --unreceiveAll''"

definition cmd_unreceive_po_items ::
  "server \<Rightarrow> string \<Rightarrow> jsval \<Rightarrow> jsval \<Rightarrow> jsval \<Rightarrow> jsval \<Rightarrow> (client, jsval) st" where
  "cmd_unreceive_po_items srv purchaseOrderId receiveLineIds items unreceiveAll dryRun =
     (let modes = length (filter truthy [receiveLineIds, items, unreceiveAll]) in
      if modes = 0 then throwE (CommandError unreceive_none_msg)
      else if modes > 1 then throwE (CommandError unreceive_many_msg)
      else case bindS (parse_opt srv receiveLineIds) (\<lambda>ids. bindS (parse_opt srv items) (\<lambda>its. Inr (ids, its))) of
        Inl e \<Rightarrow> throwE e
      | Inr (ids, its) \<Rightarrow>
          unreceive_purchase_order srv
            (JObj [(''purchaseOrderId'', JStr purchaseOrderId), (''receiveLineIds'', ids), (''items'', its),
                   (''unreceiveAll'', unreceiveAll), (''dryRun'', dryRun)]))"

subsection \<open>Locations and serial numbers (lines 560 to 687)\<close>

definition cmd_list_locations :: "server \<Rightarrow> int \<Rightarrow> (client, jsval) st" where
  "cmd_list_locations srv now = list_locations srv now"

definition cmd_get_location :: "server \<Rightarrow> int \<Rightarrow> string \<Rightarrow> (client, jsval) st" where
  "cmd_get_location srv now id_arg = get_location srv now id_arg"

definition cmd_get_order_serials :: "server \<Rightarrow> int \<Rightarrow> string \<Rightarrow> (client, jsval) st" where
  "cmd_get_order_serials srv now id_arg = get_sales_order_serials srv now id_arg"

definition cmd_get_po_vins :: "server \<Rightarrow> int \<Rightarrow> string \<Rightarrow> (client, jsval) st" where
  "cmd_get_po_vins srv now id_arg = get_purchase_order_serials srv now id_arg"

definition cmd_search_serial :: "server \<Rightarrow> int \<Rightarrow> string \<Rightarrow> (client, jsval) st" where
  "cmd_search_serial srv now query = search_serial srv now query"

definition cmd_list_vins :: "server \<Rightarrow> int \<Rightarrow> jsval \<Rightarrow> jsval \<Rightarrow> (client, jsval) st" where
  "cmd_list_vins srv now limit productId =
     list_serials srv now (JObj [(''limit'', limit), (''productId'', productId)])"

text \<open>
  \<open>build-serial-index\<close> (lines 615 to 628) calls \<open>buildSerialIndex\<close> directly
  and reports the number of keys; the progress line on standard error is not
  modelled.
\<close>

definition build_index_msg :: string where
  "build_index_msg = ''serial index built and cached for 1 hour''"

definition cmd_build_serial_index :: "server \<Rightarrow> jsval \<Rightarrow> (client, jsval) st" where
  "cmd_build_serial_index srv limit =
     bindE (on_conn (build_serial_index srv (JObj [(''limit'', limit)]))) (\<lambda>serialIndex c.
       Some (bindS (own_entries serialIndex) (\<lambda>es.
               Inr (JObj [(''success'', JBool True), (''totalSerials'', JNum (int (length es))),
                          (''message'', JStr build_index_msg)])), c))"

definition cmd_get_product_vins :: "server \<Rightarrow> int \<Rightarrow> string \<Rightarrow> (client, jsval) st" where
  "cmd_get_product_vins srv now id_arg = get_product_serials srv now id_arg"

definition cmd_list_all_vins :: "server \<Rightarrow> int \<Rightarrow> jsval \<Rightarrow> jsval \<Rightarrow> (client, jsval) st" where
  "cmd_list_all_vins srv now maxProducts inStockOnly =
     list_all_serials srv now (JObj [(''maxProducts'', maxProducts), (''inStockOnly'', inStockOnly)])"

definition cmd_search_serial_fast :: "server \<Rightarrow> int \<Rightarrow> string \<Rightarrow> (client, jsval) st" where
  "cmd_search_serial_fast srv now query = search_serial_by_product srv now query"

definition cmd_list_serial_numbers :: "server \<Rightarrow> int \<Rightarrow> jsval \<Rightarrow> jsval \<Rightarrow> (client, jsval) st" where
  "cmd_list_serial_numbers srv now productId limit =
     list_serials srv now (JObj [(''productId'', productId), (''limit'', limit)])"

definition cmd_search_serial_numbers :: "server \<Rightarrow> int \<Rightarrow> string \<Rightarrow> (client, jsval) st" where
  "cmd_search_serial_numbers srv now query = search_serial srv now query"

definition cmd_get_serial_number :: "server \<Rightarrow> int \<Rightarrow> string \<Rightarrow> (client, jsval) st" where
  "cmd_get_serial_number srv now id_arg = search_serial srv now id_arg"

subsection \<open>Customers, vendors, company, currencies (lines 690 to 721)\<close>

definition cmd_list_customers :: "server \<Rightarrow> int \<Rightarrow> jsval \<Rightarrow> (client, jsval) st" where
  "cmd_list_customers srv now limit = list_customers srv now (JObj [(''limit'', limit)])"

definition cmd_list_vendors :: "server \<Rightarrow> int \<Rightarrow> jsval \<Rightarrow> (client, jsval) st" where
  "cmd_list_vendors srv now limit = list_vendors srv now (JObj [(''limit'', limit)])"

definition cmd_get_company_info :: "(client, jsval) st" where
  "cmd_get_company_info = get_company_info"

text \<open>\<open>list-currencies\<close> calls the tool directly, without the cache.\<close>

definition cmd_list_currencies :: "server \<Rightarrow> jsval \<Rightarrow> (client, jsval) st" where
  "cmd_list_currencies srv limit = on_conn (call_tool srv ''list_currencies'' (JObj [(''count'', limit)]))"

subsection \<open>Lemmas\<close>

lemma split_on_nonempty [simp]: "split_on c s \<noteq> []"
  by (induction s) (auto split: list.splits)

lemma join_cons_head: "join sep ((x # w) # ws) = x # join sep (w # ws)"
  by (cases ws) auto

lemma join_split_on: "join [c] (split_on c s) = s"
proof (induction s)
  case Nil
  then show ?case by simp
next
  case (Cons x xs)
  show ?case
  proof (cases "x = c")
    case True
    then show ?thesis using Cons.IH by (cases "split_on c xs") auto
  next
    case False
    then show ?thesis using Cons.IH by (cases "split_on c xs") (auto simp: join_cons_head)
  qed
qed

lemma opt_join_split: "opt_join (split_opt (JStr s)) = Inr (JStr s)"
proof -
  have "map (\<lambda>v. if v = JUndef \<or> v = JNull then [] else js_to_string v) (map JStr ws) = ws" for ws
    by (induction ws) auto
  then show ?thesis by (simp add: opt_join_def split_opt_def join_split_on)
qed

lemma get_product_disabled_cache:
  "cache_disabled c \<Longrightarrow> get_product srv now i JUndef c = Some (r, c') \<Longrightarrow> cache c' = cache c"
  by (auto simp: get_product_def opt_join_def get_opt_def dest: cached_tool_bypass_cache)

lemma get_purchase_order_disabled_cache:
  "cache_disabled c \<Longrightarrow> get_purchase_order srv now i (JObj [(''include'', JArr xs)]) c = Some (r, c') \<Longrightarrow>
   cache c' = cache c"
  by (auto simp: get_purchase_order_def opt_join_def get_opt_def dest: cached_tool_bypass_cache)

lemma disable_cache_flags [simp]:
  "cache_disabled (disable_cache c)" "\<not> enabled (cache (disable_cache c))"
  by (simp_all add: disable_cache_def disable_def)

text \<open>The errors of the network layer are never the errors a command handler throws.\<close>

definition is_command_error :: "error \<Rightarrow> bool" where
  "is_command_error e = (case e of CommandError _ \<Rightarrow> True | _ \<Rightarrow> False)"

lemma connect_error_kind: "connect srv c = Some (Inl e, c') \<Longrightarrow> \<not> is_command_error e"
  by (auto simp: connect_def Let_def is_command_error_def split: if_splits)

lemma call_tool_error_kind: "call_tool srv n a c = Some (Inl e, c') \<Longrightarrow> \<not> is_command_error e"
  by (auto simp: call_tool_def interpret_result_def is_command_error_def Let_def
           dest: connect_error_kind elim!: bindE_cases split: option.splits if_splits)

lemma write_then_invalidate_error_kind:
  "write_then_invalidate srv t d ps c = Some (Inl e, c') \<Longrightarrow> \<not> is_command_error e"
  by (auto simp: write_then_invalidate_def on_conn_def dest: call_tool_error_kind elim!: bindE_cases)

lemma unreceive_error_kind:
  assumes "unreceive_purchase_order srv d c = Some (Inl e, c')"
  shows "\<not> is_command_error e"
  using assms unfolding unreceive_purchase_order_def
proof (cases rule: bindE_cases)
  case (fail e')
  then show ?thesis by (auto simp: on_conn_def dest: call_tool_error_kind)
next
  case (ok a s')
  then show ?thesis by (cases d) (auto simp: is_command_error_def split: if_splits)
qed

lemma parse_opt_error_kind: "parse_opt srv v = Inl e \<Longrightarrow> \<not> is_command_error e"
  by (auto simp: parse_opt_def is_command_error_def split: if_splits option.splits)

text \<open>
  C24. When the fresh read of \<open>update-product\<close> fails, the command fails with that
  error and leaves the cache disabled (the client's flag and the store's switch):
  every later read of the process bypasses the cache. The specification requires
  the cache to be re-enabled even when the call in between fails.
\<close>

theorem update_product_failed_read_leaves_cache_disabled:
  assumes "get_product srv now id_arg JUndef (disable_cache c) = Some (Inl e, c')"
  shows "cmd_update_product srv now id_arg name sku description cost price c = Some (Inl e, c') \<and>
         cache_disabled c' \<and> \<not> enabled (cache c')"
proof -
  have "cache c' = cache (disable_cache c)"
    using get_product_disabled_cache [OF _ assms] by simp
  moreover have "cache_disabled c'"
    using assms by (auto simp: get_product_def cached_tool_def cached_def on_conn_def
                         split: sum.splits option.splits)
  ultimately show ?thesis using assms by (simp add: cmd_update_product_def)
qed

lemma update_product_payload_obj:
  "update_product_payload id_arg name sku description cost price (JObj fs) =
     Inr (JObj [(''id'', JStr id_arg), (''name'', js_or name (get_opt (JObj fs) ''name'')), (''sku'', sku),
                (''description'', description), (''cost'', cost), (''defaultPrice'', price),
                (''timestamp'', get_opt (JObj fs) ''timestamp'')])"
  by (simp add: update_product_payload_def bindS_def get_opt_def js_or_def)

text \<open>
  C25. When the fresh read returns a product object, \<open>update-product\<close> writes
  \<open>{id, name: name || current.name, sku, description, cost, defaultPrice: price,
  timestamp: current.timestamp}\<close> on a client whose cache is enabled again, and the
  read itself neither read nor wrote the store.
\<close>

theorem update_product_fresh_read:
  assumes "get_product srv now id_arg JUndef (disable_cache c) = Some (Inr (JObj fs), c1)"
  shows "cmd_update_product srv now id_arg name sku description cost price c =
           upsert_product srv
             (JObj [(''id'', JStr id_arg), (''name'', js_or name (get_opt (JObj fs) ''name'')), (''sku'', sku),
                    (''description'', description), (''cost'', cost), (''defaultPrice'', price),
                    (''timestamp'', get_opt (JObj fs) ''timestamp'')])
             (enable_cache c1) \<and>
         cache c1 = cache (disable_cache c)"
  using assms get_product_disabled_cache [OF _ assms]
  by (simp add: cmd_update_product_def update_product_payload_obj)

text \<open>
  C26. \<open>receive-po-items\<close> throws one of its usage errors, before any effect,
  exactly when \<open>--receiveAll\<close> and \<open>--items\<close> are both given or both missing.
\<close>

theorem receive_po_items_modes:
  "(\<exists>m. cmd_receive_po_items srv pid receiveAll items aor c = Some (Inl (CommandError m), c)) \<longleftrightarrow>
   (truthy receiveAll \<longleftrightarrow> truthy items)"
proof (cases "truthy receiveAll \<longleftrightarrow> truthy items")
  case True
  then show ?thesis by (auto simp: cmd_receive_po_items_def)
next
  case False
  have "\<not> is_command_error e" if "cmd_receive_po_items srv pid receiveAll items aor c = Some (Inl e, c')" for e c'
    using that False
    by (auto simp: cmd_receive_po_items_def receive_purchase_order_def
             dest: parse_opt_error_kind write_then_invalidate_error_kind split: sum.splits)
  with False show ?thesis by (auto simp: is_command_error_def)
qed

text \<open>
  C27. \<open>unreceive-po-items\<close> throws one of its usage errors, before any effect,
  exactly when not exactly one of \<open>--receiveLineIds\<close>, \<open>--items\<close> and
  \<open>--unreceiveAll\<close> is given.
\<close>

theorem unreceive_po_items_modes:
  "(\<exists>m. cmd_unreceive_po_items srv pid ids items allItems dryRun c = Some (Inl (CommandError m), c)) \<longleftrightarrow>
   length (filter truthy [ids, items, allItems]) \<noteq> 1"
proof (cases "length (filter truthy [ids, items, allItems]) = 1")
  case False
  then show ?thesis by (auto simp: cmd_unreceive_po_items_def Let_def)
next
  case True
  let ?p = "bindS (parse_opt srv ids) (\<lambda>i. bindS (parse_opt srv items) (\<lambda>its. Inr (i, its)))"
  have eq: "cmd_unreceive_po_items srv pid ids items allItems dryRun c =
    (case ?p of Inl e \<Rightarrow> throwE e c
     | Inr (i, its) \<Rightarrow> unreceive_purchase_order srv
          (JObj [(''purchaseOrderId'', JStr pid), (''receiveLineIds'', i), (''items'', its),
                 (''unreceiveAll'', allItems), (''dryRun'', dryRun)]) c)"
    by (simp only: cmd_unreceive_po_items_def Let_def True) (simp split: sum.split)
  have "\<not> is_command_error e"
    if "cmd_unreceive_po_items srv pid ids items allItems dryRun c = Some (Inl e, c')" for e c'
    using that unfolding eq
    by (auto simp: bindS_def dest: parse_opt_error_kind unreceive_error_kind split: sum.splits)
  with True show ?thesis by (auto simp: is_command_error_def)
qed

text \<open>
  C28. \<open>create-purchase-order\<close> with an \<open>--items\<close> argument that is not JSON
  throws the format hint and calls nothing: the client state is unchanged.
\<close>

theorem create_purchase_order_invalid_items:
  "json_parse srv items = None \<Longrightarrow>
   cmd_create_purchase_order srv vendorId orderNumber orderDate expectedDate locationId items currency remarks c =
     Some (Inl (CommandError invalid_items_msg), c)"
  by (simp add: cmd_create_purchase_order_def)

text \<open>
  C29. \<open>add-po-item\<close> sends the purchase order's existing lines, read fresh,
  followed by the new line, with the order's vendor and timestamp.
\<close>

theorem add_po_item_appends:
  assumes "get_purchase_order srv now poId (JObj [(''include'', JArr [JStr ''lines''])]) (disable_cache c) =
             Some (Inr currentPO, c1)"
    and "get_prop currentPO ''lines'' = Inr (JArr ls)"
  shows "cmd_add_po_item srv now poId productId quantity unitCost c =
           upsert_purchase_order srv
             (JObj [(''id'', JStr poId), (''vendorId'', get_opt currentPO ''vendorId''),
                    (''items'', JArr (ls @ [JObj [(''productId'', JStr productId), (''quantity'', JNum quantity),
                                                (''unitCost'', unitCost)]])),
                    (''timestamp'', get_opt currentPO ''timestamp'')])
             (enable_cache c1)"
  using assms by (simp add: cmd_add_po_item_def add_po_item_payload_def iter_lines_def js_or_def)

text \<open>
  C30. \<open>build-serial-index\<close> never writes the cache, although its message says
  that the index was built and cached for one hour: the store after the command is
  the store before it.
\<close>

theorem build_serial_index_command_keeps_cache:
  "cmd_build_serial_index srv limit c = Some (r, c') \<Longrightarrow> cache c' = cache c"
  by (auto simp: cmd_build_serial_index_def on_conn_def elim!: bindE_cases)

text \<open>
  C31. The \<open>--include\<close> list of \<open>get-sales-order\<close> makes a round trip: the
  CLI splits it at the commas, the client joins it back, so the cache key holds the
  argument verbatim.
\<close>

theorem cli_include_roundtrip:
  "cmd_get_sales_order srv now i (JStr s) =
     cached_tool srv (create_cache_key ''sales_order'' [(''id'', JStr i), (''include'', JStr s)])
       ''get_sales_order'' (JObj ((''salesOrderId'', JStr i) # set_if ''include'' (split_opt (JStr s))))
       ttl_five_minutes now"
  by (simp add: cmd_get_sales_order_def get_sales_order_def get_opt_def opt_join_split)

subsection \<open>update-purchase-order\<close>

lemma update_po_item_fields:
  assumes "update_po_item srv line = Inr item" and "get_prop line ''quantity'' = Inr q"
  shows "get_opt item ''quantity'' =
           (if js_typeof q = ''object''
            then parse_float srv (js_to_string (js_or (get_opt q ''standardQuantity'')
                                                 (js_or (get_opt q ''uomQuantity'') (JStr ''1''))))
            else parse_float srv (js_to_string (js_or q (JStr ''1''))))"
  using assms
  by (auto simp: update_po_item_def bindS_Inr_iff get_opt_def split: if_splits)

text \<open>
  A quantity that is \<open>null\<close> passes the test \<open>typeof === 'object'\<close> and its
  \<open>standardQuantity\<close> read throws: one such line fails the whole command.
\<close>

lemma update_po_item_null_quantity:
  "map_of fs ''quantity'' = Some JNull \<Longrightarrow>
   update_po_item srv (JObj fs) = Inl (TypeError ''Cannot read properties of null (reading standardQuantity)'')"
  by (simp add: update_po_item_def bindS_def)

text \<open>The \<open>--carrier\<close> option is destructured and never used.\<close>

lemma update_purchase_order_ignores_carrier:
  "cmd_update_purchase_order srv now i r od ed carrier cur = cmd_update_purchase_order srv now i r od ed carrier' cur"
  by (simp add: cmd_update_purchase_order_def)

text \<open>
  C40. A line whose quantity is falsy and not an object is sent with quantity
  \<open>parseFloat('1')\<close>: a line whose quantity is the number \<open>0\<close> (or the empty
  string) becomes a line of quantity one. (The string \<open>'0'\<close> is truthy and is
  parsed as given.)
\<close>

theorem update_po_falsy_quantity_defaults:
  assumes "update_po_item srv line = Inr item" and "get_prop line ''quantity'' = Inr q"
    and "\<not> truthy q" and "js_typeof q \<noteq> ''object''"
  shows "get_opt item ''quantity'' = parse_float srv ''1''"
  using update_po_item_fields [OF assms(1,2)] assms(3,4) by (simp add: js_or_def)

lemma update_po_payload_shape:
  assumes "update_po_payload srv id_arg remarks orderDate expectedDate currency currentPO = Inr (JObj fs)"
  shows "\<exists>items. fs =
           [(''id'', JStr id_arg), (''vendorId'', get_opt currentPO ''vendorId''), (''items'', JArr items),
            (''remarks'', if remarks \<noteq> JUndef then remarks else get_opt currentPO ''orderRemarks''),
            (''orderDate'', js_or orderDate (get_opt currentPO ''orderDate'')),
            (''expectedDate'', js_or expectedDate (get_opt currentPO ''expectedDate'')),
            (''currencyCode'', currency), (''timestamp'', get_opt currentPO ''timestamp'')]"
proof -
  from assms obtain ln where
    r: "(case js_or ln (JArr []) of
           JArr ls \<Rightarrow>
             bindS (mapS (update_po_item srv) ls) (\<lambda>existingItems.
               Inr (JObj [(''id'', JStr id_arg), (''vendorId'', get_opt currentPO ''vendorId''),
                          (''items'', JArr existingItems),
                          (''remarks'', if remarks \<noteq> JUndef then remarks else get_opt currentPO ''orderRemarks''),
                          (''orderDate'', js_or orderDate (get_opt currentPO ''orderDate'')),
                          (''expectedDate'', js_or expectedDate (get_opt currentPO ''expectedDate'')),
                          (''currencyCode'', currency), (''timestamp'', get_opt currentPO ''timestamp'')]))
         | _ \<Rightarrow> Inl (TypeError ''(currentPO.lines || []).map is not a function'')) = Inr (JObj fs)"
    by (auto simp: update_po_payload_def bindS_Inr_iff)
  then show ?thesis
    by (cases "js_or ln (JArr [])") (auto simp: bindS_Inr_iff)
qed

text \<open>
  C38. \<open>create-vendor\<close> sends an address only when a street, a city or a country is
  given: a postal code given alone is dropped, the vendor being created exactly as
  without any address option.
\<close>

theorem create_vendor_drops_lone_postal_code:
  assumes "\<not> truthy street1" and "\<not> truthy city" and "\<not> truthy country"
  shows "cmd_create_vendor srv name email phone website street1 city postalCode country currency =
           cmd_create_vendor srv name email phone website JUndef JUndef JUndef JUndef currency"
  using assms by (simp add: cmd_create_vendor_def)

text \<open>
  C39. \<open>update-purchase-order\<close> treats an empty option differently for remarks and
  dates: \<open>--remarks ""\<close> clears the order's remarks (\<open>remarks !== undefined\<close>),
  while \<open>--orderDate ""\<close> and \<open>--expectedDate ""\<close> keep the order's dates
  (\<open>orderDate || currentPO.orderDate\<close>).
\<close>

theorem update_po_empty_options:
  assumes "update_po_payload srv id_arg (JStr []) (JStr []) (JStr []) currency currentPO = Inr (JObj fs)"
  shows "map_of fs ''remarks'' = Some (JStr []) \<and>
         map_of fs ''orderDate'' = Some (get_opt currentPO ''orderDate'') \<and>
         map_of fs ''expectedDate'' = Some (get_opt currentPO ''expectedDate'')"
proof -
  from update_po_payload_shape [OF assms] obtain items where
    "fs = [(''id'', JStr id_arg), (''vendorId'', get_opt currentPO ''vendorId''), (''items'', JArr items),
           (''remarks'', JStr []), (''orderDate'', js_or (JStr []) (get_opt currentPO ''orderDate'')),
           (''expectedDate'', js_or (JStr []) (get_opt currentPO ''expectedDate'')),
           (''currencyCode'', currency), (''timestamp'', get_opt currentPO ''timestamp'')]"
    by auto
  then show ?thesis by (simp add: js_or_def)
qed

end
