(* ===== verification/Serial_Properties.thy ===== *)
theory Serial_Properties
  imports Serial_Search
begin

text \<open>
  Properties of the order-based serial index that span its parts: the page loop
  of \<open>buildSerialIndex\<close> against a server that serves a finite store of orders
  (it returns, with the whole store: a liveness property of a loop that is only
  a partial function), the shape of every record of a built index, and the
  composition of the build with \<open>searchSerial\<close>: a serial recorded on an order is
  found by any query with the same normalisation.
\<close>

text \<open>
  A server serves the store \<open>os\<close> of orders of a status when every page request
  of a connected client returns the 100 orders from the offset \<open>skip\<close>.
\<close>

definition serves_store :: "server \<Rightarrow> jsval \<Rightarrow> jsval list \<Rightarrow> bool" where
  "serves_store srv status os \<longleftrightarrow>
     (\<forall>c skip. connected c \<and> 0 \<le> skip \<longrightarrow>
        call_tool srv ''list_sales_orders'' (order_page_args status skip) c =
          Some (Inr (JArr (take page_size (drop (nat skip) os))),
                c\<lparr>calls := calls c @ [(''list_sales_orders'', order_page_args status skip)]\<rparr>))"

text \<open>The records a build writes: \<open>serial_entry order line k\<close> under the key \<open>k\<close>.\<close>

definition serial_entries :: "(string \<times> jsval) set" where
  "serial_entries = {(k, serial_entry order line k) | k order line. True}"

subsection \<open>The page loop over a finite store\<close>

lemma page_orders_arr [simp]: "page_orders (JArr xs) = Inr xs"
  by (simp add: page_orders_def js_or_def)

lemma fetch_orders_store_from:
  assumes st: "serves_store srv status os" and cn: "connected c"
  shows "\<exists>c'. fetch_orders srv status None (int (k * page_size)) (take (k * page_size) os) c = Some (Inr os, c')"
  using cn
proof (induction "length os - k * page_size" arbitrary: k c rule: less_induct)
  case less
  let ?page = "take page_size (drop (k * page_size) os)"
  let ?c1 = "c\<lparr>calls := calls c @ [(''list_sales_orders'', order_page_args status (int (k * page_size)))]\<rparr>"
  have "connected c \<and> 0 \<le> int (k * page_size)" using less.prems by simp
  from st [unfolded serves_store_def, rule_format, OF this]
  have ct: "call_tool srv ''list_sales_orders'' (order_page_args status (int (k * page_size))) c =
              Some (Inr (JArr ?page), ?c1)"
    by (simp only: nat_int)
  have all: "take (k * page_size) os @ ?page = take (Suc k * page_size) os"
    using take_add [of "k * page_size" page_size os] by (simp add: add.commute)
  show ?case
  proof (cases "length ?page < page_size")
    case True
    then have short: "length os - k * page_size < page_size" by simp
    then have "take (Suc k * page_size) os = os" by simp
    with short ct all show ?thesis by (subst fetch_orders.simps) (simp add: Let_def)
  next
    case False
    then have lt: "length os - Suc k * page_size < length os - k * page_size"
      by (simp add: page_size_def)
    have "connected ?c1" using less.prems by simp
    from less.hyps [OF lt this] obtain c' where
      "fetch_orders srv status None (int (Suc k * page_size)) (take (Suc k * page_size) os) ?c1 = Some (Inr os, c')"
      by blast
    moreover have "int (k * page_size) + int page_size = int (Suc k * page_size)" by simp
    ultimately show ?thesis using False ct all
      by (subst fetch_orders.simps) (simp add: Let_def add.commute)
  qed
qed

subsection \<open>The records of a built index\<close>

lemma set_obj_set: "set (obj_set idx k v) \<subseteq> set idx \<union> {(k, v)}"
  by (auto simp: obj_set_def split: if_splits)

lemma keys_obj_set: "fst ` set (obj_set idx k v) = insert k (fst ` set idx)"
  by (force simp: obj_set_def)

lemma add_serials_entries:
  "add_serials order line ss idx = Inr idx' \<Longrightarrow> set idx' \<subseteq> set idx \<union> serial_entries"
proof (induction ss arbitrary: idx)
  case (Cons s ss)
  then show ?case
    using set_obj_set [of idx _ "serial_entry order line _"]
    by (auto simp: serial_entries_def Let_def split: jsval.splits if_splits) blast+
qed simp

lemma add_lines_entries:
  "add_lines order ls idx = Inr idx' \<Longrightarrow> set idx' \<subseteq> set idx \<union> serial_entries"
proof (induction ls arbitrary: idx)
  case (Cons line ls)
  from Cons.prems obtain q where q: "get_prop line ''quantity'' = Inr q"
    by (cases "get_prop line ''quantity''") auto
  show ?case
  proof (cases "get_opt q ''serialNumbers''")
    case (JArr ss)
    with Cons.prems q obtain idx1 where a: "add_serials order line ss idx = Inr idx1"
        and r: "add_lines order ls idx1 = Inr idx'"
      by (auto simp: bindS_Inr_iff)
    from add_serials_entries [OF a] Cons.IH [OF r] show ?thesis by blast
  qed (use Cons q in \<open>simp_all\<close>)
qed simp

lemma extract_from_lines_entries:
  "extract_from_lines lines order idx = Inr idx' \<Longrightarrow> set idx' \<subseteq> set idx \<union> serial_entries"
  by (auto simp: extract_from_lines_def bindS_Inr_iff dest: add_lines_entries)

lemma index_orders_entries:
  "index_orders os idx = Inr idx' \<Longrightarrow> set idx' \<subseteq> set idx \<union> serial_entries"
proof (induction os arbitrary: idx)
  case (Cons order os)
  then show ?case
    by (auto simp: bindS_Inr_iff dest!: extract_from_lines_entries) blast+
qed simp

lemma serial_entry_shape:
  "serial_entry order line k = JObj fs \<Longrightarrow>
   map fst fs = [''serial'', ''salesOrderId'', ''orderNumber'', ''orderDate'', ''productId'', ''shopifyOrderUrl''] \<and>
   map_of fs ''serial'' = Some (JStr k)"
  by (auto simp: serial_entry_def)

lemma not_index_key_hd: "\<not> is_digit (hd x) \<Longrightarrow> \<not> is_index_key x"
  by (cases x) (auto simp: is_index_key_def)

lemma serial_entry_searchable:
  assumes "serial_entry order line k = JObj fs"
  shows "distinct (map fst fs) \<and> ''found'' \<notin> set (map fst fs) \<and> \<not> list_ex (\<lambda>(k, _). is_index_key k) fs"
proof -
  have m: "map fst fs = [''serial'', ''salesOrderId'', ''orderNumber'', ''orderDate'', ''productId'', ''shopifyOrderUrl'']"
    using serial_entry_shape [OF assms] by simp
  have d: "\<not> is_digit CHR ''s''" "\<not> is_digit CHR ''o''" "\<not> is_digit CHR ''p''"
    by (simp_all add: is_digit_def)
  have "list_all (\<lambda>x. \<not> is_index_key x) (map fst fs)"
    unfolding m using d by (simp add: not_index_key_hd)
  then have "\<not> list_ex (\<lambda>(k, _). is_index_key k) fs"
    by (simp add: list_ex_iff list_all_iff split_def)
  moreover have "distinct (map fst fs)" "''found'' \<notin> set (map fst fs)" unfolding m by simp_all
  ultimately show ?thesis by simp
qed

lemma index_orders_records:
  "index_orders os [] = Inr idx \<Longrightarrow> (k, v) \<in> set idx \<Longrightarrow> \<exists>order line. v = serial_entry order line k"
  using index_orders_entries [of os "[]" idx] by (fastforce simp: serial_entries_def)

subsection \<open>Keys of a built index\<close>

lemma add_serials_step_keys:
  "fst ` set idx \<subseteq>
   fst ` set (if \<not> truthy (index_get idx k) then obj_set idx k (serial_entry order line k) else idx) \<and>
   k \<in> fst ` set (if \<not> truthy (index_get idx k) then obj_set idx k (serial_entry order line k) else idx)"
proof (cases "truthy (index_get idx k)")
  case True
  then obtain v where "map_of idx k = Some v" by (cases "map_of idx k") (auto simp: index_get_def)
  then have "k \<in> fst ` set idx" by (metis map_of_eq_None_iff option.distinct(1))
  with True show ?thesis by simp
next
  case False
  then show ?thesis by (auto simp: keys_obj_set)
qed

lemma add_serials_ConsE:
  assumes "add_serials order line (x # ss) idx = Inr idx'"
  obtains (skip) "\<not> truthy x" "add_serials order line ss idx = Inr idx'"
    | (str) str where "x = JStr str" "str \<noteq> []"
        "add_serials order line ss
           (if \<not> truthy (index_get idx (normalize_serial str))
            then obj_set idx (normalize_serial str) (serial_entry order line (normalize_serial str)) else idx) =
         Inr idx'"
  using assms by (cases x) (auto simp: Let_def split: if_splits)

lemma add_lines_ConsE:
  assumes "add_lines order (line # ls) idx = Inr idx'"
  obtains (arr) q ss idx1 where "get_prop line ''quantity'' = Inr q" "get_opt q ''serialNumbers'' = JArr ss"
      "add_serials order line ss idx = Inr idx1" "add_lines order ls idx1 = Inr idx'"
    | (other) q where "get_prop line ''quantity'' = Inr q" "\<not> is_array (get_opt q ''serialNumbers'')"
      "add_lines order ls idx = Inr idx'"
proof -
  from assms obtain q where q: "get_prop line ''quantity'' = Inr q"
    by (cases "get_prop line ''quantity''") auto
  show ?thesis
  proof (cases "get_opt q ''serialNumbers''")
    case (JArr ss)
    with assms q show ?thesis by (auto simp: bindS_Inr_iff intro: arr)
  qed (use assms q other in \<open>simp_all\<close>)
qed

lemma add_serials_mono:
  "add_serials order line ss idx = Inr idx' \<Longrightarrow> fst ` set idx \<subseteq> fst ` set idx'"
proof (induction ss arbitrary: idx)
  case (Cons x ss)
  from Cons.prems show ?case
  proof (cases rule: add_serials_ConsE)
    case skip
    then show ?thesis using Cons.IH by blast
  next
    case (str s)
    with Cons.IH add_serials_step_keys [of idx "normalize_serial s" order line] show ?thesis by blast
  qed
qed simp

lemma add_serials_key:
  "add_serials order line ss idx = Inr idx' \<Longrightarrow> JStr s \<in> set ss \<Longrightarrow> s \<noteq> [] \<Longrightarrow>
   normalize_serial s \<in> fst ` set idx'"
proof (induction ss arbitrary: idx)
  case (Cons x ss)
  from Cons.prems(1) show ?case
  proof (cases rule: add_serials_ConsE)
    case skip
    with Cons.prems have "JStr s \<in> set ss" by auto
    with skip Cons.IH Cons.prems(3) show ?thesis by blast
  next
    case (str t)
    show ?thesis
    proof (cases "t = s")
      case True
      with str add_serials_step_keys [of idx "normalize_serial s" order line] show ?thesis
        by (auto dest: add_serials_mono)
    next
      case False
      with str Cons.prems have "JStr s \<in> set ss" by auto
      with str Cons.IH Cons.prems(3) show ?thesis by blast
    qed
  qed
qed simp

lemma add_lines_mono:
  "add_lines order ls idx = Inr idx' \<Longrightarrow> fst ` set idx \<subseteq> fst ` set idx'"
proof (induction ls arbitrary: idx)
  case (Cons line ls)
  from Cons.prems show ?case
  proof (cases rule: add_lines_ConsE)
    case (arr q ss idx1)
    with Cons.IH show ?thesis by (blast dest: add_serials_mono)
  next
    case (other q)
    with Cons.IH show ?thesis by blast
  qed
qed simp

lemma add_lines_key:
  "add_lines order ls idx = Inr idx' \<Longrightarrow> line \<in> set ls \<Longrightarrow> get_prop line ''quantity'' = Inr q \<Longrightarrow>
   get_opt q ''serialNumbers'' = JArr ss \<Longrightarrow> JStr s \<in> set ss \<Longrightarrow> s \<noteq> [] \<Longrightarrow>
   normalize_serial s \<in> fst ` set idx'"
proof (induction ls arbitrary: idx)
  case (Cons l ls)
  from Cons.prems(1) show ?case
  proof (cases rule: add_lines_ConsE)
    case (arr q' ss' idx1)
    show ?thesis
    proof (cases "l = line")
      case True
      with arr Cons.prems have "ss' = ss" by simp
      with arr Cons.prems(5,6) show ?thesis by (blast dest: add_serials_key add_lines_mono)
    next
      case False
      with arr Cons.prems Cons.IH show ?thesis by auto
    qed
  next
    case (other q')
    show ?thesis
    proof (cases "l = line")
      case True
      with other Cons.prems show ?thesis by simp
    next
      case False
      with other Cons.prems Cons.IH show ?thesis by auto
    qed
  qed
qed simp

lemma extract_from_lines_mono:
  "extract_from_lines lines order idx = Inr idx' \<Longrightarrow> fst ` set idx \<subseteq> fst ` set idx'"
  by (auto simp: extract_from_lines_def bindS_Inr_iff dest!: add_lines_mono)

lemma extract_from_lines_key:
  assumes "extract_from_lines (JArr ls) order idx = Inr idx'" and "line \<in> set ls"
    and "get_prop line ''quantity'' = Inr q" and "get_opt q ''serialNumbers'' = JArr ss"
    and "JStr s \<in> set ss" and "s \<noteq> []"
  shows "normalize_serial s \<in> fst ` set idx'"
proof -
  have "add_lines order ls idx = Inr idx'"
    using assms(1) by (simp add: extract_from_lines_def iter_lines_def js_or_def)
  from add_lines_key [OF this assms(2-6)] show ?thesis .
qed

lemma index_orders_ConsE:
  assumes "index_orders (order # os) idx = Inr idx'"
  obtains pk idx1 pl idx2 ln idx3 where
    "get_prop order ''packLines'' = Inr pk" "extract_from_lines pk order idx = Inr idx1"
    "get_prop order ''pickLines'' = Inr pl" "extract_from_lines pl order idx1 = Inr idx2"
    "get_prop order ''lines'' = Inr ln" "extract_from_lines ln order idx2 = Inr idx3"
    "index_orders os idx3 = Inr idx'"
  using assms by (auto simp: bindS_Inr_iff)

lemma index_orders_mono:
  "index_orders os idx = Inr idx' \<Longrightarrow> fst ` set idx \<subseteq> fst ` set idx'"
proof (induction os arbitrary: idx)
  case (Cons order os)
  from Cons.prems show ?case
  proof (cases rule: index_orders_ConsE)
    case (1 pk idx1 pl idx2 ln idx3)
    have "fst ` set idx \<subseteq> fst ` set idx1" by (rule extract_from_lines_mono [OF 1(2)])
    also have "\<dots> \<subseteq> fst ` set idx2" by (rule extract_from_lines_mono [OF 1(4)])
    also have "\<dots> \<subseteq> fst ` set idx3" by (rule extract_from_lines_mono [OF 1(6)])
    also have "\<dots> \<subseteq> fst ` set idx'" by (rule Cons.IH [OF 1(7)])
    finally show ?thesis .
  qed
qed simp

lemma index_orders_key:
  assumes "index_orders os idx = Inr idx'" and "order \<in> set os"
    and "src \<in> {''packLines'', ''pickLines'', ''lines''}" and "get_prop order src = Inr (JArr ls)"
    and "line \<in> set ls" and "get_prop line ''quantity'' = Inr q" and "get_opt q ''serialNumbers'' = JArr ss"
    and "JStr s \<in> set ss" and "s \<noteq> []"
  shows "normalize_serial s \<in> fst ` set idx'"
  using assms(1,2)
proof (induction os arbitrary: idx)
  case (Cons o' os)
  from Cons.prems(1) show ?case
  proof (cases rule: index_orders_ConsE)
    case (1 pk idx1 pl idx2 ln idx3)
    note g1 = 1(1) and e1 = 1(2) and g2 = 1(3) and e2 = 1(4) and g3 = 1(5) and e3 = 1(6) and rest = 1(7)
    have key: "extract_from_lines (JArr ls) ord i = Inr i' \<Longrightarrow> normalize_serial s \<in> fst ` set i'" for ord i i'
      by (rule extract_from_lines_key [OF _ assms(5-9)])
    show ?thesis
    proof (cases "o' = order")
      case True
      have m2: "fst ` set idx1 \<subseteq> fst ` set idx2" by (rule extract_from_lines_mono [OF e2])
      have m3: "fst ` set idx2 \<subseteq> fst ` set idx3" by (rule extract_from_lines_mono [OF e3])
      have k3: "normalize_serial s \<in> fst ` set idx3"
      proof -
        from assms(3) consider "src = ''packLines''" | "src = ''pickLines''" | "src = ''lines''" by fast
        then show ?thesis
        proof cases
          case 1
          with True g1 assms(4) have "pk = JArr ls" by simp
          with e1 key [of o'] have "normalize_serial s \<in> fst ` set idx1" by simp
          with m2 m3 show ?thesis by fast
        next
          case 2
          with True g2 assms(4) have "pl = JArr ls" by simp
          with e2 key [of o'] have "normalize_serial s \<in> fst ` set idx2" by simp
          with m3 show ?thesis by fast
        next
          case 3
          with True g3 assms(4) have "ln = JArr ls" by simp
          with e3 key [of o'] show ?thesis by simp
        qed
      qed
      with index_orders_mono [OF rest] show ?thesis by fast
    next
      case False
      with Cons.prems(2) have "order \<in> set os" by simp
      with Cons.IH [OF rest] show ?thesis .
    qed
  qed
qed simp

text \<open>
  C33. The page loop ends on a server that serves a finite store: without a cap,
  \<open>buildSerialIndex\<close> collects every order of the store, in order, and
  returns; pages are requested until one is short, and a store whose size is a
  multiple of 100 ends with an empty page.
\<close>

theorem fetch_orders_collects_store:
  "serves_store srv status os \<Longrightarrow> connected c \<Longrightarrow> \<exists>c'. fetch_orders srv status None 0 [] c = Some (Inr os, c')"
  using fetch_orders_store_from [of srv status os c 0] by (simp only: mult_0 of_nat_0 take_0)

text \<open>
  C34. Every record of a built index is a SerialRecord: an object with the fields
  \<open>serial\<close>, \<open>salesOrderId\<close>, \<open>orderNumber\<close>, \<open>orderDate\<close>, \<open>productId\<close>
  and \<open>shopifyOrderUrl\<close>, in that order, whose \<open>serial\<close> is its key.
\<close>

theorem index_records_shape:
  assumes "index_orders os [] = Inr idx" and "(k, v) \<in> set idx"
  shows "\<exists>fs. v = JObj fs \<and>
           map fst fs = [''serial'', ''salesOrderId'', ''orderNumber'', ''orderDate'', ''productId'', ''shopifyOrderUrl''] \<and>
           map_of fs ''serial'' = Some (JStr k)"
proof -
  from index_orders_records [OF assms] obtain order line where v: "v = serial_entry order line k" by (elim exE)
  obtain fs where fs: "serial_entry order line k = JObj fs" by (rule that [OF serial_entry_def])
  from v fs have "v = JObj fs" by (rule trans)
  with serial_entry_shape [OF fs] show ?thesis by (intro exI [of _ fs]) simp
qed

text \<open>
  C35. Build, then search: a serial number recorded (as a non-empty string) in the
  pack lines, pick lines or order lines of an order of the build is found by every
  query with the same normalisation, and the record found carries the normalised
  serial.
\<close>

theorem built_index_finds_serial:
  assumes "index_orders os [] = Inr idx" and "order \<in> set os"
    and "src \<in> {''packLines'', ''pickLines'', ''lines''}" and "get_prop order src = Inr (JArr ls)"
    and "line \<in> set ls" and "get_prop line ''quantity'' = Inr q" and "get_opt q ''serialNumbers'' = JArr ss"
    and "JStr s \<in> set ss" and "s \<noteq> []" and "normalize_serial s' = normalize_serial s"
  shows "\<exists>fs. search_result (JObj idx) s' msg = Inr (JObj ((''found'', JBool True) # fs)) \<and>
             map_of fs ''serial'' = Some (JStr (normalize_serial s))"
proof -
  let ?k = "normalize_serial s"
  have "?k \<in> fst ` set idx" by (rule index_orders_key [OF assms(1-9)])
  then obtain v where kv: "map_of idx ?k = Some v"
    by (cases "map_of idx ?k") (simp_all add: map_of_eq_None_iff)
  then have "(?k, v) \<in> set idx" by (rule map_of_SomeD)
  from index_orders_records [OF assms(1) this] obtain order' line' where v: "v = serial_entry order' line' ?k"
    by (elim exE)
  obtain fs where fs: "serial_entry order' line' ?k = JObj fs" by (rule that [OF serial_entry_def])
  from serial_entry_searchable [OF fs] kv v fs assms(10)
  have "search_result (JObj idx) s' msg = Inr (JObj ((''found'', JBool True) # fs))"
    by (intro search_result_found_obj) auto
  with serial_entry_shape [OF fs] show ?thesis by (intro exI [of _ fs]) simp
qed

end
