(* ===== verification/Examples.thy ===== *)
theory Examples
  imports Cli Serial_Properties
begin

text \<open>
  Concrete fixtures on which the properties of the development are applied: a
  server that answers every tool with a fixed JSON value, one that rejects every
  call, one whose environment lacks the API key; sales orders with serial numbers
  in their pack lines and order lines; a connected client whose cache holds a
  stock entry and a product-serials entry. Each theorem named \<open>..._witness\<close>
  instantiates one property at such a fixture, discharging its hypotheses by
  evaluation.
\<close>

definition demo_env :: "string \<rightharpoonup> string" where
  "demo_env = [''INFLOW_API_KEY'' \<mapsto> ''key'', ''INFLOW_COMPANY_ID'' \<mapsto> ''company'']"

definition text_result :: "bool \<Rightarrow> string \<Rightarrow> tool_result" where
  "text_result err t = \<lparr>is_error = err, content = [\<lparr>ctype = ''text'', ctext = Some t\<rparr>]\<rparr>"

definition json_server :: "jsval \<Rightarrow> server" where
  "json_server v =
     \<lparr>proc_env = demo_env, config_env = Map.empty, transport_up = True,
      svc = (\<lambda>h n a. Some (text_result False ''{}'')), json_parse = (\<lambda>_. Some v), tool_list = Some [],
      parse_float = (\<lambda>t. JNum (digits_val t))\<rparr>"

definition failing_server :: server where
  "failing_server =
     \<lparr>proc_env = demo_env, config_env = Map.empty, transport_up = True,
      svc = (\<lambda>h n a. Some (text_result True ''rejected'')), json_parse = (\<lambda>_. None), tool_list = None,
      parse_float = (\<lambda>t. JNum (digits_val t))\<rparr>"

definition no_key_server :: server where
  "no_key_server =
     \<lparr>proc_env = [''INFLOW_COMPANY_ID'' \<mapsto> ''company''], config_env = Map.empty, transport_up = True,
      svc = (\<lambda>h n a. None), json_parse = (\<lambda>_. None), tool_list = None,
      parse_float = (\<lambda>t. JNum (digits_val t))\<rparr>"

definition demo_line :: "string \<Rightarrow> string \<Rightarrow> jsval" where
  "demo_line pid s = JObj [(''productId'', JStr pid), (''quantity'', JObj [(''serialNumbers'', JArr [JStr s])])]"

definition demo_order :: "string \<Rightarrow> jsval \<Rightarrow> jsval \<Rightarrow> jsval" where
  "demo_order n pk ln =
     JObj [(''salesOrderId'', JStr n), (''orderNumber'', JStr n), (''packLines'', pk),
           (''pickLines'', JArr []), (''lines'', ln)]"

definition connected_client :: client where
  "connected_client = initial_client\<lparr>conn := \<lparr>connected = True, calls = [], transports = 1\<rparr>\<rparr>"

definition stock_key :: string where
  "stock_key = create_cache_key ''stock'' [(''productId'', JStr ''P1'')]"

definition serials_key :: string where
  "serials_key = create_cache_key ''product_serials'' [(''productId'', JStr ''P1'')]"

definition demo_cache_client :: client where
  "demo_cache_client =
     connected_client\<lparr>cache := (cache connected_client)\<lparr>entries :=
        Mapping.update stock_key \<lparr>cached_value = JNum 5, expires_at = 1000\<rparr>
          (Mapping.update serials_key \<lparr>cached_value = JNum 7, expires_at = 1000\<rparr> Mapping.empty)\<rparr>\<rparr>"

definition demo_o1 :: jsval where "demo_o1 = demo_order ''SO1'' (JArr [demo_line ''A'' '' abc123 '']) JNull"

definition demo_o2 :: jsval where "demo_o2 = demo_order ''SO2'' (JArr [demo_line ''B'' ''ABC123'']) JNull"

definition demo_o3 :: jsval where
  "demo_o3 = demo_order ''SO3'' (JArr [demo_line ''A'' ''abc123'']) (JArr [demo_line ''B'' ''ABC123''])"

definition demo_entry1 :: jsval where
  "demo_entry1 = serial_entry demo_o1 (demo_line ''A'' '' abc123 '') ''ABC123''"

definition demo_entry3 :: jsval where
  "demo_entry3 = serial_entry demo_o3 (demo_line ''A'' ''abc123'') ''ABC123''"

definition short_page :: jsval where "short_page = JArr (replicate 99 (JObj []))"

definition after_page :: conn where
  "after_page = \<lparr>connected = True, calls = [(''list_sales_orders'', order_page_args (JStr ''Fulfilled'') 0)],
     transports = 1\<rparr>"

definition adj_op :: write_op where "adj_op = CreateStockAdjustment (JObj [(''productId'', JStr ''P1'')])"

definition after_failed_adj :: client where
  "after_failed_adj = demo_cache_client\<lparr>conn := \<lparr>connected = True,
     calls = [(''upsert_stock_adjustment'', JObj [(''productId'', JStr ''P1'')])], transports = 1\<rparr>\<rparr>"

definition after_adj :: client where
  "after_adj = snd (the (run_write (json_server (JObj [])) adj_op demo_cache_client))"

definition truth0 :: "string \<Rightarrow> jsval" where
  "truth0 k = (if k = stock_key then JNum 5 else if k = serials_key then JNum 7 else JNull)"

definition truth1 :: "string \<Rightarrow> jsval" where
  "truth1 = truth0(stock_key := JNum 4)"

definition demo_product :: jsval where "demo_product = JObj [(''productId'', JStr ''P1''), (''name'', JStr ''Widget'')]"

definition after_get :: client where
  "after_get = snd (the (get_product (json_server demo_product) 0 ''P1'' JUndef connected_client))"

definition after_upsert :: client where
  "after_upsert = snd (the (run_write (json_server demo_product) (UpsertProduct demo_product) after_get))"

definition after_stock :: client where
  "after_stock = snd (the (get_stock_levels (json_server (JNum 5)) 0 (JStr ''P1'') connected_client))"

definition demo_fields1 :: "(string \<times> jsval) list" where
  "demo_fields1 =
     [(''serial'', JStr ''ABC123''), (''salesOrderId'', JStr ''SO1''), (''orderNumber'', JStr ''SO1''),
      (''orderDate'', JUndef), (''productId'', JStr ''A''), (''shopifyOrderUrl'', JNull)]"

definition demo_list_fields :: "(string \<times> jsval) list" where
  "demo_list_fields = [(''B7'', JObj [(''productId'', JStr ''P'')]), (''100'', JObj [(''productId'', JStr ''Q'')])]"

definition demo_list_index :: jsval where "demo_list_index = JObj demo_list_fields"

definition prod_s1 :: jsval where "prod_s1 = JObj [(''serial'', JStr ''abc123''), (''productId'', JStr ''A'')]"

definition prod_s2 :: jsval where "prod_s2 = JObj [(''serial'', JStr ''ABC123 ''), (''productId'', JStr ''B'')]"

definition demo_line2 :: jsval where
  "demo_line2 =
     JObj [(''productId'', JStr ''A''),
           (''quantity'', JObj [(''serialNumbers'', JArr [JStr '' abc123'', JStr ''ABC123'', JStr []])])]"

definition demo_sm :: serial_map where
  "demo_sm = [(JStr '' abc123'', JStr ''A'', [''pack'']), (JStr ''ABC123'', JStr ''A'', [''pack''])]"

definition demo_product_ts :: jsval where
  "demo_product_ts = JObj [(''productId'', JStr ''P1''), (''name'', JStr ''Widget''), (''timestamp'', JStr ''T1'')]"

definition demo_po :: jsval where
  "demo_po =
     JObj [(''purchaseOrderId'', JStr ''PO1''), (''vendorId'', JStr ''V1''), (''timestamp'', JStr ''T2''),
           (''lines'', JArr [JObj [(''productId'', JStr ''A''), (''quantity'', JNum 2)]])]"

definition after_failed_get :: client where
  "after_failed_get = snd (the (get_product failing_server 0 ''P1'' JUndef (disable_cache connected_client)))"

definition after_fresh_get :: client where
  "after_fresh_get = snd (the (get_product (json_server demo_product_ts) 0 ''P1'' JUndef (disable_cache connected_client)))"

definition after_po_get :: client where
  "after_po_get =
     snd (the (get_purchase_order (json_server demo_po) 0 ''PO1'' (JObj [(''include'', JArr [JStr ''lines''])])
                 (disable_cache connected_client)))"

definition store_server :: "jsval list \<Rightarrow> server" where
  "store_server os =
     \<lparr>proc_env = demo_env, config_env = Map.empty, transport_up = True,
      svc = (\<lambda>h n a. Some (text_result False (js_to_string (get_opt a ''skip'')))),
      json_parse = (\<lambda>t. Some (JArr (take page_size (drop (nat (digits_val t)) os)))), tool_list = Some [],
      parse_float = (\<lambda>t. JNum (digits_val t))\<rparr>"

definition demo_q1 :: jsval where "demo_q1 = JObj [(''serialNumbers'', JArr [JStr '' abc123 ''])]"

definition demo_po_line :: jsval where
  "demo_po_line =
     JObj [(''purchaseOrderLineId'', JStr ''L1''), (''productId'', JStr ''P1''), (''description'', JStr ''Bolt''),
           (''quantity'', JNum 0), (''unitPrice'', JStr ''3'')]"

definition demo_po_upd :: jsval where
  "demo_po_upd =
     JObj [(''lines'', JArr [demo_po_line]), (''vendorId'', JStr ''V1''), (''orderRemarks'', JStr ''rush''),
           (''orderDate'', JStr ''2024-01-01''), (''expectedDate'', JStr ''2024-02-01''), (''timestamp'', JStr ''T3'')]"

lemma ex_index_o1: "index_orders [demo_o1] [] = Inr [(''ABC123'', demo_entry1)]"
  unfolding demo_o1_def demo_entry1_def by code_simp

lemma ex_index_o12: "index_orders ([demo_o1] @ [demo_o2]) [] = Inr [(''ABC123'', demo_entry1)]"
  unfolding demo_o1_def demo_o2_def demo_entry1_def by code_simp

theorem first_order_wins_witness:
  "index_orders ([demo_o1] @ [demo_o2]) [] = Inr [(''ABC123'', demo_entry1)] \<and>
   index_orders [demo_o1] [] = Inr [(''ABC123'', demo_entry1)] \<and>
   map_of [(''ABC123'', demo_entry1)] ''ABC123'' = Some demo_entry1 \<and>
   map_of [(''ABC123'', demo_entry1)] ''ABC123'' = Some demo_entry1"
  using first_order_wins [OF ex_index_o12 ex_index_o1, of "''ABC123''" demo_entry1] ex_index_o12 ex_index_o1
  by simp

theorem pack_lines_win_witness:
  "get_prop demo_o3 ''packLines'' = Inr (JArr [demo_line ''A'' ''abc123'']) \<and>
   extract_from_lines (JArr [demo_line ''A'' ''abc123'']) demo_o3 [] = Inr [(''ABC123'', demo_entry3)] \<and>
   wf_index [] \<and> index_orders [demo_o3] [] = Inr [(''ABC123'', demo_entry3)] \<and>
   map_of [(''ABC123'', demo_entry3)] ''ABC123'' = Some demo_entry3"
proof -
  have h1: "get_prop demo_o3 ''packLines'' = Inr (JArr [demo_line ''A'' ''abc123''])"
    unfolding demo_o3_def demo_order_def by code_simp
  have h2: "extract_from_lines (JArr [demo_line ''A'' ''abc123'']) demo_o3 [] = Inr [(''ABC123'', demo_entry3)]"
    unfolding demo_o3_def demo_entry3_def by code_simp
  have h3: "index_orders [demo_o3] [] = Inr [(''ABC123'', demo_entry3)]"
    unfolding demo_o3_def demo_entry3_def by code_simp
  show ?thesis
    using pack_lines_win [OF h1 h2 _ wf_index_Nil h3, of "''ABC123''" demo_entry3] h1 h2 h3 by simp
qed

text \<open>A server whose every page is full: without a cap the loop would never end.\<close>

theorem fetch_orders_capped_returns_witness:
  "0 < (250::int) \<and>
   (\<exists>r. fetch_orders (json_server (JArr (replicate 100 (JObj [])))) (JStr ''Fulfilled'') (Some 250) 0 []
          (conn initial_client) = Some r)"
  using fetch_orders_capped_returns [of 250] by simp

theorem short_page_ignores_cap_witness:
  "call_tool (json_server short_page) ''list_sales_orders'' (order_page_args (JStr ''Fulfilled'') 0) (conn connected_client)
     = Some (Inr short_page, after_page) \<and>
   page_orders short_page = Inr (replicate 99 (JObj [])) \<and> length (replicate 99 (JObj [])) < page_size \<and>
   fetch_orders (json_server short_page) (JStr ''Fulfilled'') (Some 50) 0 [] (conn connected_client)
     = Some (Inr (replicate 99 (JObj [])), after_page) \<and>
   50 < length (replicate 99 (JObj []))"
proof -
  have h1: "call_tool (json_server short_page) ''list_sales_orders'' (order_page_args (JStr ''Fulfilled'') 0)
              (conn connected_client) = Some (Inr short_page, after_page)"
    by (simp add: call_tool_connected connected_client_def after_page_def json_server_def text_result_def
                  interpret_result_def first_text_def)
  have h2: "page_orders short_page = Inr (replicate 99 (JObj []))"
    by (simp add: page_orders_def short_page_def js_or_def)
  have h3: "length (replicate 99 (JObj [])) < page_size" by (simp add: page_size_def)
  show ?thesis using short_page_ignores_cap [OF h1 h2 h3, of "Some 50" "[]"] h1 h2 h3 by simp
qed

text \<open>A second order with the same serial leaves the index of the first as it was.\<close>

theorem index_orders_wf_witness:
  "wf_index [(''ABC123'', demo_entry1)] \<and>
   index_orders [demo_o2] [(''ABC123'', demo_entry1)] = Inr [(''ABC123'', demo_entry1)] \<and>
   wf_index [(''ABC123'', demo_entry1)] \<and>
   (\<exists>ext. [(''ABC123'', demo_entry1)] = [(''ABC123'', demo_entry1)] @ ext)"
proof -
  have h1: "wf_index [(''ABC123'', demo_entry1)]"
    unfolding demo_entry1_def serial_entry_def wf_index_def by simp
  have h2: "index_orders [demo_o2] [(''ABC123'', demo_entry1)] = Inr [(''ABC123'', demo_entry1)]"
    unfolding demo_o2_def demo_entry1_def by code_simp
  show ?thesis using index_orders_wf [OF h1 h2] h1 h2 by simp
qed

theorem failed_write_keeps_cache_witness:
  "run_write failing_server adj_op demo_cache_client = Some (Inl (OperationError ''rejected''), after_failed_adj) \<and>
   cache after_failed_adj = cache demo_cache_client"
proof -
  have h: "run_write failing_server adj_op demo_cache_client = Some (Inl (OperationError ''rejected''), after_failed_adj)"
    unfolding adj_op_def failing_server_def demo_cache_client_def after_failed_adj_def connected_client_def
      initial_client_def demo_env_def text_result_def
    by code_simp
  show ?thesis using failed_write_keeps_cache [OF h] h by simp
qed

lemma ex_run_adj: "run_write (json_server (JObj [])) adj_op demo_cache_client = Some (Inr (JObj []), after_adj)"
  unfolding after_adj_def adj_op_def json_server_def demo_cache_client_def connected_client_def
    initial_client_def demo_env_def text_result_def
  by code_simp

lemma ex_stock_key_matches: "matches (Prefix ''stock'') stock_key"
  unfolding stock_key_def by code_simp

lemma ex_serials_key_not_stock: "\<not> matches (Prefix ''stock'') serials_key"
  unfolding serials_key_def by code_simp

lemma ex_lookups:
  "Mapping.lookup (entries (cache demo_cache_client)) stock_key = Some \<lparr>cached_value = JNum 5, expires_at = 1000\<rparr>"
  "Mapping.lookup (entries (cache demo_cache_client)) serials_key = Some \<lparr>cached_value = JNum 7, expires_at = 1000\<rparr>"
  unfolding demo_cache_client_def stock_key_def serials_key_def by code_simp+

theorem write_purges_families_witness:
  "run_write (json_server (JObj [])) adj_op demo_cache_client = Some (Inr (JObj []), after_adj) \<and>
   Mapping.lookup (entries (cache after_adj)) stock_key = None \<and>
   Mapping.lookup (entries (cache after_adj)) serials_key = Some \<lparr>cached_value = JNum 7, expires_at = 1000\<rparr>"
  using write_purges_families [OF ex_run_adj, of stock_key] write_purges_families [OF ex_run_adj, of serials_key]
    ex_run_adj ex_stock_key_matches ex_serials_key_not_stock ex_lookups
  by (simp add: adj_op_def)

lemma ex_keys_differ: "stock_key \<noteq> serials_key"
  unfolding stock_key_def serials_key_def by code_simp

theorem write_restores_coherence_witness:
  "coherent truth0 0 (cache demo_cache_client) \<and>
   {k. truth1 k \<noteq> truth0 k} = {stock_key} \<and>
   (\<exists>p \<in> set (write_families adj_op). matches p stock_key) \<and>
   run_write (json_server (JObj [])) adj_op demo_cache_client = Some (Inr (JObj []), after_adj) \<and>
   coherent truth1 0 (cache after_adj)"
proof -
  have h1: "coherent truth0 0 (cache demo_cache_client)"
    using ex_keys_differ
    by (auto simp: coherent_def fresh_value_def demo_cache_client_def truth0_def split: if_splits)
  have ch: "{k. truth1 k \<noteq> truth0 k} = {stock_key}"
    by (auto simp: truth1_def truth0_def)
  have m: "\<exists>p \<in> set (write_families adj_op). matches p stock_key"
    using ex_stock_key_matches by (simp add: adj_op_def)
  have h2: "\<exists>p \<in> set (write_families adj_op). matches p k" if "truth1 k \<noteq> truth0 k" for k
  proof -
    from that have "k \<in> {k. truth1 k \<noteq> truth0 k}" by simp
    then have "k = stock_key" unfolding ch by simp
    with m show ?thesis by simp
  qed
  have "coherent truth1 0 (cache after_adj)" by (rule write_restores_coherence [OF h1 h2 ex_run_adj])
  with h1 ch m ex_run_adj show ?thesis by (intro conjI)
qed

theorem stock_writes_keep_serial_caches_witness:
  "adj_op \<in> {CreateStockAdjustment (JObj [(''productId'', JStr ''P1'')]),
             CreateStockTransfer (JObj [(''productId'', JStr ''P1'')]),
             CreateStockCount (JObj [(''productId'', JStr ''P1'')]),
             ReceivePurchaseOrder (JObj [(''productId'', JStr ''P1'')])} \<and>
   run_write (json_server (JObj [])) adj_op demo_cache_client = Some (Inr (JObj []), after_adj) \<and>
   serials_key \<in> {''serial_index_products''} \<union> range (create_cache_key ''product_serials'') \<union>
                 range (create_cache_key ''all_serials'') \<and>
   Mapping.lookup (entries (cache after_adj)) serials_key = Some \<lparr>cached_value = JNum 7, expires_at = 1000\<rparr>"
proof -
  have h1: "adj_op \<in> {CreateStockAdjustment (JObj [(''productId'', JStr ''P1'')]),
             CreateStockTransfer (JObj [(''productId'', JStr ''P1'')]),
             CreateStockCount (JObj [(''productId'', JStr ''P1'')]),
             ReceivePurchaseOrder (JObj [(''productId'', JStr ''P1'')])}"
    by (simp add: adj_op_def)
  have h3: "serials_key \<in> {''serial_index_products''} \<union> range (create_cache_key ''product_serials'') \<union>
                 range (create_cache_key ''all_serials'')"
    by (simp add: serials_key_def)
  show ?thesis using stock_writes_keep_serial_caches [OF h1 ex_run_adj h3] h1 h3 ex_run_adj ex_lookups by simp
qed

theorem get_product_served_from_cache_witness:
  "get_product (json_server demo_product) 0 ''P1'' JUndef connected_client = Some (Inr demo_product, after_get) \<and>
   misses (cache after_get) = Suc (misses (cache connected_client)) \<and>
   (0::int) \<le> 600 \<and> (600::int) < 0 + ttl_fifteen_minutes \<and>
   get_product failing_server 600 ''P1'' JUndef after_get =
     Some (Inr demo_product, after_get\<lparr>cache := (cache after_get)\<lparr>hits := Suc (hits (cache after_get))\<rparr>\<rparr>)"
proof -
  have h1: "get_product (json_server demo_product) 0 ''P1'' JUndef connected_client = Some (Inr demo_product, after_get)"
    unfolding after_get_def demo_product_def json_server_def connected_client_def initial_client_def
      demo_env_def text_result_def
    by code_simp
  have h2: "misses (cache after_get) = Suc (misses (cache connected_client))"
    unfolding after_get_def demo_product_def json_server_def connected_client_def initial_client_def
      demo_env_def text_result_def
    by code_simp
  have h4: "(600::int) < 0 + ttl_fifteen_minutes" by (simp add: ttl_fifteen_minutes_def)
  show ?thesis using get_product_served_from_cache [OF h1 h2 _ h4, of failing_server] h1 h2 h4 by simp
qed

text \<open>A stock read at time 0 is not reused at time 300: the second server answers.\<close>

theorem get_stock_levels_refetched_after_ttl_witness:
  "get_stock_levels (json_server (JNum 5)) 0 (JStr ''P1'') connected_client = Some (Inr (JNum 5), after_stock) \<and>
   misses (cache after_stock) = Suc (misses (cache connected_client)) \<and> (0::int) + 300 \<le> 300 \<and>
   map_option (\<lambda>(r, c''). (r, conn c'')) (get_stock_levels (json_server (JNum 6)) 300 (JStr ''P1'') after_stock) =
     call_tool (json_server (JNum 6)) ''get_inventory_summary'' (JObj [(''productId'', JStr ''P1'')]) (conn after_stock)"
proof -
  have h1: "get_stock_levels (json_server (JNum 5)) 0 (JStr ''P1'') connected_client = Some (Inr (JNum 5), after_stock)"
    unfolding after_stock_def json_server_def connected_client_def initial_client_def demo_env_def text_result_def
    by code_simp
  have h2: "misses (cache after_stock) = Suc (misses (cache connected_client))"
    unfolding after_stock_def json_server_def connected_client_def initial_client_def demo_env_def text_result_def
    by code_simp
  show ?thesis using get_stock_levels_refetched_after_ttl [OF h1 h2, of 300 "json_server (JNum 6)"] h1 h2 by simp
qed

theorem get_stock_levels_validation_witness:
  "\<not> truthy JUndef \<and>
   get_stock_levels (json_server (JArr [])) 0 JUndef demo_cache_client =
     Some (Inl (ValidationError stock_levels_msg), demo_cache_client)"
  using get_stock_levels_validation [of JUndef] by simp

theorem connect_idempotent_witness:
  "connect (json_server JNull) (conn initial_client) = Some (Inr (), \<lparr>connected = True, calls = [], transports = 1\<rparr>) \<and>
   connected \<lparr>connected = True, calls = [], transports = 1\<rparr> \<and>
   connect (json_server JNull) \<lparr>connected = True, calls = [], transports = 1\<rparr> = Some (Inr (), \<lparr>connected = True, calls = [], transports = 1\<rparr>)"
proof -
  have h: "connect (json_server JNull) (conn initial_client) = Some (Inr (), \<lparr>connected = True, calls = [], transports = 1\<rparr>)"
    by (simp add: connect_def initial_client_def json_server_def demo_env_def env_set_def)
  show ?thesis using connect_idempotent [OF h] h by simp
qed

theorem connect_requires_credentials_witness:
  "\<not> connected (conn initial_client) \<and>
   \<not> env_set (proc_env no_key_server ++ config_env no_key_server) ''INFLOW_API_KEY'' \<and>
   (\<exists>m. connect no_key_server (conn initial_client) = Some (Inl (ConfigurationError m), conn initial_client)) \<and>
   env_set (proc_env (json_server JNull) ++ config_env (json_server JNull)) ''INFLOW_API_KEY'' \<and>
   env_set (proc_env (json_server JNull) ++ config_env (json_server JNull)) ''INFLOW_COMPANY_ID'' \<and>
   \<not> (\<exists>m. connect (json_server JNull) (conn initial_client) = Some (Inl (ConfigurationError m), conn initial_client))"
proof -
  have h: "\<not> connected (conn initial_client)" by (simp add: initial_client_def)
  have e1: "\<not> env_set (proc_env no_key_server ++ config_env no_key_server) ''INFLOW_API_KEY''"
    by (simp add: no_key_server_def env_set_def)
  have e2: "env_set (proc_env (json_server JNull) ++ config_env (json_server JNull)) ''INFLOW_API_KEY''"
           "env_set (proc_env (json_server JNull) ++ config_env (json_server JNull)) ''INFLOW_COMPANY_ID''"
    by (simp_all add: json_server_def demo_env_def env_set_def)
  show ?thesis
    using connect_requires_credentials [OF h, of no_key_server]
      connect_requires_credentials [OF h, of "json_server JNull"] h e1 e2
    by blast
qed

theorem call_tool_success_never_throws_witness:
  "connected (conn connected_client) \<and>
   svc (json_server JNull) (calls (conn connected_client)) ''list_locations'' (JObj [])
     = Some (text_result False ''{}'') \<and>
   \<not> is_error (text_result False ''{}'') \<and>
   (\<exists>v. call_tool (json_server JNull) ''list_locations'' (JObj []) (conn connected_client) =
          Some (Inr v, (conn connected_client)\<lparr>calls := calls (conn connected_client) @ [(''list_locations'', JObj [])]\<rparr>))"
proof -
  have h1: "connected (conn connected_client)" by (simp add: connected_client_def)
  have h2: "svc (json_server JNull) (calls (conn connected_client)) ''list_locations'' (JObj [])
              = Some (text_result False ''{}'')" by (simp add: json_server_def)
  have h3: "\<not> is_error (text_result False ''{}'')" by (simp add: text_result_def)
  show ?thesis using call_tool_success_never_throws [OF h1 h2 h3] h1 h2 h3 by blast
qed

theorem call_tool_error_message_witness:
  "connected (conn connected_client) \<and>
   svc failing_server (calls (conn connected_client)) ''list_locations'' (JObj [])
     = Some (text_result True ''rejected'') \<and>
   is_error (text_result True ''rejected'') \<and> first_text (text_result True ''rejected'') = Some ''rejected'' \<and>
   ''rejected'' \<noteq> [] \<and>
   call_tool failing_server ''list_locations'' (JObj []) (conn connected_client) =
     Some (Inl (OperationError ''rejected''),
           (conn connected_client)\<lparr>calls := calls (conn connected_client) @ [(''list_locations'', JObj [])]\<rparr>)"
proof -
  have h1: "connected (conn connected_client)" by (simp add: connected_client_def)
  have h2: "svc failing_server (calls (conn connected_client)) ''list_locations'' (JObj [])
              = Some (text_result True ''rejected'')" by (simp add: failing_server_def)
  have h3: "is_error (text_result True ''rejected'')" "first_text (text_result True ''rejected'') = Some ''rejected''"
    by (simp_all add: text_result_def first_text_def)
  show ?thesis using call_tool_error_message [OF h1 h2 h3] h1 h2 h3 by simp
qed

theorem search_serial_normalised_witness:
  "normalize_serial '' abc123 '' = normalize_serial ''ABC123'' \<and>
   search_serial (json_server JNull) 0 '' abc123 '' connected_client =
     search_serial (json_server JNull) 0 ''ABC123'' connected_client"
proof -
  have h: "normalize_serial '' abc123 '' = normalize_serial ''ABC123''" by code_simp
  show ?thesis using search_serial_normalised [OF h] h by simp
qed

theorem search_result_found_witness:
  "map_of [(''ABC123'', JObj demo_fields1)] (normalize_serial '' abc123 '') = Some (JObj demo_fields1) \<and>
   distinct (map fst demo_fields1) \<and> ''found'' \<notin> set (map fst demo_fields1) \<and>
   \<not> list_ex (\<lambda>(k, _). is_index_key k) demo_fields1 \<and>
   search_result (JObj [(''ABC123'', JObj demo_fields1)]) '' abc123 '' order_not_found_msg =
     Inr (JObj ((''found'', JBool True) # demo_fields1))"
proof -
  have h1: "map_of [(''ABC123'', JObj demo_fields1)] (normalize_serial '' abc123 '') = Some (JObj demo_fields1)"
    by code_simp
  have h2: "distinct (map fst demo_fields1)" "''found'' \<notin> set (map fst demo_fields1)"
    "\<not> list_ex (\<lambda>(k, _). is_index_key k) demo_fields1"
    unfolding demo_fields1_def by code_simp+
  show ?thesis using search_result_found [OF h1 h2, of order_not_found_msg] h1 h2 by simp
qed

theorem search_result_not_found_witness:
  "normalize_serial ''zz9'' \<notin> set (map fst [(''ABC123'', JObj demo_fields1)]) \<and>
   search_result (JObj [(''ABC123'', JObj demo_fields1)]) ''zz9'' order_not_found_msg =
     Inr (JObj [(''found'', JBool False), (''serial'', JStr ''ZZ9''), (''message'', JStr order_not_found_msg)])"
proof -
  have h: "normalize_serial ''zz9'' \<notin> set (map fst [(''ABC123'', JObj demo_fields1)])" by code_simp
  have n: "normalize_serial ''zz9'' = ''ZZ9''" by code_simp
  show ?thesis using search_result_not_found [OF h, of order_not_found_msg] h n by simp
qed

theorem list_result_bound_witness:
  "get_opt (JObj [(''limit'', JNum 1)]) ''limit'' = JNum 1 \<and> (0::int) < 1 \<and>
   list_result demo_list_index (JObj [(''limit'', JNum 1)]) =
     Inr (JObj [(''count'', JNum 1), (''totalInIndex'', JNum 2), (''serials'', JArr [JObj [(''productId'', JStr ''Q'')]])]) \<and>
   (\<exists>n t ss. JObj [(''count'', JNum 1), (''totalInIndex'', JNum 2), (''serials'', JArr [JObj [(''productId'', JStr ''Q'')]])] =
              JObj [(''count'', JNum n), (''totalInIndex'', t), (''serials'', JArr ss)] \<and> n = int (length ss) \<and> n \<le> 1)"
proof -
  have h1: "get_opt (JObj [(''limit'', JNum 1)]) ''limit'' = JNum 1" by (simp add: get_opt_def)
  have h3: "list_result demo_list_index (JObj [(''limit'', JNum 1)]) =
     Inr (JObj [(''count'', JNum 1), (''totalInIndex'', JNum 2), (''serials'', JArr [JObj [(''productId'', JStr ''Q'')]])])"
    unfolding demo_list_index_def demo_list_fields_def by code_simp
  show ?thesis using list_result_bound [OF h1 _ h3] h1 h3 by simp
qed

text \<open>\<open>listSerials\<close> lists an integer-like serial before one inserted earlier.\<close>

theorem list_result_all_values_witness:
  "list_result (JObj demo_list_fields) JUndef =
     Inr (JObj [(''count'', JNum 2), (''totalInIndex'', JNum 2),
                (''serials'', JArr [JObj [(''productId'', JStr ''Q'')], JObj [(''productId'', JStr ''P'')]])]) \<and>
   mset [JObj [(''productId'', JStr ''Q'')], JObj [(''productId'', JStr ''P'')]] = mset (map snd demo_list_fields)"
proof -
  have t: "\<exists>vs. list_result (JObj demo_list_fields) JUndef =
          Inr (JObj [(''count'', JNum (int (length demo_list_fields))),
                     (''totalInIndex'', JNum (int (length demo_list_fields))),
                     (''serials'', JArr vs)]) \<and> mset vs = mset (map snd demo_list_fields)"
    by (rule list_result_all_values)
  have e: "list_result (JObj demo_list_fields) JUndef =
     Inr (JObj [(''count'', JNum 2), (''totalInIndex'', JNum 2),
                (''serials'', JArr [JObj [(''productId'', JStr ''Q'')], JObj [(''productId'', JStr ''P'')]])])"
    unfolding demo_list_fields_def by code_simp
  from t e show ?thesis by auto
qed

theorem product_index_last_wins_witness:
  "product_index ([prod_s1] @ [prod_s2]) [] = Inr [(''ABC123'', product_entry prod_s2 ''ABC123'')] \<and>
   get_prop prod_s2 ''serial'' = Inr (JStr ''ABC123 '') \<and>
   map_of [(''ABC123'', product_entry prod_s2 ''ABC123'')] (normalize_serial ''ABC123 '') =
     Some (product_entry prod_s2 (normalize_serial ''ABC123 ''))"
proof -
  have h1: "product_index ([prod_s1] @ [prod_s2]) [] = Inr [(''ABC123'', product_entry prod_s2 ''ABC123'')]"
    unfolding prod_s1_def prod_s2_def by code_simp
  have h2: "get_prop prod_s2 ''serial'' = Inr (JStr ''ABC123 '')" by (simp add: prod_s2_def)
  show ?thesis using product_index_last_wins [OF h1 h2] h1 h2 by simp
qed

theorem sales_order_serial_keys_witness:
  "sm_lines ''pack'' [demo_line2] [] = Inr demo_sm \<and>
   fst ` set demo_sm = fst ` set ([] :: serial_map) \<union>
     {s. truthy s \<and> (\<exists>line \<in> set [demo_line2]. \<exists>q ss. get_prop line ''quantity'' = Inr q \<and>
                                          get_opt q ''serialNumbers'' = JArr ss \<and> s \<in> set ss)}"
proof -
  have h: "sm_lines ''pack'' [demo_line2] [] = Inr demo_sm"
    unfolding demo_line2_def demo_sm_def by code_simp
  show ?thesis by (rule conjI [OF h sales_order_serial_keys [OF h]])
qed

theorem update_product_failed_read_leaves_cache_disabled_witness:
  "get_product failing_server 0 ''P1'' JUndef (disable_cache connected_client) =
     Some (Inl (OperationError ''rejected''), after_failed_get) \<and>
   cmd_update_product failing_server 0 ''P1'' (JStr ''New'') JUndef JUndef JUndef JUndef connected_client =
     Some (Inl (OperationError ''rejected''), after_failed_get) \<and>
   cache_disabled after_failed_get \<and> \<not> enabled (cache after_failed_get)"
proof -
  have h: "get_product failing_server 0 ''P1'' JUndef (disable_cache connected_client) =
             Some (Inl (OperationError ''rejected''), after_failed_get)"
    unfolding after_failed_get_def failing_server_def connected_client_def initial_client_def demo_env_def
      text_result_def
    by code_simp
  show ?thesis using update_product_failed_read_leaves_cache_disabled [OF h] h by simp
qed

theorem update_product_fresh_read_witness:
  "get_product (json_server demo_product_ts) 0 ''P1'' JUndef (disable_cache connected_client) =
     Some (Inr (JObj [(''productId'', JStr ''P1''), (''name'', JStr ''Widget''), (''timestamp'', JStr ''T1'')]),
           after_fresh_get) \<and>
   cmd_update_product (json_server demo_product_ts) 0 ''P1'' JUndef JUndef JUndef JUndef (JNum 12) connected_client =
     upsert_product (json_server demo_product_ts)
       (JObj [(''id'', JStr ''P1''), (''name'', JStr ''Widget''), (''sku'', JUndef), (''description'', JUndef),
              (''cost'', JUndef), (''defaultPrice'', JNum 12), (''timestamp'', JStr ''T1'')])
       (enable_cache after_fresh_get) \<and>
   cache after_fresh_get = cache (disable_cache connected_client)"
proof -
  have h1: "get_product (json_server demo_product_ts) 0 ''P1'' JUndef (disable_cache connected_client) =
     Some (Inr (JObj [(''productId'', JStr ''P1''), (''name'', JStr ''Widget''), (''timestamp'', JStr ''T1'')]),
           after_fresh_get)"
    unfolding after_fresh_get_def json_server_def connected_client_def initial_client_def demo_env_def
      text_result_def demo_product_ts_def
    by code_simp
  show ?thesis using update_product_fresh_read [OF h1] h1 by (simp add: get_opt_def js_or_def)
qed

theorem receive_po_items_modes_witness:
  "cmd_receive_po_items (json_server JNull) ''PO1'' JUndef JUndef JUndef connected_client =
     Some (Inl (CommandError receive_neither_msg), connected_client) \<and>
   ((\<exists>m. cmd_receive_po_items (json_server JNull) ''PO1'' (JBool True) (JStr ''[]'') JUndef connected_client =
          Some (Inl (CommandError m), connected_client)) \<longleftrightarrow> (truthy (JBool True) \<longleftrightarrow> truthy (JStr ''[]'')))"
  using receive_po_items_modes [of "json_server JNull" "''PO1''" "JBool True" "JStr ''[]''" JUndef connected_client]
  by (simp add: cmd_receive_po_items_def)

theorem unreceive_po_items_modes_witness:
  "(\<exists>m. cmd_unreceive_po_items (json_server JNull) ''PO1'' (JStr ''[1]'') JUndef (JBool True) JUndef connected_client =
      Some (Inl (CommandError m), connected_client)) \<and>
   length (filter truthy [JStr ''[1]'', JUndef, JBool True]) \<noteq> 1"
  using unreceive_po_items_modes [of "json_server JNull" "''PO1''" "JStr ''[1]''" JUndef "JBool True" JUndef
                                     connected_client]
  by simp

theorem create_purchase_order_invalid_items_witness:
  "json_parse failing_server ''not json'' = None \<and>
   cmd_create_purchase_order failing_server ''V1'' JUndef JUndef JUndef JUndef ''not json'' JUndef JUndef
     demo_cache_client = Some (Inl (CommandError invalid_items_msg), demo_cache_client)"
proof -
  have h: "json_parse failing_server ''not json'' = None" by (simp add: failing_server_def)
  show ?thesis using create_purchase_order_invalid_items [OF h] h by simp
qed

theorem add_po_item_appends_witness:
  "get_purchase_order (json_server demo_po) 0 ''PO1'' (JObj [(''include'', JArr [JStr ''lines''])])
     (disable_cache connected_client) = Some (Inr demo_po, after_po_get) \<and>
   get_prop demo_po ''lines'' = Inr (JArr [JObj [(''productId'', JStr ''A''), (''quantity'', JNum 2)]]) \<and>
   cmd_add_po_item (json_server demo_po) 0 ''PO1'' ''B'' 3 JUndef connected_client =
     upsert_purchase_order (json_server demo_po)
       (JObj [(''id'', JStr ''PO1''), (''vendorId'', JStr ''V1''),
              (''items'', JArr [JObj [(''productId'', JStr ''A''), (''quantity'', JNum 2)],
                                JObj [(''productId'', JStr ''B''), (''quantity'', JNum 3), (''unitCost'', JUndef)]]),
              (''timestamp'', JStr ''T2'')])
       (enable_cache after_po_get)"
proof -
  have h1: "get_purchase_order (json_server demo_po) 0 ''PO1'' (JObj [(''include'', JArr [JStr ''lines''])])
     (disable_cache connected_client) = Some (Inr demo_po, after_po_get)"
    unfolding after_po_get_def json_server_def connected_client_def initial_client_def demo_env_def
      text_result_def
    by code_simp
  have h2: "get_prop demo_po ''lines'' = Inr (JArr [JObj [(''productId'', JStr ''A''), (''quantity'', JNum 2)]])"
    by (simp add: demo_po_def)
  have v: "get_opt demo_po ''vendorId'' = JStr ''V1''" "get_opt demo_po ''timestamp'' = JStr ''T2''"
    by (simp_all add: demo_po_def get_opt_def)
  show ?thesis using add_po_item_appends [OF h1 h2] h1 h2 v by simp
qed

theorem build_serial_index_command_keeps_cache_witness:
  "cmd_build_serial_index (json_server (JArr [])) JUndef demo_cache_client =
     Some (Inr (JObj [(''success'', JBool True), (''totalSerials'', JNum 0), (''message'', JStr build_index_msg)]),
           demo_cache_client\<lparr>conn := after_page\<rparr>) \<and>
   cache (demo_cache_client\<lparr>conn := after_page\<rparr>) = cache demo_cache_client"
proof -
  have f: "fetch_orders (json_server (JArr [])) (JStr ''Fulfilled'') None 0 [] (conn demo_cache_client) =
             Some (Inr [], after_page)"
    by (subst fetch_orders.simps)
       (simp add: call_tool_connected demo_cache_client_def connected_client_def after_page_def json_server_def
                  text_result_def interpret_result_def first_text_def page_orders_def js_or_def page_size_def
                  Let_def)
  have h: "cmd_build_serial_index (json_server (JArr [])) JUndef demo_cache_client =
     Some (Inr (JObj [(''success'', JBool True), (''totalSerials'', JNum 0), (''message'', JStr build_index_msg)]),
           demo_cache_client\<lparr>conn := after_page\<rparr>)"
    by (simp add: cmd_build_serial_index_def build_serial_index_def on_conn_def get_opt_def js_or_def f
                  own_order_def)
  show ?thesis using build_serial_index_command_keeps_cache [OF h] h by simp
qed

text \<open>A store of two orders served by a server that reads the requested \<open>skip\<close>.\<close>

lemma store_server_serves: "serves_store (store_server os) status os"
  unfolding serves_store_def
proof (intro allI impI, elim conjE)
  fix c :: conn and skip :: int
  assume "connected c" "0 \<le> skip"
  then show "call_tool (store_server os) ''list_sales_orders'' (order_page_args status skip) c =
      Some (Inr (JArr (take page_size (drop (nat skip) os))),
            c\<lparr>calls := calls c @ [(''list_sales_orders'', order_page_args status skip)]\<rparr>)"
    by (simp add: call_tool_connected store_server_def text_result_def interpret_result_def first_text_def
                  order_page_args_def get_opt_def string_of_int_def digits_val_string_of_nat)
qed

theorem fetch_orders_collects_store_witness:
  "serves_store (store_server [demo_o1, demo_o2]) (JStr ''Fulfilled'') [demo_o1, demo_o2] \<and>
   connected (conn connected_client) \<and>
   (\<exists>c'. fetch_orders (store_server [demo_o1, demo_o2]) (JStr ''Fulfilled'') None 0 [] (conn connected_client) =
          Some (Inr [demo_o1, demo_o2], c'))"
proof -
  have h1: "serves_store (store_server [demo_o1, demo_o2]) (JStr ''Fulfilled'') [demo_o1, demo_o2]"
    by (rule store_server_serves)
  have h2: "connected (conn connected_client)" by (simp add: connected_client_def)
  show ?thesis using fetch_orders_collects_store [OF h1 h2] h1 h2 by simp
qed


theorem index_records_shape_witness:
  "index_orders [demo_o1] [] = Inr [(''ABC123'', demo_entry1)] \<and>
   (''ABC123'', demo_entry1) \<in> set [(''ABC123'', demo_entry1)] \<and>
   (\<exists>fs. demo_entry1 = JObj fs \<and>
      map fst fs = [''serial'', ''salesOrderId'', ''orderNumber'', ''orderDate'', ''productId'', ''shopifyOrderUrl''] \<and>
      map_of fs ''serial'' = Some (JStr ''ABC123''))"
  using index_records_shape [OF ex_index_o1, of "''ABC123''" demo_entry1] ex_index_o1 by simp

theorem built_index_finds_serial_witness:
  "index_orders [demo_o1] [] = Inr [(''ABC123'', demo_entry1)] \<and> demo_o1 \<in> set [demo_o1] \<and>
   ''packLines'' \<in> {''packLines'', ''pickLines'', ''lines''} \<and>
   get_prop demo_o1 ''packLines'' = Inr (JArr [demo_line ''A'' '' abc123 '']) \<and>
   demo_line ''A'' '' abc123 '' \<in> set [demo_line ''A'' '' abc123 ''] \<and>
   get_prop (demo_line ''A'' '' abc123 '') ''quantity'' = Inr demo_q1 \<and>
   get_opt demo_q1 ''serialNumbers'' = JArr [JStr '' abc123 ''] \<and>
   JStr '' abc123 '' \<in> set [JStr '' abc123 ''] \<and> '' abc123 '' \<noteq> [] \<and>
   normalize_serial ''abc123'' = normalize_serial '' abc123 '' \<and>
   (\<exists>fs. search_result (JObj [(''ABC123'', demo_entry1)]) ''abc123'' order_not_found_msg =
           Inr (JObj ((''found'', JBool True) # fs)) \<and>
         map_of fs ''serial'' = Some (JStr (normalize_serial '' abc123 '')))"
proof -
  have h4: "get_prop demo_o1 ''packLines'' = Inr (JArr [demo_line ''A'' '' abc123 ''])"
    unfolding demo_o1_def demo_order_def by code_simp
  have h6: "get_prop (demo_line ''A'' '' abc123 '') ''quantity'' = Inr demo_q1"
    unfolding demo_line_def demo_q1_def by code_simp
  have h7: "get_opt demo_q1 ''serialNumbers'' = JArr [JStr '' abc123 '']"
    unfolding demo_q1_def by code_simp
  have h10: "normalize_serial ''abc123'' = normalize_serial '' abc123 ''" by code_simp
  have h: "''packLines'' \<in> {''packLines'', ''pickLines'', ''lines''}" by simp
  show ?thesis
    using built_index_finds_serial [OF ex_index_o1 _ h h4 _ h6 h7 _ _ h10, of order_not_found_msg]
          ex_index_o1 h h4 h6 h7 h10 by simp
qed

text \<open>The stock entry cached before the adjustment is not served after it: the server is called.\<close>

theorem read_after_write_fetches_witness:
  "run_write (json_server (JObj [])) adj_op demo_cache_client = Some (Inr (JObj []), after_adj) \<and>
   Prefix ''stock'' \<in> set (write_families adj_op) \<and> matches (Prefix ''stock'') stock_key \<and>
   map_option (\<lambda>(r, c''). (r, conn c''))
     (cached stock_key (call_tool (json_server (JNum 9)) ''get_stock_levels'' JNull) ttl_five_minutes 0 after_adj) =
   call_tool (json_server (JNum 9)) ''get_stock_levels'' JNull (conn after_adj)"
proof -
  have h: "Prefix ''stock'' \<in> set (write_families adj_op)" by (simp add: adj_op_def)
  show ?thesis
    using read_after_write_fetches [OF ex_run_adj h ex_stock_key_matches] ex_run_adj h ex_stock_key_matches
    by simp
qed

lemma ex_upsert:
  "run_write (json_server demo_product) (UpsertProduct demo_product) after_get = Some (Inr demo_product, after_upsert)"
  unfolding after_upsert_def after_get_def demo_product_def json_server_def connected_client_def
    initial_client_def demo_env_def text_result_def
  by code_simp

theorem get_product_after_upsert_witness:
  "run_write (json_server demo_product) (UpsertProduct demo_product) after_get = Some (Inr demo_product, after_upsert) \<and>
   map_option (\<lambda>(r, c''). (r, conn c'')) (get_product (json_server demo_product) 0 ''P1'' JUndef after_upsert) =
     call_tool (json_server demo_product) ''get_product'' (JObj [(''productId'', JStr ''P1'')]) (conn after_upsert)"
  using get_product_after_upsert [OF ex_upsert, of 0 "''P1''"] ex_upsert by simp

text \<open>A purchase-order line of quantity zero is rewritten with quantity one.\<close>

theorem update_po_falsy_quantity_defaults_witness:
  "update_po_item (json_server JNull) demo_po_line =
     Inr (JObj [(''id'', JStr ''L1''), (''productId'', JStr ''P1''), (''description'', JStr ''Bolt''),
                (''quantity'', JNum 1), (''unitCost'', JNum 3)]) \<and>
   get_prop demo_po_line ''quantity'' = Inr (JNum 0) \<and> \<not> truthy (JNum 0) \<and> js_typeof (JNum 0) \<noteq> ''object'' \<and>
   get_opt (JObj [(''id'', JStr ''L1''), (''productId'', JStr ''P1''), (''description'', JStr ''Bolt''),
                  (''quantity'', JNum 1), (''unitCost'', JNum 3)]) ''quantity'' = parse_float (json_server JNull) ''1'' \<and>
   parse_float (json_server JNull) ''1'' = JNum 1"
proof -
  have h1: "update_po_item (json_server JNull) demo_po_line =
     Inr (JObj [(''id'', JStr ''L1''), (''productId'', JStr ''P1''), (''description'', JStr ''Bolt''),
                (''quantity'', JNum 1), (''unitCost'', JNum 3)])"
    unfolding demo_po_line_def json_server_def by code_simp
  have h2: "get_prop demo_po_line ''quantity'' = Inr (JNum 0)" by (simp add: demo_po_line_def)
  have h3: "parse_float (json_server JNull) ''1'' = JNum 1" by (simp add: json_server_def digits_val_def)
  show ?thesis using update_po_falsy_quantity_defaults [OF h1 h2] h1 h2 h3 by simp
qed

text \<open>A vendor created with only a postal code gets no address.\<close>

theorem create_vendor_drops_lone_postal_code_witness:
  "\<not> truthy JUndef \<and>
   cmd_create_vendor (json_server JNull) ''Acme'' JUndef JUndef JUndef JUndef JUndef (JStr ''SW1A'') JUndef JUndef =
   cmd_create_vendor (json_server JNull) ''Acme'' JUndef JUndef JUndef JUndef JUndef JUndef JUndef JUndef"
  using create_vendor_drops_lone_postal_code [of JUndef JUndef JUndef "json_server JNull" "''Acme''"] by simp

text \<open>Empty remarks clear the order's remarks; an empty order date keeps the order's date.\<close>

theorem update_po_empty_options_witness:
  "update_po_payload (json_server JNull) ''PO1'' (JStr []) (JStr []) (JStr []) JUndef demo_po_upd =
     Inr (JObj [(''id'', JStr ''PO1''), (''vendorId'', JStr ''V1''),
                (''items'', JArr [JObj [(''id'', JStr ''L1''), (''productId'', JStr ''P1''), (''description'', JStr ''Bolt''),
                                      (''quantity'', JNum 1), (''unitCost'', JNum 3)]]),
                (''remarks'', JStr []), (''orderDate'', JStr ''2024-01-01''), (''expectedDate'', JStr ''2024-02-01''),
                (''currencyCode'', JUndef), (''timestamp'', JStr ''T3'')]) \<and>
   get_opt demo_po_upd ''orderDate'' = JStr ''2024-01-01'' \<and>
   get_opt demo_po_upd ''expectedDate'' = JStr ''2024-02-01''"
proof -
  have h: "update_po_payload (json_server JNull) ''PO1'' (JStr []) (JStr []) (JStr []) JUndef demo_po_upd =
     Inr (JObj [(''id'', JStr ''PO1''), (''vendorId'', JStr ''V1''),
                (''items'', JArr [JObj [(''id'', JStr ''L1''), (''productId'', JStr ''P1''), (''description'', JStr ''Bolt''),
                                      (''quantity'', JNum 1), (''unitCost'', JNum 3)]]),
                (''remarks'', JStr []), (''orderDate'', JStr ''2024-01-01''), (''expectedDate'', JStr ''2024-02-01''),
                (''currencyCode'', JUndef), (''timestamp'', JStr ''T3'')])"
    unfolding demo_po_upd_def demo_po_line_def json_server_def by code_simp
  have g: "get_opt demo_po_upd ''orderDate'' = JStr ''2024-01-01''"
    "get_opt demo_po_upd ''expectedDate'' = JStr ''2024-02-01''"
    by (simp_all add: demo_po_upd_def get_opt_def)
  show ?thesis using update_po_empty_options [OF h] h g by simp
qed

end
