(* ===== verification/Spec2Isabelle.thy ===== *)
theory Spec2Isabelle
  imports Examples
begin

text \<open>
  \<^bold>\<open>A verification model of the inFlow inventory client.\<close>

  The program is a command-line client (\<^verbatim>\<open>src/scripts/cli.ts\<close>) over one
  class, \<open>InFlowMCPClient\<close> of \<^verbatim>\<open>src/scripts/mcp-client.ts\<close>, which talks
  to an inFlow MCP server through the MCP SDK and keeps a process-wide cache of
  read results (\<open>PluginCache\<close> of the package \<open>@local/plugin-cache\<close>). Every
  read accessor builds a cache key with \<open>createCacheKey\<close>, and passes
  \<open>cache.getOrFetch\<close> a producer that calls one MCP tool through \<open>callTool\<close>;
  every write method calls its tool and, when the call returns, purges the key
  families it affects with \<open>cache.invalidatePattern\<close>. The serial-number
  index scans the fulfilled sales orders page by page.

  \<^bold>\<open>Theories.\<close>
  \<^item> \<open>Prelude\<close>: the error type (one constructor per kind of thrown
    \<open>Error\<close>), the state-and-error monad \<open>('s, 'a) st\<close>, a function from
    a state to \<open>Some (result, state')\<close> or to \<open>None\<close> when the computation
    never returns, its operations \<open>returnE\<close>, \<open>throwE\<close>, \<open>bindE\<close>, and the
    elimination rule \<open>bindE_cases\<close> that the component proofs share.
  \<^item> \<open>Js_Value\<close>: the JavaScript values the code handles without a schema
    (\<open>jsval\<close>), truthiness, property reads that throw on \<open>null\<close> and
    \<open>undefined\<close>, optional chaining, \<open>String(v)\<close>, and the serial
    normalisation \<open>trim().toUpperCase()\<close> (ASCII), proved idempotent.
  \<^item> \<open>Cache_Store\<close>: \<open>PluginCache\<close> as a record of a \<open>Mapping\<close> from keys
    to entries with an expiry time, hit and miss counters and the global
    switch; \<open>get_or_fetch\<close>, \<open>invalidate\<close>, \<open>invalidate_pattern\<close>,
    \<open>clear\<close>, \<open>enable\<close>, \<open>disable\<close>, \<open>get_stats\<close>. The package is not in
    the repository: the model follows section 4.1 of the specification. Its
    contract is \<open>coherent truth now c\<close> (every value a reader can see is the
    true one); \<open>get_or_fetch_refines\<close> and
    \<open>invalidate_patterns_restores_coherence\<close> are the refinement lemmas.
  \<^item> \<open>Cache_Key\<close>: \<open>createCacheKey\<close> (specification section 4.2), proved
    independent of the order of the parameters and to begin with the
    operation name and a colon.
  \<^item> \<open>Gateway\<close>: \<open>connect\<close>, \<open>disconnect\<close>, \<open>callTool\<close> and
    \<open>listTools\<close> (lines 99 to 184). The server is a record of the two environments, whether the
    transport comes up, the tool service \<open>svc\<close> (a function of the history of
    calls, so that writes can change later reads) \<open>JSON.parse\<close> and the
    tool list of the SDK. The connection state \<open>conn\<close> records the flag \<open>connected\<close>, the calls
    issued and the number of transports (server processes) \<open>connect\<close> has created.
  \<^item> \<open>Client\<close>: the client state (cache, \<open>cacheDisabled\<close>, connection),
    the cache-control methods (lines 54 to 89), \<open>cached\<close> (the composition
    of \<open>getOrFetch\<close> with a producer on the connection), and every cached read
    accessor with its key, tool, arguments and TTL tier.
  \<^item> \<open>Mutations\<close>: the eight write methods, a datatype \<open>write_op\<close> of them
    with the step function \<open>run_write\<close> and the families \<open>write_families\<close>
    each purges.
  \<^item> \<open>Serial_Index\<close>: \<open>buildSerialIndex\<close> (lines 995 to 1062): the page
    loop \<open>fetch_orders\<close> and the extraction \<open>index_orders\<close>.
  \<^item> \<open>Serial_Search\<close>: \<open>searchSerial\<close> and \<open>listSerials\<close> over the cached
    order-based index (\<open>search_result\<close>, \<open>list_result\<close>), the property order
    of \<open>Object.values\<close> (integer-like keys first, \<open>own_order\<close>), the
    product-based index \<open>product_index\<close> and its search, the per-order
    extractors \<open>get_sales_order_serials\<close> and \<open>get_purchase_order_serials\<close>,
    and the legacy aliases (lines 902 to 980 and 1081 to 1309).
  \<^item> \<open>Serial_Properties\<close>: properties across the serial parts: the page loop
    against a server that serves a finite store (\<open>serves_store\<close>), the shape of
    the records of a built index, and build-then-search.
  \<^item> \<open>Cli\<close>: the command handlers of \<^verbatim>\<open>src/scripts/cli.ts\<close>, one
    definition \<open>cmd_...\<close> per entry of \<open>commands\<close>, after argument
    validation: \<open>split_opt\<close> for the comma lists, \<open>parse_opt\<close> for the JSON
    arguments (\<open>SyntaxError\<close> on malformed text), the usage errors as
    \<open>CommandError\<close>; the update commands compose \<open>disableCache\<close>, a fresh
    read, \<open>enableCache\<close> and the write, as the code does.
  \<^item> \<open>Examples\<close>: fixtures (servers, orders, clients, a server \<open>store_server\<close>
    that serves a list of orders by \<open>skip\<close>) and one witness per property
    with a hypothesis, which applies the property at a fixture and discharges its
    hypotheses by evaluation (\<open>simp\<close>, \<open>code_simp\<close>).

  \<^bold>\<open>What is proved.\<close> For the serial index: the first writer wins across
  orders and the pack lines win within an order; the index is an append-only
  store (from a well-formed index a build keeps every record, its key, value and
  position, and appends the new serials, which a missing first-writer guard would
  break); every record is a SerialRecord keyed by its own serial; the page loop returns
  for every server when the limit is positive, and without a limit it returns the
  whole store of a server that serves a finite one; a short last page is
  returned whole, past the limit (a defect of the code). For the readers: queries
  with the same normalisation agree; a serial recorded on an order of a build is
  found; an absent one gives the structured not-found value; a listing respects
  its limit and lists every record, and \<open>Object.values\<close> puts a serial that is a
  decimal numeral below \<open>2^32 - 1\<close> before every other serial, whatever the
  insertion order. For the
  writes: a failed write leaves the cache as it was, a successful one removes
  exactly the entries of its families, invalidation keeps the cache coherent with
  the server when the write changes only keys of its families, and the stock
  writes leave the serial caches in place (a divergence from the specification).
  For the accessors: a second product read within its fifteen-minute TTL is a
  hit that does not call the server; a stock read five minutes or more after a
  miss calls the server again (the short tier); input validation happens before
  any effect. Across writes and reads: after a successful write every
  cached read whose key is in a purged family behaves as the uncached call (the
  server is called), so \<open>getProduct\<close> after \<open>upsertProduct\<close> reads the
  server's product. For the gateway: \<open>connect\<close> is idempotent (a second call creates no second
  transport, so no second server process) and fails
  exactly when a credential is missing; a result not flagged as an error never
  throws, and an error result throws its message. For the commands: a failed
  fresh read leaves the cache disabled (no \<open>finally\<close>), a successful one
  writes \<open>name || current.name\<close> and the product's timestamp with the cache
  re-enabled; create-vendor drops a postal code given without street, city or
  country; the receive and unreceive commands
  throw their usage error exactly in the invalid combinations of modes, before
  any effect; \<open>--include\<close> reaches the cache key verbatim; the
  build-serial-index command does not cache what its message says it cached;
  update-purchase-order sends a line of quantity \<open>0\<close> back with quantity
  \<open>parseFloat('1')\<close>, clears the remarks on an empty \<open>--remarks\<close> but keeps
  the dates on an empty \<open>--orderDate\<close>, fails on a line whose quantity is
  \<open>null\<close>, and ignores \<open>--carrier\<close>. The README's claim that the CLI retries
  contradicts \<open>callTool\<close>, which calls once and throws the remote error.

  \<^bold>\<open>Time, fuel and bounds.\<close> Time is an integer clock in seconds passed to
  each call that reads it; a TTL is in seconds. The page loop of
  \<open>buildSerialIndex\<close> has no fuel: it is a \<^theory_text>\<open>partial_function (option)\<close>, so
  that a server returning full pages forever makes it diverge (\<open>None\<close>).
  \<open>fetch_orders_capped_returns\<close> proves it returns under a positive limit by
  induction on the number of orders still missing, and
  \<open>fetch_orders_collects_store\<close> that it returns without a limit on a finite
  store, by induction on the number of orders not yet fetched. JavaScript
  numbers are integers: every number of the code modelled is a count, an offset
  or a limit; the array-index bound \<open>2^32 - 1\<close> of \<open>Object.values\<close> is kept.
  The one place where the code makes numbers that need not be integers,
  \<open>parseFloat\<close> in \<open>update-purchase-order\<close>, uses the runtime's function
  \<open>parse_float\<close> of the server record, left abstract as \<open>JSON.parse\<close> is; the
  properties of that command hold for every such function.

  \<^bold>\<open>Not modelled.\<close> The MCP SDK and its stdio transport, \<open>JSON.parse\<close>
  and \<open>parseFloat\<close>, which are parameters of the server record; the Zod schemas, \<open>runCli\<close> and
  \<open>cacheCommands\<close> of \<open>@local/cli-utils\<close> (not in the repository), so the
  commands start after validation with typed arguments, and their console output;
  how \<open>runCli\<close> names options is not known from the repository (the README uses
  kebab-case options, the CLI's own messages camelCase ones), so the option
  parsing and the README's command lines are not modelled; the agent prompt
  \<^verbatim>\<open>src/agents/inflow-inventory-manager.md\<close> (prose instructions) and the
  generated README \<^verbatim>\<open>src/unnamed/part_000\<close> (documentation, its claims recorded
  as findings against the code).
\<close>

end
